(* ===== verification/Prelude.thy ===== *)
theory Prelude
  imports Main "HOL-Library.AList"
begin

text \<open>
  Shared vocabulary of the development.
  \<^item> Python dictionaries keep insertion order, replace the value of an existing key in
    place and append a new key at the end: this is exactly \<open>AList.update\<close>, and
    \<open>del d[k]\<close> is \<open>AList.delete\<close>. A dictionary is therefore an association list,
    read through \<open>map_of\<close>.
  \<^item> The Python exceptions that the program raises or lets escape are the constructors
    of \<open>py_error\<close>.
  \<^item> A statement of the program is a function from the state to a result and the next
    state; a raised exception is an \<open>Inl\<close> result that keeps the state reached at the
    point of the raise (the program never rolls back), and \<open>bindE\<close> sequences two
    statements, skipping the second after an exception.
\<close>

named_theorems exc_simps "evaluation rules of the exception-state monad"
named_theorems dict_simps "rules for Python dictionaries as association lists"

type_synonym ('k, 'v) pydict = "('k \<times> 'v) list"

datatype py_error =
    SystemExit int
  | EOFError
  | FileNotFoundError string
  | FileExistsError string
  | IsADirectoryError string
  | NotADirectoryError string
  | ShutilError string
  | OSError string
  | KeyError string
  | JSONDecodeError
  | ConfigShapeError

type_synonym ('s, 'a) exc = "'s \<Rightarrow> (py_error + 'a) \<times> 's"

definition returnE :: "'a \<Rightarrow> ('s, 'a) exc" where
  "returnE a s = (Inr a, s)"

definition raiseE :: "py_error \<Rightarrow> ('s, 'a) exc" where
  "raiseE e s = (Inl e, s)"

definition bindE :: "('s, 'a) exc \<Rightarrow> ('a \<Rightarrow> ('s, 'b) exc) \<Rightarrow> ('s, 'b) exc" where
  "bindE m f s = (case m s of (Inl e, s') \<Rightarrow> (Inl e, s') | (Inr a, s') \<Rightarrow> f a s')"

definition getsE :: "('s \<Rightarrow> 'a) \<Rightarrow> ('s, 'a) exc" where
  "getsE g s = (Inr (g s), s)"

definition modifyE :: "('s \<Rightarrow> 's) \<Rightarrow> ('s, unit) exc" where
  "modifyE g s = (Inr (), g s)"

text \<open>Sequencing two statements whose first returns nothing.\<close>

definition thenE :: "('s, unit) exc \<Rightarrow> ('s, 'b) exc \<Rightarrow> ('s, 'b) exc" where
  "thenE m n = bindE m (\<lambda>_. n)"

text \<open>A \<open>for\<close> loop whose body is a statement.\<close>

primrec forE :: "'a list \<Rightarrow> ('a \<Rightarrow> ('s, unit) exc) \<Rightarrow> ('s, unit) exc" where
  "forE [] body = returnE ()"
| "forE (x # xs) body = thenE (body x) (forE xs body)"

subsection \<open>Dictionaries\<close>

text \<open>The keys of a dictionary, in its iteration order.\<close>

abbreviation dict_keys :: "('k, 'v) pydict \<Rightarrow> 'k list" where
  "dict_keys d \<equiv> map fst d"

text \<open>\<open>d[k]\<close>: the value of \<open>k\<close>, or \<open>KeyError\<close>.\<close>

definition getitem :: "(string, 'v) pydict \<Rightarrow> string \<Rightarrow> ('s, 'v) exc" where
  "getitem d k = (case map_of d k of Some v \<Rightarrow> returnE v | None \<Rightarrow> raiseE (KeyError k))"

subsection \<open>Evaluation rules\<close>

lemma bindE_Inr [exc_simps]: "m s = (Inr a, s') \<Longrightarrow> bindE m f s = f a s'"
  by (simp add: bindE_def)

lemma bindE_Inl [exc_simps]: "m s = (Inl e, s') \<Longrightarrow> bindE m f s = (Inl e, s')"
  by (simp add: bindE_def)

lemma thenE_Inr [exc_simps]: "m s = (Inr u, s') \<Longrightarrow> thenE m n s = n s'"
  by (simp add: thenE_def bindE_def)

lemma thenE_Inl [exc_simps]: "m s = (Inl e, s') \<Longrightarrow> thenE m n s = (Inl e, s')"
  by (simp add: thenE_def bindE_def)

lemma returnE_apply [simp, exc_simps]: "returnE a s = (Inr a, s)"
  by (simp add: returnE_def)

lemma raiseE_apply [simp, exc_simps]: "raiseE e s = (Inl e, s)"
  by (simp add: raiseE_def)

lemma getsE_apply [simp, exc_simps]: "getsE g s = (Inr (g s), s)"
  by (simp add: getsE_def)

lemma modifyE_apply [simp, exc_simps]: "modifyE g s = (Inr (), g s)"
  by (simp add: modifyE_def)

lemma bindE_returnE [simp]: "bindE (returnE a) f = f a"
  by (simp add: bindE_def fun_eq_iff)

lemma bindE_getsE [simp]: "bindE (getsE g) f s = f (g s) s"
  by (simp add: bindE_def)

lemma bindE_raiseE [simp]: "bindE (raiseE e) f = raiseE e"
  by (simp add: bindE_def fun_eq_iff)

lemma thenE_modifyE [simp]: "thenE (modifyE g) n s = n (g s)"
  by (simp add: thenE_def bindE_def)

lemma thenE_returnE [simp]: "thenE (returnE u) n = n"
  by (simp add: thenE_def)

lemma thenE_raiseE [simp]: "thenE (raiseE e) n = raiseE e"
  by (simp add: thenE_def)

lemma bindE_assoc: "bindE (bindE m f) g = bindE m (\<lambda>a. bindE (f a) g)"
  by (auto simp: bindE_def fun_eq_iff split: prod.splits sum.splits)

lemma bindE_cases:
  assumes "bindE m f s = (r, s')"
  obtains e where "m s = (Inl e, s')" and "r = Inl e"
  | a t where "m s = (Inr a, t)" and "f a t = (r, s')"
  using assms by (auto simp: bindE_def split: prod.splits sum.splits)

lemma thenE_cases:
  assumes "thenE m n s = (r, s')"
  obtains e where "m s = (Inl e, s')" and "r = Inl e"
  | u t where "m s = (Inr u, t)" and "n t = (r, s')"
  using assms unfolding thenE_def by (rule bindE_cases)

text \<open>Elimination of a successful sequence into its two successful parts.\<close>

lemma bindE_InrE:
  assumes "bindE m f s = (Inr b, s'')"
  obtains a s' where "m s = (Inr a, s')" and "f a s' = (Inr b, s'')"
  using assms by (auto simp: bindE_def split: prod.splits sum.splits)

lemma thenE_InrE:
  assumes "thenE m n s = (Inr b, s'')"
  obtains s' where "m s = (Inr (), s')" and "n s' = (Inr b, s'')"
  using assms by (auto simp: thenE_def bindE_def split: prod.splits sum.splits)

text \<open>
  An invariant of the state that every statement of a loop body keeps is kept by the
  loop, whether it ends normally or by an exception.
\<close>

lemma forE_invariant:
  assumes "\<And>x s r s'. x \<in> set xs \<Longrightarrow> P s \<Longrightarrow> body x s = (r, s') \<Longrightarrow> P s'"
    and "P s" and "forE xs body s = (r, s')"
  shows "P s'"
  using assms
proof (induction xs arbitrary: s)
  case Nil
  then show ?case by simp
next
  case (Cons x xs)
  from Cons.prems(3) have "thenE (body x) (forE xs body) s = (r, s')" by simp
  then show ?case
  proof (cases rule: thenE_cases)
    case (1 e)
    then show ?thesis using Cons.prems(1) [of x s "Inl e" s'] Cons.prems(2) by simp
  next
    case (2 u t)
    have "P t" using Cons.prems(1) [of x s "Inr u" t] Cons.prems(2) 2(1) by simp
    moreover have "\<And>y s r s'. y \<in> set xs \<Longrightarrow> P s \<Longrightarrow> body y s = (r, s') \<Longrightarrow> P s'"
      using Cons.prems(1) by (metis list.set_intros(2))
    ultimately show ?thesis using Cons.IH 2(2) by blast
  qed
qed

subsection \<open>Dictionary rules\<close>

lemma getitem_Some [exc_simps]: "map_of d k = Some v \<Longrightarrow> getitem d k s = (Inr v, s)"
  by (simp add: getitem_def)

lemma getitem_None [exc_simps]: "map_of d k = None \<Longrightarrow> getitem d k s = (Inl (KeyError k), s)"
  by (simp add: getitem_def)

lemmas [dict_simps] = AList.update_conv' AList.delete_conv' AList.distinct_update
  AList.distinct_delete AList.dom_update AList.delete_keys

lemma in_dict_keys_iff [dict_simps]: "k \<in> set (dict_keys d) \<longleftrightarrow> map_of d k \<noteq> None"
  by (simp add: map_of_eq_None_iff image_iff)

lemma dict_keys_update_mem [dict_simps]:
  "k \<in> set (dict_keys d) \<Longrightarrow> dict_keys (AList.update k v d) = dict_keys d"
  by (induction d) auto

lemma dict_keys_update_new [dict_simps]:
  "k \<notin> set (dict_keys d) \<Longrightarrow> dict_keys (AList.update k v d) = dict_keys d @ [k]"
  by (induction d) auto

end
