(* ===== verification/PyStr.thy ===== *)
theory PyStr
  imports Prelude
begin

text \<open>
  The parts of Python's standard library that the program applies to strings, written
  as executable functions: \<open>str(n)\<close> and \<open>int(s)\<close> for the numbered choice and the
  numeric command suffix, \<open>str.lower\<close> and \<open>str.replace\<close> for the command derived
  by \<open>sync\<close>, the \<open>pathlib\<close> operations \<open>/\<close>, \<open>.name\<close>, \<open>.stem\<close> and \<open>.parent\<close>
  on normalised absolute paths, the pattern \<open>{name}*.AppImage\<close> of \<open>Path.glob\<close>, and
  \<open>repr\<close> of a string. A \<open>char\<close> stands for a Unicode code point below 256
  (Latin-1); case mapping, whitespace and printability follow Python's Unicode tables
  on that range.
\<close>

type_synonym path = string

subsection \<open>Digits: str(n) and int(s)\<close>

definition is_digit :: "char \<Rightarrow> bool" where
  "is_digit c \<longleftrightarrow> 48 \<le> (of_char c :: nat) \<and> (of_char c :: nat) \<le> 57"

definition digit_val :: "char \<Rightarrow> nat" where
  "digit_val c = of_char c - 48"

definition digit_char :: "nat \<Rightarrow> char" where
  "digit_char d = char_of (48 + d)"

fun str_nat :: "nat \<Rightarrow> string" where
  "str_nat n = (if n < 10 then [digit_char n] else str_nat (n div 10) @ [digit_char (n mod 10)])"

declare str_nat.simps [simp del]

definition digits_value :: "nat \<Rightarrow> string \<Rightarrow> nat" where
  "digits_value acc s = foldl (\<lambda>a c. 10 * a + digit_val c) acc s"

text \<open>Digits with single underscores between them, as \<open>int()\<close> accepts them.\<close>

fun digits_us :: "nat \<Rightarrow> string \<Rightarrow> nat option" where
  "digits_us acc [] = Some acc"
| "digits_us acc (c # cs) =
     (if is_digit c then digits_us (10 * acc + digit_val c) cs
      else if c = CHR ''_'' then
        (case cs of
          [] \<Rightarrow> None
        | d # ds \<Rightarrow> if is_digit d then digits_us (10 * acc + digit_val d) ds else None)
      else None)"

definition parse_uint :: "string \<Rightarrow> nat option" where
  "parse_uint s = (case s of [] \<Rightarrow> None
     | d # ds \<Rightarrow> if is_digit d then digits_us (digit_val d) ds else None)"

definition is_space :: "char \<Rightarrow> bool" where
  "is_space c \<longleftrightarrow>
     (let n = (of_char c :: nat) in (9 \<le> n \<and> n \<le> 13) \<or> (28 \<le> n \<and> n \<le> 32) \<or> n = 133 \<or> n = 160)"

definition py_strip :: "string \<Rightarrow> string" where
  "py_strip s = rev (dropWhile is_space (rev (dropWhile is_space s)))"

text \<open>\<open>int(s)\<close>: \<open>None\<close> where Python raises \<open>ValueError\<close>.\<close>

definition py_int :: "string \<Rightarrow> int option" where
  "py_int s = (case py_strip s of
      [] \<Rightarrow> None
    | c # cs \<Rightarrow>
        if c = CHR ''-'' then map_option (\<lambda>n. - int n) (parse_uint cs)
        else if c = CHR ''+'' then map_option int (parse_uint cs)
        else map_option int (parse_uint (c # cs)))"

subsection \<open>Case mapping and replacement\<close>

definition lower_char :: "char \<Rightarrow> char" where
  "lower_char c = (let n = (of_char c :: nat) in
     if (65 \<le> n \<and> n \<le> 90) \<or> (192 \<le> n \<and> n \<le> 222 \<and> n \<noteq> 215) then char_of (n + 32) else c)"

definition py_lower :: "string \<Rightarrow> string" where
  "py_lower s = map lower_char s"

text \<open>\<open>s.replace(a, b)\<close> for one-character \<open>a\<close> and \<open>b\<close>.\<close>

definition replace_char :: "char \<Rightarrow> char \<Rightarrow> string \<Rightarrow> string" where
  "replace_char a b s = map (\<lambda>c. if c = a then b else c) s"

subsection \<open>pathlib\<close>

text \<open>
  \<open>p / s\<close>: an absolute \<open>s\<close> replaces \<open>p\<close>, an empty \<open>s\<close> leaves \<open>p\<close>, otherwise one
  separator is put between them.
\<close>

definition path_join :: "path \<Rightarrow> string \<Rightarrow> path" where
  "path_join p s =
     (if s = [] then p
      else if hd s = CHR ''/'' then s
      else if p \<noteq> [] \<and> last p = CHR ''/'' then p @ s
      else p @ CHR ''/'' # s)"

definition path_name :: "path \<Rightarrow> string" where
  "path_name p = rev (takeWhile (\<lambda>c. c \<noteq> CHR ''/'') (rev p))"

definition path_parent :: "path \<Rightarrow> path" where
  "path_parent p = (case dropWhile (\<lambda>c. c \<noteq> CHR ''/'') (rev p) of
      [] \<Rightarrow> ''.''
    | _ # r \<Rightarrow> if r = [] then ''/'' else rev r)"

text \<open>
  A plain name (one path component) and a normalised directory path (absolute, no
  trailing separator): joining the two is plain concatenation.
\<close>

definition plain_name :: "string \<Rightarrow> bool" where
  "plain_name n \<longleftrightarrow> n \<noteq> [] \<and> CHR ''/'' \<notin> set n"

definition norm_dir :: "path \<Rightarrow> bool" where
  "norm_dir p \<longleftrightarrow> p \<noteq> [] \<and> hd p = CHR ''/'' \<and> last p \<noteq> CHR ''/''"

text \<open>\<open>str.rfind(c)\<close>: the last position of \<open>c\<close>.\<close>

fun rfind_from :: "char \<Rightarrow> nat \<Rightarrow> string \<Rightarrow> nat option \<Rightarrow> nat option" where
  "rfind_from c i [] r = r"
| "rfind_from c i (x # xs) r = rfind_from c (Suc i) xs (if x = c then Some i else r)"

definition rfind :: "char \<Rightarrow> string \<Rightarrow> nat option" where
  "rfind c s = rfind_from c 0 s None"

text \<open>\<open>PurePath.stem\<close>: the name without its last suffix; a leading or final dot is no suffix.\<close>

definition path_stem :: "path \<Rightarrow> string" where
  "path_stem p = (let n = path_name p in
     case rfind CHR ''.'' n of
       Some i \<Rightarrow> if 0 < i \<and> i < length n - 1 then take i n else n
     | None \<Rightarrow> n)"

text \<open>
  A name matches \<open>{a}*{s}\<close> (no other wildcard in \<open>a\<close> or \<open>s\<close>) when it starts
  with \<open>a\<close>, ends with \<open>s\<close>, and the two do not overlap.
\<close>

definition star_match :: "string \<Rightarrow> string \<Rightarrow> string \<Rightarrow> bool" where
  "star_match a s n \<longleftrightarrow>
     length a + length s \<le> length n \<and> take (length a) n = a \<and> drop (length n - length s) n = s"

abbreviation appimage_ext :: string where
  "appimage_ext \<equiv> ''.AppImage''"

subsection \<open>Joining and quoting\<close>

text \<open>\<open>sep.join(xs)\<close>.\<close>

fun py_join :: "string \<Rightarrow> string list \<Rightarrow> string" where
  "py_join sep [] = []"
| "py_join sep [x] = x"
| "py_join sep (x # xs) = x @ sep @ py_join sep xs"

text \<open>A string between single quotes, as the f-strings \<open>'{x}'\<close> of the messages write it.\<close>

definition squote :: "string \<Rightarrow> string" where
  "squote s = CHR 0x27 # s @ [CHR 0x27]"

subsection \<open>repr\<close>

definition hex_digit :: "nat \<Rightarrow> char" where
  "hex_digit d = (if d < 10 then char_of (48 + d) else char_of (87 + d))"

definition repr_char :: "char \<Rightarrow> char \<Rightarrow> string" where
  "repr_char q c =
     (let n = (of_char c :: nat); bs = CHR 0x5C in
      if c = q \<or> c = bs then [bs, c]
      else if n = 9 then [bs, CHR ''t'']
      else if n = 10 then [bs, CHR ''n'']
      else if n = 13 then [bs, CHR ''r'']
      else if n < 32 \<or> (127 \<le> n \<and> n \<le> 160) \<or> n = 173 then [bs, CHR ''x'', hex_digit (n div 16), hex_digit (n mod 16)]
      else [c])"

definition py_repr :: "string \<Rightarrow> string" where
  "py_repr s =
     (let q = (if CHR 0x27 \<in> set s \<and> CHR 0x22 \<notin> set s then CHR 0x22 else CHR 0x27)
      in q # concat (map (repr_char q) s) @ [q])"


definition py_repr_dict :: "(string \<times> string) list \<Rightarrow> string" where
  "py_repr_dict d = CHR ''{'' # py_join '', '' (map (\<lambda>(k, v). py_repr k @ '': '' @ py_repr v) d) @ ''}''"

subsection \<open>Digits\<close>

lemma digit_char_props:
  assumes "d < 10"
  shows "is_digit (digit_char d)" "digit_val (digit_char d) = d"
  using assms by (simp_all add: is_digit_def digit_val_def digit_char_def)

lemma str_nat_digits: "\<forall>c \<in> set (str_nat n). is_digit c"
  by (induction n rule: str_nat.induct) (subst str_nat.simps, simp add: digit_char_props)

lemma str_nat_value: "digits_value 0 (str_nat n) = n"
proof (induction n rule: str_nat.induct)
  case (1 n)
  show ?case
  proof (cases "n < 10")
    case True
    then show ?thesis by (subst str_nat.simps) (simp add: digits_value_def digit_char_props)
  next
    case False
    then have "digits_value 0 (str_nat (n div 10)) = n div 10" by (rule "1.IH")
    with False show ?thesis
      by (subst str_nat.simps) (simp add: digits_value_def digit_char_props)
  qed
qed

lemma str_nat_inj: "str_nat m = str_nat n \<Longrightarrow> m = n"
  by (metis str_nat_value)

lemma str_nat_not_Nil: "str_nat n \<noteq> []"
  by (subst str_nat.simps) simp

lemma str_nat_no_slash: "CHR ''/'' \<notin> set (str_nat n)"
  using str_nat_digits [of n] by (auto simp: is_digit_def)

lemma digits_us_digits: "\<forall>c \<in> set s. is_digit c \<Longrightarrow> digits_us acc s = Some (digits_value acc s)"
  by (induction s arbitrary: acc) (simp_all add: digits_value_def)

lemma py_strip_digits: "\<forall>c \<in> set s. is_digit c \<Longrightarrow> py_strip s = s"
proof -
  assume d: "\<forall>c \<in> set s. is_digit c"
  then have ns: "\<forall>c \<in> set s. \<not> is_space c" by (auto simp: is_digit_def is_space_def Let_def)
  then have "dropWhile is_space s = s" by (cases s) simp_all
  moreover from ns have "dropWhile is_space (rev s) = rev s" by (cases "rev s") auto
  ultimately show ?thesis by (simp add: py_strip_def)
qed

theorem py_int_str_nat: "py_int (str_nat n) = Some (int n)"
proof -
  obtain d ds where s: "str_nat n = d # ds" by (cases "str_nat n") (simp_all add: str_nat_not_Nil)
  have dig: "\<forall>c \<in> set (d # ds). is_digit c" using str_nat_digits [of n] by (simp add: s)
  then have "d \<noteq> CHR ''-''" "d \<noteq> CHR ''+''" by (auto simp: is_digit_def)
  moreover have "parse_uint (d # ds) = Some n"
    using dig digits_us_digits [of ds "digit_val d"] str_nat_value [of n]
    by (simp add: parse_uint_def s digits_value_def)
  ultimately show ?thesis
    using py_strip_digits [OF dig] by (simp add: py_int_def s)
qed

subsection \<open>Path names\<close>

lemma path_name_no_slash: "CHR ''/'' \<notin> set n \<Longrightarrow> path_name n = n"
  unfolding path_name_def by (subst takeWhile_eq_all_conv [THEN iffD2]) auto

lemma path_name_append_slash: "CHR ''/'' \<notin> set n \<Longrightarrow> path_name (d @ CHR ''/'' # n) = n"
  unfolding path_name_def by (simp, subst takeWhile_append2) auto


lemma child_not_root [simp]: "p \<noteq> [] \<Longrightarrow> p @ c # n \<noteq> [d]"
  by (cases p) auto

lemma path_join_plain: "norm_dir p \<Longrightarrow> plain_name n \<Longrightarrow> path_join p n = p @ CHR ''/'' # n"
proof -
  assume p: "norm_dir p" and n: "plain_name n"
  then have "hd n \<noteq> CHR ''/''" by (auto simp: plain_name_def dest: hd_in_set)
  with p n show ?thesis by (simp add: path_join_def norm_dir_def plain_name_def)
qed

lemma path_join_slash_free:
  "norm_dir p \<Longrightarrow> CHR ''/'' \<notin> set n \<Longrightarrow> path_join p n = (if n = [] then p else p @ CHR ''/'' # n)"
  using path_join_plain [of p n] by (auto simp: plain_name_def path_join_def)

lemma path_parent_child: "p \<noteq> [] \<Longrightarrow> CHR ''/'' \<notin> set n \<Longrightarrow> path_parent (p @ CHR ''/'' # n) = p"
proof -
  assume p: "p \<noteq> []" and n: "CHR ''/'' \<notin> set n"
  have "dropWhile (\<lambda>c. c \<noteq> CHR ''/'') (rev n @ CHR ''/'' # rev p) = CHR ''/'' # rev p"
    using n by (subst dropWhile_append2) auto
  with p show ?thesis by (simp add: path_parent_def)
qed

lemma norm_dir_child: "norm_dir p \<Longrightarrow> plain_name n \<Longrightarrow> norm_dir (p @ CHR ''/'' # n)"
proof -
  assume p: "norm_dir p" and n: "plain_name n"
  then have "last n \<noteq> CHR ''/''" by (auto simp: plain_name_def dest: last_in_set)
  with p n show ?thesis by (simp add: norm_dir_def plain_name_def)
qed

subsection \<open>Characters that no string operation introduces\<close>

lemma lower_char_slash: "lower_char c = CHR ''/'' \<longleftrightarrow> c = CHR ''/''"
proof
  assume h: "lower_char c = CHR ''/''"
  show "c = CHR ''/''"
  proof (rule ccontr)
    assume "c \<noteq> CHR ''/''"
    with h obtain n where n: "n = (of_char c :: nat)" "n \<le> 222" "65 \<le> n" "char_of (n + 32) = CHR ''/''"
      by (auto simp: lower_char_def Let_def split: if_splits)
    then have "(of_char (char_of (n + 32) :: char) :: nat) = 47" by simp
    moreover have "(of_char (char_of (n + 32) :: char) :: nat) = n + 32" using n(2) by (simp add: of_char_of)
    ultimately show False using n(3) by simp
  qed
qed (simp add: lower_char_def)

lemma lower_char_slash_fix: "lower_char CHR ''/'' = CHR ''/''"
  by (simp add: lower_char_def)

lemma path_name_slash_free: "CHR ''/'' \<notin> set (path_name p)"
  by (auto simp: path_name_def dest: set_takeWhileD)

lemma path_stem_slash_free: "CHR ''/'' \<notin> set (path_stem p)"
  using path_name_slash_free [of p]
  by (auto simp: path_stem_def Let_def split: option.splits dest: in_set_takeD)

lemma star_match_nonempty: "star_match a s n \<Longrightarrow> s \<noteq> [] \<Longrightarrow> n \<noteq> []"
  by (auto simp: star_match_def)

lemma child_parent:
  "norm_dir d \<Longrightarrow> CHR ''/'' \<notin> set n \<Longrightarrow> n \<noteq> [] \<Longrightarrow> path_parent (path_join d n) = d"
  by (simp add: path_join_slash_free norm_dir_def path_parent_child)

text \<open>The rules that evaluate \<open>str.lower\<close> on a literal.\<close>

lemmas lower_eval = py_lower_def lower_char_def char_of_def bit_0

end
