(* ===== verification/FileSystem.thy ===== *)
theory FileSystem
  imports PyStr
begin

text \<open>
  The world the program runs in: a flat file system from normalised absolute paths to
  nodes (a regular file with its content and its owner-execute bit, or a directory; the
  root \<open>/\<close> is a directory that is never listed), the user's home directory
  (\<open>Path.home()\<close>), the directories of \<open>PATH\<close> that \<open>shutil.which\<close> searches,
  the lines the user will type (\<open>input()\<close>), and the lines printed so far
  (\<open>print()\<close>). The order of the file-system list is the order in which a directory
  scan returns entries; a theorem over every list is a theorem over every scan order.
  The primitives are the library calls of \<open>src/app.py\<close>: \<open>open(p, "w").write\<close>,
  \<open>Path.chmod(0o755)\<close>, \<open>Path.unlink\<close>, \<open>os.rename\<close> (through
  \<open>Path.rename\<close>), \<open>shutil.move\<close>, \<open>Path.mkdir\<close>, \<open>Path.glob\<close>,
  \<open>shutil.which\<close>, \<open>input\<close> and \<open>print\<close>, each with the exception it raises.
\<close>

datatype node = File string bool | Dir

record world =
  fs :: "(path, node) pydict"
  home :: path
  path_env :: "path list"
  stdin :: "string list"
  stdout :: "string list"

type_synonym 'a io = "(world, 'a) exc"

named_theorems fs_simps "lookup rules of the file-system primitives"

subsection \<open>Queries\<close>

definition lookup_fs :: "world \<Rightarrow> path \<Rightarrow> node option" where
  "lookup_fs w p = map_of (fs w) p"

definition path_exists :: "world \<Rightarrow> path \<Rightarrow> bool" where
  "path_exists w p \<longleftrightarrow> p = ''/'' \<or> lookup_fs w p \<noteq> None"

definition is_dir :: "world \<Rightarrow> path \<Rightarrow> bool" where
  "is_dir w p \<longleftrightarrow> p = ''/'' \<or> lookup_fs w p = Some Dir"

definition is_exec_file :: "world \<Rightarrow> path \<Rightarrow> bool" where
  "is_exec_file w p \<longleftrightarrow> (case lookup_fs w p of Some (File _ x) \<Rightarrow> x | _ \<Rightarrow> False)"

text \<open>The proper ancestors of an absolute path, the shortest first (the root excluded).\<close>

definition path_ancestors :: "path \<Rightarrow> path list" where
  "path_ancestors p = map (\<lambda>i. take i p) (filter (\<lambda>i. p ! i = CHR ''/'') [1..<length p])"

text \<open>\<open>Path(d).glob(pattern)\<close>: the entries directly inside \<open>d\<close> whose name matches.\<close>

definition glob_dir :: "world \<Rightarrow> path \<Rightarrow> (string \<Rightarrow> bool) \<Rightarrow> path list" where
  "glob_dir w d matches = filter (\<lambda>p. path_parent p = d \<and> matches (path_name p)) (dict_keys (fs w))"

text \<open>\<open>os.path.join(d, cmd)\<close>, as \<open>shutil.which\<close> builds its candidates.\<close>

definition os_join :: "path \<Rightarrow> string \<Rightarrow> path" where
  "os_join d c = (if d = [] then c else if last d = CHR ''/'' then d @ c else d @ CHR ''/'' # c)"

text \<open>
  \<open>shutil.which(cmd)\<close>: a command with a directory part is checked as it is;
  otherwise the first \<open>PATH\<close> entry holding an executable regular file of that name.
\<close>

definition which :: "world \<Rightarrow> string \<Rightarrow> path option" where
  "which w c =
     (if CHR ''/'' \<in> set c then (if is_exec_file w c then Some c else None)
      else find (is_exec_file w) (map (\<lambda>d. os_join d c) (path_env w)))"

subsection \<open>Statements\<close>

definition set_node :: "path \<Rightarrow> node \<Rightarrow> world \<Rightarrow> world" where
  "set_node p n w = w\<lparr>fs := AList.update p n (fs w)\<rparr>"

definition del_node :: "path \<Rightarrow> world \<Rightarrow> world" where
  "del_node p w = w\<lparr>fs := AList.delete p (fs w)\<rparr>"

definition print_line :: "string \<Rightarrow> unit io" where
  "print_line s = modifyE (\<lambda>w. w\<lparr>stdout := stdout w @ [s]\<rparr>)"

text \<open>\<open>input()\<close>: the next line typed, or \<open>EOFError\<close> once input is exhausted.\<close>

definition py_input :: "string io" where
  "py_input w = (case stdin w of
      [] \<Rightarrow> (Inl EOFError, w)
    | s # rest \<Rightarrow> (Inr s, w\<lparr>stdin := rest\<rparr>))"

text \<open>
  \<open>open(p, "w")\<close> followed by \<open>write(content)\<close>: the file is created (not
  executable) or truncated (keeping its mode).
\<close>

definition write_text :: "path \<Rightarrow> string \<Rightarrow> unit io" where
  "write_text p content w =
     (if is_dir w p then (Inl (IsADirectoryError p), w)
      else if \<not> is_dir w (path_parent p) then
        (if path_exists w (path_parent p) then (Inl (NotADirectoryError p), w)
         else (Inl (FileNotFoundError p), w))
      else (Inr (), set_node p (File content (is_exec_file w p)) w))"

text \<open>\<open>Path.chmod(0o755)\<close>: makes a regular file executable.\<close>

definition chmod_exec :: "path \<Rightarrow> unit io" where
  "chmod_exec p w =
     (case lookup_fs w p of
       None \<Rightarrow> (Inl (FileNotFoundError p), w)
     | Some (File c x) \<Rightarrow> (Inr (), set_node p (File c True) w)
     | Some Dir \<Rightarrow> (Inr (), w))"

definition unlink :: "path \<Rightarrow> unit io" where
  "unlink p w =
     (case lookup_fs w p of
       None \<Rightarrow> (Inl (FileNotFoundError p), w)
     | Some (File c x) \<Rightarrow> (Inr (), del_node p w)
     | Some Dir \<Rightarrow> (Inl (IsADirectoryError p), w))"

text \<open>
  \<open>os.rename(src, dst)\<close>. A regular file replaces a non-directory \<open>dst\<close>; a directory
  replaces a missing or empty directory \<open>dst\<close> and carries its whole subtree along.
\<close>

definition has_children :: "world \<Rightarrow> path \<Rightarrow> bool" where
  "has_children w p \<longleftrightarrow> (\<exists>q \<in> set (dict_keys (fs w)). path_parent q = p)"

definition move_subtree :: "path \<Rightarrow> path \<Rightarrow> (path, node) pydict \<Rightarrow> (path, node) pydict" where
  "move_subtree src dst t =
     map (\<lambda>(q, n). if q = src then (dst, n)
                   else if take (Suc (length src)) q = src @ ''/'' then (dst @ drop (length src) q, n)
                   else (q, n)) t"

definition os_rename :: "path \<Rightarrow> path \<Rightarrow> unit io" where
  "os_rename src dst w =
     (case lookup_fs w src of
       None \<Rightarrow> (Inl (FileNotFoundError src), w)
     | Some n \<Rightarrow>
         if src = dst then (Inr (), w)
         else if \<not> is_dir w (path_parent dst) then (Inl (FileNotFoundError dst), w)
         else (case n of
           File c x \<Rightarrow>
             if is_dir w dst then (Inl (IsADirectoryError dst), w)
             else (Inr (), set_node dst n (del_node src w))
         | Dir \<Rightarrow>
             if path_exists w dst \<and> \<not> is_dir w dst then (Inl (NotADirectoryError dst), w)
             else if is_dir w dst \<and> has_children w dst then (Inl (OSError dst), w)
             else if take (Suc (length src)) dst = src @ ''/'' then (Inl (OSError dst), w)
             else (Inr (), w\<lparr>fs := move_subtree src dst (AList.delete dst (fs w))\<rparr>)))"

text \<open>
  \<open>shutil.move(src, dst)\<close> on one file system: into \<open>dst\<close> when it is a directory,
  refusing an existing target there, otherwise a rename onto \<open>dst\<close>.
\<close>

definition shutil_move :: "path \<Rightarrow> path \<Rightarrow> unit io" where
  "shutil_move src dst w =
     (if is_dir w dst \<and> src \<noteq> dst then
        (let real_dst = os_join dst (path_name src) in
         if path_exists w real_dst then (Inl (ShutilError real_dst), w)
         else os_rename src real_dst w)
      else os_rename src dst w)"

text \<open>\<open>Path.mkdir(exist_ok=True)\<close>: the parent must be a directory already.\<close>

definition mkdir_exist_ok :: "path \<Rightarrow> unit io" where
  "mkdir_exist_ok p w =
     (if is_dir w p then (Inr (), w)
      else if path_exists w p then (Inl (FileExistsError p), w)
      else if \<not> is_dir w (path_parent p) then (Inl (FileNotFoundError p), w)
      else (Inr (), set_node p Dir w))"

text \<open>\<open>Path.mkdir(parents=True, exist_ok=True)\<close>: creates the missing ancestors too.\<close>

definition mkdir_parents :: "path \<Rightarrow> unit io" where
  "mkdir_parents p w =
     (if is_dir w p then (Inr (), w)
      else if path_exists w p then (Inl (FileExistsError p), w)
      else if (\<exists>a \<in> set (path_ancestors p). path_exists w a \<and> \<not> is_dir w a)
        then (Inl (NotADirectoryError p), w)
      else (Inr (), fold (\<lambda>a w. if path_exists w a then w else set_node a Dir w)
                        (path_ancestors p @ [p]) w))"

subsection \<open>Frame and lookup rules\<close>

lemma lookup_set_node [fs_simps]: "lookup_fs (set_node p n w) q = (if q = p then Some n else lookup_fs w q)"
  by (simp add: lookup_fs_def set_node_def AList.update_conv')

lemma lookup_del_node [fs_simps]: "lookup_fs (del_node p w) q = (if q = p then None else lookup_fs w q)"
  by (simp add: lookup_fs_def del_node_def AList.delete_conv')

lemma set_node_frame [simp]:
  "home (set_node p n w) = home w" "path_env (set_node p n w) = path_env w"
  "stdin (set_node p n w) = stdin w" "stdout (set_node p n w) = stdout w"
  by (simp_all add: set_node_def)

lemma del_node_frame [simp]:
  "home (del_node p w) = home w" "path_env (del_node p w) = path_env w"
  "stdin (del_node p w) = stdin w" "stdout (del_node p w) = stdout w"
  by (simp_all add: del_node_def)

lemma print_line_apply [simp, exc_simps]:
  "print_line s w = (Inr (), w\<lparr>stdout := stdout w @ [s]\<rparr>)"
  by (simp add: print_line_def)

lemma forE_print_line: "forE xs print_line w = (Inr (), w\<lparr>stdout := stdout w @ xs\<rparr>)"
  by (induction xs arbitrary: w) (simp_all add: thenE_def bindE_def)

lemma forE_print_enum:
  "forE xs (\<lambda>(i, app). print_line (f i app)) w = (Inr (), w\<lparr>stdout := stdout w @ map (\<lambda>(i, app). f i app) xs\<rparr>)"
  by (induction xs arbitrary: w) (auto simp: thenE_def bindE_def)

lemma lookup_fs_stdout [simp]: "lookup_fs (w\<lparr>stdout := o'\<rparr>) = lookup_fs w"
  by (simp add: lookup_fs_def fun_eq_iff)

lemma lookup_fs_stdin [simp]: "lookup_fs (w\<lparr>stdin := i\<rparr>) = lookup_fs w"
  by (simp add: lookup_fs_def fun_eq_iff)

lemma fs_queries_stdout [simp]:
  "is_exec_file (w\<lparr>stdout := o'\<rparr>) = is_exec_file w"
  "is_dir (w\<lparr>stdout := o'\<rparr>) = is_dir w"
  "path_exists (w\<lparr>stdout := o'\<rparr>) = path_exists w"
  by (simp_all add: is_exec_file_def is_dir_def path_exists_def fun_eq_iff)

lemma fs_queries_stdin [simp]:
  "is_exec_file (w\<lparr>stdin := i\<rparr>) = is_exec_file w"
  "is_dir (w\<lparr>stdin := i\<rparr>) = is_dir w"
  "path_exists (w\<lparr>stdin := i\<rparr>) = path_exists w"
  by (simp_all add: is_exec_file_def is_dir_def path_exists_def fun_eq_iff)

lemma which_stdout [simp]: "which (w\<lparr>stdout := o'\<rparr>) = which w"
  by (simp add: which_def is_exec_file_def fun_eq_iff)

lemma which_stdin [simp]: "which (w\<lparr>stdin := i\<rparr>) = which w"
  by (simp add: which_def is_exec_file_def fun_eq_iff)

lemma glob_dir_stdout [simp]: "glob_dir (w\<lparr>stdout := o'\<rparr>) = glob_dir w"
  by (simp add: glob_dir_def fun_eq_iff)

lemma glob_dir_stdin [simp]: "glob_dir (w\<lparr>stdin := i\<rparr>) = glob_dir w"
  by (simp add: glob_dir_def fun_eq_iff)

lemma write_text_ok [fs_simps]:
  assumes "\<not> is_dir w p" and "is_dir w (path_parent p)"
  shows "write_text p c w = (Inr (), set_node p (File c (is_exec_file w p)) w)"
  using assms by (simp add: write_text_def)

lemma chmod_exec_file [fs_simps]:
  "lookup_fs w p = Some (File c x) \<Longrightarrow> chmod_exec p w = (Inr (), set_node p (File c True) w)"
  by (simp add: chmod_exec_def)

lemma unlink_file [fs_simps]:
  "lookup_fs w p = Some (File c x) \<Longrightarrow> unlink p w = (Inr (), del_node p w)"
  by (simp add: unlink_def)

lemma unlink_missing [fs_simps]:
  "lookup_fs w p = None \<Longrightarrow> unlink p w = (Inl (FileNotFoundError p), w)"
  by (simp add: unlink_def)

lemma os_rename_file [fs_simps]:
  assumes "lookup_fs w src = Some (File c x)" and "src \<noteq> dst"
    and "is_dir w (path_parent dst)" and "\<not> is_dir w dst"
  shows "os_rename src dst w = (Inr (), set_node dst (File c x) (del_node src w))"
  using assms by (simp add: os_rename_def)

text \<open>Renaming a regular file onto itself or onto a free name in an existing directory.\<close>

lemma os_rename_file_any:
  assumes "lookup_fs w src = Some (File c x)" and "is_dir w (path_parent dst)" and "\<not> is_dir w dst"
  shows "os_rename src dst w = (Inr (), if src = dst then w else set_node dst (File c x) (del_node src w))"
  using assms by (simp add: os_rename_def)

lemma os_rename_missing [fs_simps]:
  "lookup_fs w src = None \<Longrightarrow> os_rename src dst w = (Inl (FileNotFoundError src), w)"
  by (simp add: os_rename_def)

lemma os_rename_same [fs_simps]:
  "lookup_fs w src = Some n \<Longrightarrow> os_rename src src w = (Inr (), w)"
  by (simp add: os_rename_def)


subsection \<open>Ancestors\<close>

lemma path_ancestors_child:
  assumes "norm_dir p" and "CHR ''/'' \<notin> set n"
  shows "path_ancestors (p @ CHR ''/'' # n) = path_ancestors p @ [p]"
proof -
  let ?q = "p @ CHR ''/'' # n"
  have p1: "1 \<le> length p" using assms(1) by (simp add: norm_dir_def Suc_le_eq)
  have len: "length ?q = length p + Suc (length n)" by simp
  have a: "[1..<length p + Suc (length n)] = [1..<length p] @ [length p..<length p + Suc (length n)]"
    using p1 by (rule upt_add_eq_append)
  have b: "[length p..<length p + Suc (length n)] = length p # [Suc (length p)..<length p + Suc (length n)]"
    by (rule upt_conv_Cons) simp
  have split: "[1..<length ?q] = [1..<length p] @ length p # [Suc (length p)..<length ?q]"
    unfolding len a b ..
  have lo: "map (\<lambda>i. take i ?q) (filter (\<lambda>i. ?q ! i = CHR ''/'') [1..<length p])
            = map (\<lambda>i. take i p) (filter (\<lambda>i. p ! i = CHR ''/'') [1..<length p])"
    by (rule map_cong [OF filter_cong]) (simp_all add: nth_append)
  have hi: "filter (\<lambda>i. ?q ! i = CHR ''/'') [Suc (length p)..<length ?q] = []"
  proof (rule filter_False, rule ballI)
    fix i assume "i \<in> set [Suc (length p)..<length ?q]"
    then have "i - length p - 1 < length n" and "\<not> i < length p" and "i \<noteq> length p" by auto
    then have "?q ! i = n ! (i - length p - 1)" by (simp add: nth_append nth_Cons')
    moreover have "n ! (i - length p - 1) \<in> set n" using \<open>i - length p - 1 < length n\<close> by simp
    ultimately show "\<not> ?q ! i = CHR ''/''" using assms(2) by auto
  qed
  show ?thesis
    unfolding path_ancestors_def split using lo hi by simp
qed

subsection \<open>What shutil.which finds\<close>

lemma lookup_fs_keys: "lookup_fs w p \<noteq> None \<Longrightarrow> p \<in> set (dict_keys (fs w))"
  using in_dict_keys_iff [of p "fs w"] by (simp add: lookup_fs_def)

lemma path_name_os_join: "CHR ''/'' \<notin> set n \<Longrightarrow> d \<noteq> [] \<Longrightarrow> path_name (os_join d n) = n"
proof -
  assume n: "CHR ''/'' \<notin> set n" and d: "d \<noteq> []"
  show ?thesis
  proof (cases "last d = CHR ''/''")
    case True
    then have "d = butlast d @ [CHR ''/'']" using d by (metis append_butlast_last_id)
    then have "os_join d n = butlast d @ CHR ''/'' # n" using d True by (simp add: os_join_def)
    then show ?thesis using n by (simp add: path_name_append_slash)
  next
    case False
    then show ?thesis using n d by (simp add: os_join_def path_name_append_slash)
  qed
qed

lemma which_found:
  assumes "which w n = Some p"
  shows "p \<in> set (dict_keys (fs w))"
    and "CHR ''/'' \<in> set n \<Longrightarrow> p = n"
    and "CHR ''/'' \<notin> set n \<Longrightarrow> path_name p = n"
proof -
  have ex: "is_exec_file w p"
    and loc: "CHR ''/'' \<in> set n \<Longrightarrow> p = n"
    and cand: "CHR ''/'' \<notin> set n \<Longrightarrow> \<exists>d. p = os_join d n"
    using assms by (auto simp: which_def find_Some_iff split: if_splits)
  from ex show "p \<in> set (dict_keys (fs w))"
    by (intro lookup_fs_keys) (auto simp: is_exec_file_def split: option.splits node.splits)
  show "CHR ''/'' \<in> set n \<Longrightarrow> p = n" by (rule loc)
  assume n: "CHR ''/'' \<notin> set n"
  with cand obtain d where "p = os_join d n" by blast
  show "path_name p = n"
  proof (cases "d = []")
    case True
    with n \<open>p = os_join d n\<close> show ?thesis by (simp add: os_join_def path_name_no_slash)
  next
    case False
    with n \<open>p = os_join d n\<close> show ?thesis by (simp add: path_name_os_join)
  qed
qed

lemma which_numbered_inj:
  assumes "which w (base @ str_nat i) = Some p" and "which w (base @ str_nat j) = Some p"
  shows "i = j"
proof -
  have "base @ str_nat i = base @ str_nat j"
  proof (cases "CHR ''/'' \<in> set base")
    case True
    then show ?thesis using which_found(2) [OF assms(1)] which_found(2) [OF assms(2)] by simp
  next
    case False
    then show ?thesis using which_found(3) [OF assms(1)] which_found(3) [OF assms(2)]
      by (simp add: str_nat_no_slash)
  qed
  then show ?thesis by (simp add: str_nat_inj)
qed

lemma numbered_taken_bound:
  assumes "\<forall>i. 1 \<le> i \<and> i \<le> c \<longrightarrow> which w (base @ str_nat i) \<noteq> None"
  shows "c \<le> length (fs w)"
proof -
  let ?g = "\<lambda>i. the (which w (base @ str_nat i))"
  have inj: "inj_on ?g {1..c}"
  proof (rule inj_onI)
    fix i j assume "i \<in> {1..c}" "j \<in> {1..c}" "?g i = ?g j"
    with assms show "i = j"
      by (metis atLeastAtMost_iff option.collapse which_numbered_inj)
  qed
  have "?g ` {1..c} \<subseteq> set (dict_keys (fs w))"
  proof
    fix p assume "p \<in> ?g ` {1..c}"
    then obtain i where i: "i \<in> {1..c}" "p = ?g i" by blast
    with assms obtain q where "which w (base @ str_nat i) = Some q" by auto
    with i show "p \<in> set (dict_keys (fs w))" by (auto dest: which_found(1))
  qed
  with inj have "card {1..c} \<le> card (set (dict_keys (fs w)))"
    by (intro card_inj_on_le) auto
  also have "\<dots> \<le> length (fs w)" using card_length [of "dict_keys (fs w)"] by simp
  finally show ?thesis by simp
qed

subsection \<open>Directory scans\<close>

lemma glob_dir_set_node:
  "path_parent p \<noteq> d \<Longrightarrow> glob_dir (set_node p n w) d m = glob_dir w d m"
  by (cases "p \<in> set (dict_keys (fs w))") (simp_all add: glob_dir_def set_node_def dict_keys_update_mem dict_keys_update_new)

lemma glob_dir_member:
  "p \<in> set (glob_dir w d m) \<Longrightarrow> path_parent p = d \<and> m (path_name p) \<and> lookup_fs w p \<noteq> None"
  by (auto simp: glob_dir_def lookup_fs_def map_of_eq_None_iff)

lemma mkdir_exist_ok_dir: "is_dir w p \<Longrightarrow> mkdir_exist_ok p w = (Inr (), w)"
  by (simp add: mkdir_exist_ok_def)

lemma mkdir_parents_dir: "is_dir w p \<Longrightarrow> mkdir_parents p w = (Inr (), w)"
  by (simp add: mkdir_parents_def)

lemma shutil_move_free:
  assumes "lookup_fs w src = Some (File c x)" and "lookup_fs w dst = None" and "src \<noteq> dst"
    and "is_dir w (path_parent dst)" and "dst \<noteq> ''/''"
  shows "shutil_move src dst w = (Inr (), set_node dst (File c x) (del_node src w))"
  using assms by (simp add: shutil_move_def is_dir_def os_rename_file)

text \<open>A loop whose body changes neither the file system nor the home directory.\<close>

lemma forE_frame:
  assumes "forE xs body s = (r, s')"
    and "\<forall>x t q t'. body x t = (q, t') \<longrightarrow> fs t' = fs t \<and> home t' = home t"
  shows "fs s' = fs s \<and> home s' = home s"
  using forE_invariant [where P = "\<lambda>t. fs t = fs s \<and> home t = home s", OF _ _ assms(1)] assms(2) by metis

end
