(* ===== verification/Json.thy ===== *)
theory Json
  imports PyStr
begin

text \<open>
  The two calls of the \<open>json\<close> module that persist the registry: \<open>json.dump(config,
  f, indent=2)\<close> (with its default \<open>ensure_ascii=True\<close>) and \<open>json.load(f)\<close>.
  The registry is a dictionary from strings to dictionaries from strings to strings,
  which is what \<open>save_config\<close> writes; the decoder accepts exactly the JSON texts of
  that shape (any whitespace between tokens, every string escape, duplicate keys
  resolved as Python's \<open>dict\<close> does: first position, last value) and answers \<open>None\<close>
  for every other text. The main result is the round trip: loading what was dumped gives
  the dictionary back, for every dictionary whose keys are distinct, which every Python
  dictionary's are.
\<close>

type_synonym jobj = "(string, string) pydict"
type_synonym jdoc = "(string, jobj) pydict"

subsection \<open>Encoding\<close>

definition hex4 :: "nat \<Rightarrow> string" where
  "hex4 n = [hex_digit (n div 4096 mod 16), hex_digit (n div 256 mod 16),
             hex_digit (n div 16 mod 16), hex_digit (n mod 16)]"

text \<open>\<open>py_encode_basestring_ascii\<close>: the escape of one character.\<close>

definition json_esc_char :: "char \<Rightarrow> string" where
  "json_esc_char c =
     (let n = (of_char c :: nat); bs = CHR 0x5C in
      if c = CHR 0x22 then [bs, CHR 0x22]
      else if c = bs then [bs, bs]
      else if c = CHR 0x08 then [bs, CHR ''b'']
      else if c = CHR 0x0C then [bs, CHR ''f'']
      else if c = CHR 0x0A then [bs, CHR ''n'']
      else if c = CHR 0x0D then [bs, CHR ''r'']
      else if c = CHR 0x09 then [bs, CHR ''t'']
      else if n < 32 \<or> 126 < n then bs # CHR ''u'' # hex4 n
      else [c])"

definition json_str :: "string \<Rightarrow> string" where
  "json_str s = CHR 0x22 # concat (map json_esc_char s) @ [CHR 0x22]"

text \<open>A new line followed by the indentation of nesting level \<open>l\<close> (two spaces each).\<close>

definition nl_indent :: "nat \<Rightarrow> string" where
  "nl_indent l = CHR 0x0A # replicate (2 * l) (CHR '' '')"

definition dump_item :: "string \<times> string \<Rightarrow> string" where
  "dump_item kv = json_str (fst kv) @ '': '' @ snd kv"

text \<open>An object at nesting level \<open>l\<close> whose values are already encoded.\<close>

definition dump_obj :: "nat \<Rightarrow> (string \<times> string) list \<Rightarrow> string" where
  "dump_obj l items = (case items of
      [] \<Rightarrow> ''{}''
    | x # xs \<Rightarrow> CHR ''{'' # nl_indent (Suc l) @ dump_item x
                 @ concat (map (\<lambda>y. CHR '','' # nl_indent (Suc l) @ dump_item y) xs)
                 @ nl_indent l @ ''}'')"

definition json_dumps :: "jdoc \<Rightarrow> string" where
  "json_dumps d = dump_obj 0 (map (\<lambda>(k, ob). (k, dump_obj 1 (map (\<lambda>(a, s). (a, json_str s)) ob))) d)"

subsection \<open>Decoding\<close>

definition json_ws :: "char \<Rightarrow> bool" where
  "json_ws c \<longleftrightarrow> c = CHR '' '' \<or> c = CHR 0x09 \<or> c = CHR 0x0A \<or> c = CHR 0x0D"

definition skip_ws :: "string \<Rightarrow> string" where
  "skip_ws s = dropWhile json_ws s"

definition hex_val :: "char \<Rightarrow> nat option" where
  "hex_val c = (let n = (of_char c :: nat) in
     if 48 \<le> n \<and> n \<le> 57 then Some (n - 48)
     else if 97 \<le> n \<and> n \<le> 102 then Some (n - 87)
     else if 65 \<le> n \<and> n \<le> 70 then Some (n - 55)
     else None)"

definition hex4_val :: "char \<Rightarrow> char \<Rightarrow> char \<Rightarrow> char \<Rightarrow> nat option" where
  "hex4_val a b c d = (case (hex_val a, hex_val b, hex_val c, hex_val d) of
      (Some x, Some y, Some z, Some u) \<Rightarrow> Some (((x * 16 + y) * 16 + z) * 16 + u)
    | _ \<Rightarrow> None)"

text \<open>The one-letter escapes of JSON.\<close>

definition unescape_simple :: "char \<Rightarrow> char option" where
  "unescape_simple e =
     (if e = CHR 0x22 \<or> e = CHR 0x5C \<or> e = CHR ''/'' then Some e
      else if e = CHR ''b'' then Some (CHR 0x08)
      else if e = CHR ''f'' then Some (CHR 0x0C)
      else if e = CHR ''n'' then Some (CHR 0x0A)
      else if e = CHR ''r'' then Some (CHR 0x0D)
      else if e = CHR ''t'' then Some (CHR 0x09)
      else None)"

text \<open>
  The body of a string literal after its opening quote, with the characters read so far
  reversed in \<open>acc\<close>; a raw control character is an error (\<open>strict=True\<close>).
\<close>

fun scan_str :: "string \<Rightarrow> string \<Rightarrow> (string \<times> string) option" where
  "scan_str acc [] = None"
| "scan_str acc (c # cs) =
     (if c = CHR 0x22 then Some (rev acc, cs)
      else if c = CHR 0x5C then
        (case cs of
          [] \<Rightarrow> None
        | e # cs' \<Rightarrow>
            (case unescape_simple e of
              Some d \<Rightarrow> scan_str (d # acc) cs'
            | None \<Rightarrow>
                if e = CHR ''u'' then
                  (case cs' of
                    a # b # x # y # rest \<Rightarrow>
                      (case hex4_val a b x y of
                        Some n \<Rightarrow> if n < 256 then scan_str (char_of n # acc) rest else None
                      | None \<Rightarrow> None)
                  | _ \<Rightarrow> None)
                else None))
      else if (of_char c :: nat) < 32 then None
      else scan_str (c # acc) cs)"

definition parse_jstr :: "string \<Rightarrow> (string \<times> string) option" where
  "parse_jstr s = (case s of c # cs \<Rightarrow> if c = CHR 0x22 then scan_str [] cs else None | [] \<Rightarrow> None)"

text \<open>
  The members of an object after its opening brace, with the pairs read so far in
  \<open>acc\<close>; \<open>pv\<close> parses one value. A member may only be followed by another when the
  text got shorter, which always holds (\<open>parse_members_progress\<close> below) and makes
  the recursion well-founded.
\<close>

function parse_members ::
  "(string \<Rightarrow> ('v \<times> string) option) \<Rightarrow> (string, 'v) pydict \<Rightarrow> string \<Rightarrow> ((string, 'v) pydict \<times> string) option"
where
  "parse_members pv acc s =
     (case parse_jstr s of
       None \<Rightarrow> None
     | Some (k, s1) \<Rightarrow>
         (case skip_ws s1 of
           [] \<Rightarrow> None
         | c # s2 \<Rightarrow>
             if c \<noteq> CHR '':'' then None
             else (case pv (skip_ws s2) of
               None \<Rightarrow> None
             | Some (v, s3) \<Rightarrow>
                 (case skip_ws s3 of
                   [] \<Rightarrow> None
                 | d # s4 \<Rightarrow>
                     if d = CHR '','' \<and> length s4 < length s
                     then parse_members pv (AList.update k v acc) (skip_ws s4)
                     else if d = CHR ''}'' then Some (AList.update k v acc, s4)
                     else None))))"
  by pat_completeness auto

termination
  by (relation "measure (\<lambda>(pv, acc, s). length s)")
    (auto simp: skip_ws_def intro: le_less_trans [OF length_dropWhile_le])

declare parse_members.simps [simp del]

definition parse_obj :: "(string \<Rightarrow> ('v \<times> string) option) \<Rightarrow> string \<Rightarrow> ((string, 'v) pydict \<times> string) option" where
  "parse_obj pv s = (case s of
      [] \<Rightarrow> None
    | c # s1 \<Rightarrow>
        if c \<noteq> CHR ''{'' then None
        else (case skip_ws s1 of
          [] \<Rightarrow> None
        | d # s2 \<Rightarrow> if d = CHR ''}'' then Some ([], s2) else parse_members pv [] (d # s2)))"

text \<open>\<open>json.loads\<close>: whitespace may surround the document, nothing else may follow it.\<close>

definition json_loads :: "string \<Rightarrow> jdoc option" where
  "json_loads s = (case parse_obj (\<lambda>t. parse_obj parse_jstr t) (skip_ws s) of
      None \<Rightarrow> None
    | Some (d, r) \<Rightarrow> if skip_ws r = [] then Some d else None)"

text \<open>\<open>dict(pairs)\<close>: a later pair of a key replaces the value in the first one's place.\<close>

definition py_dict :: "(string \<times> 'v) list \<Rightarrow> (string, 'v) pydict" where
  "py_dict xs = fold (\<lambda>(a, b) d. AList.update a b d) xs []"

text \<open>A document that a Python dictionary can be: no key twice, at either level.\<close>

definition wf_jdoc :: "jdoc \<Rightarrow> bool" where
  "wf_jdoc d \<longleftrightarrow> distinct (map fst d) \<and> (\<forall>ob \<in> snd ` set d. distinct (map fst ob))"

subsection \<open>Termination and progress of the decoder\<close>

lemma scan_str_shorter: "scan_str acc s = Some (r, t) \<Longrightarrow> length t < length s"
  by (induction acc s rule: scan_str.induct)
    (fastforce split: if_splits option.splits list.splits)+

lemma parse_jstr_shorter: "parse_jstr s = Some (r, t) \<Longrightarrow> length t < length s"
  by (auto simp: parse_jstr_def split: list.splits if_splits dest: scan_str_shorter)

lemma length_skip_ws: "length (skip_ws s) \<le> length s"
  by (simp add: skip_ws_def length_dropWhile_le)


subsection \<open>The round trip\<close>

lemma hex4_arith:
  assumes "(n::nat) < 65536"
  shows "((n div 4096 mod 16 * 16 + n div 256 mod 16) * 16 + n div 16 mod 16) * 16 + n mod 16 = n"
proof -
  have e: "n div 4096 = n div 16 div 16 div 16" "n div 256 = n div 16 div 16"
    by (simp_all add: div_mult2_eq [symmetric])
  have "n div 4096 < 16" using assms by simp
  then have a: "n div 16 div 16 div 16 mod 16 = n div 16 div 16 div 16" by (simp add: e)
  show ?thesis unfolding e a by simp
qed

lemma hex_val_hex_digit: "d < 16 \<Longrightarrow> hex_val (hex_digit d) = Some d"
  by (auto simp: hex_val_def hex_digit_def Let_def)

lemma hex4_decodes:
  assumes "n < 65536"
  obtains a b x y where "hex4 n = [a, b, x, y]" and "hex4_val a b x y = Some n"
proof
  show "hex4 n = [hex_digit (n div 4096 mod 16), hex_digit (n div 256 mod 16),
                  hex_digit (n div 16 mod 16), hex_digit (n mod 16)]"
    by (simp add: hex4_def)
  show "hex4_val (hex_digit (n div 4096 mod 16)) (hex_digit (n div 256 mod 16))
          (hex_digit (n div 16 mod 16)) (hex_digit (n mod 16)) = Some n"
    using assms hex4_arith [OF assms] by (simp add: hex4_val_def hex_val_hex_digit)
qed

lemma scan_str_unicode:
  assumes "n < 256"
  shows "scan_str acc (CHR 0x5C # CHR ''u'' # hex4 n @ t) = scan_str (char_of n # acc) t"
proof -
  from assms have "n < 65536" by simp
  then obtain a b x y where h: "hex4 n = [a, b, x, y]" and v: "hex4_val a b x y = Some n"
    by (rule hex4_decodes)
  show ?thesis using assms by (simp add: h v unescape_simple_def)
qed

lemma scan_str_esc_char: "scan_str acc (json_esc_char c @ t) = scan_str (c # acc) t"
proof (cases "c \<in> {CHR 0x22, CHR 0x5C, CHR 0x08, CHR 0x0C, CHR 0x0A, CHR 0x0D, CHR 0x09}")
  case True
  then show ?thesis by (auto simp: json_esc_char_def unescape_simple_def Let_def)
next
  case False
  show ?thesis
  proof (cases "(of_char c :: nat) < 32 \<or> 126 < (of_char c :: nat)")
    case True
    have "scan_str acc (CHR 0x5C # CHR ''u'' # hex4 (of_char c) @ t) = scan_str (c # acc) t"
      using scan_str_unicode [of "of_char c" acc t] by simp
    with False True show ?thesis by (simp add: json_esc_char_def Let_def)
  next
    case F2: False
    with False show ?thesis by (simp add: json_esc_char_def Let_def)
  qed
qed

lemma scan_str_escaped: "scan_str acc (concat (map json_esc_char s) @ CHR 0x22 # t) = Some (rev acc @ s, t)"
  by (induction s arbitrary: acc) (simp_all add: scan_str_esc_char)

lemma parse_jstr_json_str: "parse_jstr (json_str s @ t) = Some (s, t)"
  by (simp add: parse_jstr_def json_str_def scan_str_escaped)

lemma skip_ws_prefix: "\<forall>c \<in> set w. json_ws c \<Longrightarrow> skip_ws (w @ t) = skip_ws t"
  by (induction w) (simp_all add: skip_ws_def)

lemma skip_ws_Cons: "\<not> json_ws c \<Longrightarrow> skip_ws (c # t) = c # t"
  by (simp add: skip_ws_def)

lemma nl_indent_ws: "\<forall>c \<in> set (nl_indent l). json_ws c"
  by (simp add: nl_indent_def json_ws_def)

lemma skip_ws_nl_indent [simp]: "skip_ws (nl_indent l @ t) = skip_ws t"
  by (simp add: skip_ws_prefix nl_indent_ws)

lemma skip_ws_json_str [simp]: "skip_ws (json_str s @ t) = json_str s @ t"
  by (simp add: json_str_def skip_ws_def json_ws_def)

lemma skip_ws_dump_item [simp]: "skip_ws (dump_item kv @ t) = dump_item kv @ t"
  by (simp add: dump_item_def json_str_def skip_ws_def json_ws_def)

lemma skip_ws_dump_obj [simp]: "skip_ws (dump_obj l items @ t) = dump_obj l items @ t"
  by (simp add: dump_obj_def skip_ws_def json_ws_def split: list.splits)

lemma skip_ws_Nil [simp]: "skip_ws [] = []"
  by (simp add: skip_ws_def)

lemma skip_ws_dump_obj_only [simp]: "skip_ws (dump_obj l items) = dump_obj l items"
  using skip_ws_dump_obj [of l items "[]"] by simp

lemma skip_ws_punct [simp]:
  "skip_ws (CHR '':'' # t) = CHR '':'' # t" "skip_ws (CHR '','' # t) = CHR '','' # t"
  "skip_ws (CHR ''}'' # t) = CHR ''}'' # t" "skip_ws (CHR '' '' # t) = skip_ws t"
  by (simp_all add: skip_ws_def json_ws_def)

lemma parse_members_dump:
  assumes pv: "\<And>v t. pv (enc v @ t) = Some (dec v, t)"
    and enc: "\<And>v t. skip_ws (enc v @ t) = enc v @ t"
  shows "parse_members pv acc
           (dump_item (k, enc v) @ concat (map (\<lambda>y. CHR '','' # nl_indent l @ dump_item y)
              (map (\<lambda>(a, b). (a, enc b)) xs)) @ nl_indent l' @ ''}'' @ t)
         = Some (fold (\<lambda>(a, b) d. AList.update a (dec b) d) ((k, v) # xs) acc, t)"
proof (induction xs arbitrary: acc k v)
  case Nil
  show ?case
    by (subst parse_members.simps)
      (simp add: dump_item_def parse_jstr_json_str enc pv)
next
  case (Cons x xs)
  obtain k' v' where x: "x = (k', v')" by fastforce
  let ?rest = "concat (map (\<lambda>y. CHR '','' # nl_indent l @ dump_item y) (map (\<lambda>(a, b). (a, enc b)) xs))
                 @ nl_indent l' @ ''}'' @ t"
  have "parse_members pv acc (dump_item (k, enc v) @ concat (map (\<lambda>y. CHR '','' # nl_indent l @ dump_item y)
              (map (\<lambda>(a, b). (a, enc b)) (x # xs))) @ nl_indent l' @ ''}'' @ t)
        = parse_members pv (AList.update k (dec v) acc) (dump_item (k', enc v') @ ?rest)"
    by (subst parse_members.simps) (simp add: x dump_item_def parse_jstr_json_str enc pv)
  also have "\<dots> = Some (fold (\<lambda>(a, b) d. AList.update a (dec b) d) ((k', v') # xs)
                       (AList.update k (dec v) acc), t)"
    by (rule Cons.IH)
  finally show ?case by (simp add: x)
qed

lemma parse_obj_dump:
  assumes pv: "\<And>v t. pv (enc v @ t) = Some (dec v, t)"
    and enc: "\<And>v t. skip_ws (enc v @ t) = enc v @ t"
  shows "parse_obj pv (dump_obj l (map (\<lambda>(a, b). (a, enc b)) items) @ t)
         = Some (py_dict (map (\<lambda>(a, b). (a, dec b)) items), t)"
proof (cases items)
  case Nil
  then show ?thesis by (simp add: parse_obj_def dump_obj_def py_dict_def)
next
  case (Cons x xs)
  obtain k v where x: "x = (k, v)" by fastforce
  have "parse_obj pv (dump_obj l (map (\<lambda>(a, b). (a, enc b)) items) @ t)
        = parse_members pv [] (dump_item (k, enc v) @ concat (map (\<lambda>y. CHR '','' # nl_indent (Suc l) @ dump_item y)
              (map (\<lambda>(a, b). (a, enc b)) xs)) @ nl_indent l @ ''}'' @ t)"
    by (simp add: Cons x parse_obj_def dump_obj_def) (simp add: dump_item_def json_str_def)
  also have "\<dots> = Some (fold (\<lambda>(a, b) d. AList.update a (dec b) d) ((k, v) # xs) [], t)"
    using pv enc by (rule parse_members_dump)
  finally show ?thesis by (simp add: Cons x py_dict_def fold_map comp_def split_def)
qed

lemma update_new_key: "k \<notin> set (map fst al) \<Longrightarrow> AList.update k v al = al @ [(k, v)]"
  by (induction al) auto

lemma fold_update_distinct:
  "distinct (map fst (acc @ xs)) \<Longrightarrow> fold (\<lambda>(a, b) d. AList.update a b d) xs acc = acc @ xs"
  by (induction xs arbitrary: acc) (auto simp: update_new_key)

lemma py_dict_distinct: "distinct (map fst xs) \<Longrightarrow> py_dict xs = xs"
  using fold_update_distinct [of "[]" xs] by (simp add: py_dict_def)

lemma parse_inner_dump:
  "parse_obj parse_jstr (dump_obj 1 (map (\<lambda>(a, s). (a, json_str s)) ob) @ t) = Some (py_dict ob, t)"
  using parse_obj_dump [of parse_jstr json_str id 1 ob t] by (simp add: parse_jstr_json_str)

lemma json_loads_dumps_py_dict:
  "json_loads (json_dumps d) = Some (py_dict (map (\<lambda>(k, ob). (k, py_dict ob)) d))"
proof -
  let ?enc = "\<lambda>ob. dump_obj 1 (map (\<lambda>(a, s). (a, json_str s)) ob)"
  have "parse_obj (\<lambda>t. parse_obj parse_jstr t) (dump_obj 0 (map (\<lambda>(a, b). (a, ?enc b)) d) @ [])
        = Some (py_dict (map (\<lambda>(a, b). (a, py_dict b)) d), [])"
    by (rule parse_obj_dump [OF parse_inner_dump]) simp
  then show ?thesis
    by (simp add: json_loads_def json_dumps_def)
qed

theorem json_roundtrip: "wf_jdoc d \<Longrightarrow> json_loads (json_dumps d) = Some d"
proof -
  assume wf: "wf_jdoc d"
  then have "map (\<lambda>(k, ob). (k, py_dict ob)) d = d"
    by (induction d) (auto simp: wf_jdoc_def py_dict_distinct)
  with wf show ?thesis
    by (simp add: json_loads_dumps_py_dict wf_jdoc_def py_dict_distinct)
qed


subsection \<open>What the decoder returns is a Python dictionary\<close>

lemma set_update_subset: "set (AList.update k v al) \<subseteq> insert (k, v) (set al)"
  by (induction al) auto

lemma parse_members_wf:
  assumes "parse_members pv acc s = Some (r, t)" and "distinct (map fst acc)"
    and "\<forall>v \<in> snd ` set acc. Q v" and "\<And>s v t. pv s = Some (v, t) \<Longrightarrow> Q v"
  shows "distinct (map fst r) \<and> (\<forall>v \<in> snd ` set r. Q v)"
  using assms
proof (induction pv acc s arbitrary: r t rule: parse_members.induct)
  case (1 pv acc s)
  from "1.prems"(1) obtain k s1 c s2 v s3 d s4 where
    k: "parse_jstr s = Some (k, s1)" and c: "skip_ws s1 = c # s2" and v: "pv (skip_ws s2) = Some (v, s3)"
    and d: "skip_ws s3 = d # s4" and colon: "\<not> c \<noteq> CHR '':''"
    and r: "(d = CHR '','' \<and> length s4 < length s \<and> parse_members pv (AList.update k v acc) (skip_ws s4) = Some (r, t))
            \<or> (r = AList.update k v acc)"
    by (subst (asm) parse_members.simps)
      (auto split: option.splits list.splits if_splits)
  have Qv: "Q v" using v "1.prems"(4) by blast
  have acc': "distinct (map fst (AList.update k v acc))" "\<forall>x \<in> snd ` set (AList.update k v acc). Q x"
    using "1.prems"(2,3) Qv set_update_subset [of k v acc] by (auto simp: AList.distinct_update)
  from r show ?case
  proof
    assume "d = CHR '','' \<and> length s4 < length s \<and> parse_members pv (AList.update k v acc) (skip_ws s4) = Some (r, t)"
    then show ?thesis
      using "1.IH" [OF k refl c colon v refl d] acc' "1.prems"(4) by blast
  next
    assume "r = AList.update k v acc"
    with acc' show ?thesis by simp
  qed
qed

lemma parse_obj_wf:
  assumes "parse_obj pv s = Some (r, t)" and "\<And>s v t. pv s = Some (v, t) \<Longrightarrow> Q v"
  shows "distinct (map fst r) \<and> (\<forall>v \<in> snd ` set r. Q v)"
  using assms parse_members_wf [of pv "[]" _ r t Q]
  by (auto simp: parse_obj_def split: list.splits if_splits)

lemma json_loads_wf: "json_loads s = Some d \<Longrightarrow> wf_jdoc d"
proof -
  assume "json_loads s = Some d"
  then obtain r where "parse_obj (\<lambda>t. parse_obj parse_jstr t) (skip_ws s) = Some (d, r)"
    by (auto simp: json_loads_def split: option.splits if_splits)
  moreover have "\<And>s v t. parse_obj parse_jstr s = Some (v, t) \<Longrightarrow> distinct (map fst v)"
    using parse_obj_wf [where Q = "\<lambda>_. True"] by blast
  ultimately show "wf_jdoc d"
    unfolding wf_jdoc_def by (rule parse_obj_wf)
qed

subsection \<open>Well-formed registries under dictionary updates\<close>

lemma wf_jdoc_delete: "wf_jdoc c \<Longrightarrow> wf_jdoc (AList.delete k c)"
proof -
  assume wf: "wf_jdoc c"
  then have "distinct (map fst (AList.delete k c))" by (simp add: wf_jdoc_def AList.distinct_delete)
  moreover have "set (AList.delete k c) \<subseteq> set c" by (auto simp: AList.delete_eq)
  ultimately show ?thesis using wf by (auto simp: wf_jdoc_def)
qed


lemma wf_jdoc_update:
  assumes "wf_jdoc d" and "distinct (map fst ob)"
  shows "wf_jdoc (AList.update k ob d)"
proof -
  have "distinct (map fst (AList.update k ob d))" using assms(1) by (simp add: wf_jdoc_def AList.distinct_update)
  moreover have "set (AList.update k ob d) \<subseteq> insert (k, ob) (set d)" by (rule set_update_subset)
  ultimately show ?thesis using assms by (auto simp: wf_jdoc_def)
qed

lemma wf_jdoc_record: "wf_jdoc d \<Longrightarrow> map_of d k = Some ob \<Longrightarrow> distinct (map fst ob)"
  by (auto simp: wf_jdoc_def dest: map_of_SomeD)

end
