(* ===== verification/Registry.thy ===== *)
theory Registry
  imports FileSystem Json "HOL-Library.While_Combinator"
begin

text \<open>
  The registry of \<open>src/app.py\<close> and the helpers every command shares: the location
  \<open>CONFIG_FILE\<close> (line 10), \<open>load_config\<close> and \<open>save_config\<close> (lines 13--22),
  \<open>get_user_input\<close> (lines 25--30), \<open>check_command_exists\<close> and
  \<open>get_unique_command\<close> (lines 99--110). The registry is the JSON dictionary from
  launch command to installation record, each record a dictionary from field name to
  string. Its loop, the search for a free numbered command, is a \<open>while_option\<close> whose
  termination is proved: every number it tries names a distinct executable file.
\<close>

type_synonym app_info = jobj
type_synonym config = jdoc

definition config_file :: "world \<Rightarrow> path" where
  "config_file w = path_join (home w) ''.appimage_installer_config.json''"

definition load_config :: "config io" where
  "load_config w =
     (let p = config_file w in
      if path_exists w p then
        (case lookup_fs w p of
          Some (File content x) \<Rightarrow>
            (case json_loads content of Some c \<Rightarrow> (Inr c, w) | None \<Rightarrow> (Inl JSONDecodeError, w))
        | _ \<Rightarrow> (Inl (IsADirectoryError p), w))
      else (Inr [], w))"

definition save_config :: "config \<Rightarrow> unit io" where
  "save_config c w = write_text (config_file w) (json_dumps c) w"

text \<open>The fixed directories: \<open>~/.appimages\<close>, \<open>~/.local/bin\<close>, \<open>~/.local/share/applications\<close>, \<open>~/Downloads\<close>.\<close>

definition appimages_dir :: "world \<Rightarrow> path" where
  "appimages_dir w = path_join (home w) ''.appimages''"

definition bin_dir :: "world \<Rightarrow> path" where
  "bin_dir w = path_join (path_join (home w) ''.local'') ''bin''"

definition desktop_dir :: "world \<Rightarrow> path" where
  "desktop_dir w = path_join (path_join (path_join (home w) ''.local'') ''share'') ''applications''"

definition downloads_dir :: "world \<Rightarrow> path" where
  "downloads_dir w = path_join (home w) ''Downloads''"

text \<open>
  \<open>input(prompt) or default\<close>; the prompt goes to the terminal and is not recorded
  among the printed lines.
\<close>

definition get_user_input :: "string \<Rightarrow> string \<Rightarrow> string io" where
  "get_user_input prompt dflt = bindE py_input (\<lambda>s. returnE (if s = [] then dflt else s))"

definition check_command_exists :: "string \<Rightarrow> bool io" where
  "check_command_exists cmd = getsE (\<lambda>w. which w cmd \<noteq> None)"

text \<open>The \<open>while\<close> loop of \<open>get_unique_command\<close>: the first counter from 1 that is free.\<close>

definition unique_counter :: "world \<Rightarrow> string \<Rightarrow> nat option" where
  "unique_counter w base = while_option (\<lambda>counter. which w (base @ str_nat counter) \<noteq> None) Suc 1"

definition get_unique_command :: "string \<Rightarrow> string io" where
  "get_unique_command base =
     bindE (check_command_exists base) (\<lambda>taken.
       if \<not> taken then returnE base
       else getsE (\<lambda>w. base @ str_nat (the (unique_counter w base))))"

subsection \<open>Input\<close>

lemma get_user_input_consumes:
  "get_user_input prompt dflt w = (Inr s, w') \<Longrightarrow> length (stdin w') < length (stdin w)"
  by (auto simp: get_user_input_def bindE_def py_input_def split: list.splits prod.splits sum.splits)

lemma get_user_input_Cons [exc_simps]:
  "stdin w = x # rest \<Longrightarrow>
   get_user_input prompt dflt w = (Inr (if x = [] then dflt else x), w\<lparr>stdin := rest\<rparr>)"
  by (simp add: get_user_input_def bindE_def py_input_def)

lemma get_user_input_Nil [exc_simps]:
  "stdin w = [] \<Longrightarrow> get_user_input prompt dflt w = (Inl EOFError, w)"
  by (simp add: get_user_input_def bindE_def py_input_def)

subsection \<open>Loading and saving\<close>

lemma load_config_world: "load_config w = (r, w') \<Longrightarrow> w' = w"
  by (auto simp: load_config_def Let_def split: if_splits option.splits node.splits)

lemma config_file_set_node [simp]: "config_file (set_node p n w) = config_file w"
  by (simp add: config_file_def)

lemma config_file_del_node [simp]: "config_file (del_node p w) = config_file w"
  by (simp add: config_file_def)

lemma config_file_stdout [simp]: "config_file (w\<lparr>stdout := o'\<rparr>) = config_file w"
  by (simp add: config_file_def)

lemma save_config_Inr:
  assumes "save_config c w = (Inr u, w')"
  shows "lookup_fs w' (config_file w) = Some (File (json_dumps c) (is_exec_file w (config_file w)))"
    and "w' = set_node (config_file w) (File (json_dumps c) (is_exec_file w (config_file w))) w"
  using assms by (auto simp: save_config_def write_text_def lookup_set_node split: if_splits)

text \<open>
  Keys are unique: whatever \<open>load_config\<close> returns is a dictionary with no command
  twice and no field twice in any record.
\<close>

lemma load_config_wf: "load_config w = (Inr c, w') \<Longrightarrow> wf_jdoc c"
  by (auto simp: load_config_def Let_def wf_jdoc_def json_loads_wf [unfolded wf_jdoc_def]
      split: if_splits option.splits node.splits)

lemma home_child [simp]:
  assumes "norm_dir (home w)"
  shows "config_file w = home w @ CHR ''/'' # ''.appimage_installer_config.json''"
    and "downloads_dir w = home w @ CHR ''/'' # ''Downloads''"
    and "appimages_dir w = home w @ CHR ''/'' # ''.appimages''"
  using assms by (simp_all add: config_file_def downloads_dir_def appimages_dir_def path_join_plain plain_name_def)

lemma home_local_child [simp]:
  assumes "norm_dir (home w)"
  shows "bin_dir w = home w @ CHR ''/'' # ''.local/bin''"
    and "desktop_dir w = home w @ CHR ''/'' # ''.local/share/applications''"
proof -
  have l: "norm_dir (home w @ CHR ''/'' # ''.local'')" using assms by (simp add: norm_dir_child plain_name_def)
  have s: "norm_dir (home w @ CHR ''/'' # ''.local/share'')"
    using norm_dir_child [OF l, of "''share''"] by (simp add: plain_name_def)
  show "bin_dir w = home w @ CHR ''/'' # ''.local/bin''"
    using assms l by (simp add: bin_dir_def path_join_plain plain_name_def)
  show "desktop_dir w = home w @ CHR ''/'' # ''.local/share/applications''"
    using assms l s by (simp add: desktop_dir_def path_join_plain plain_name_def)
qed

lemma load_config_not_dir:
  "load_config w = (Inr c, w') \<Longrightarrow> config_file w \<noteq> ''/'' \<Longrightarrow> \<not> is_dir w (config_file w)"
  by (auto simp: load_config_def Let_def is_dir_def path_exists_def split: if_splits option.splits node.splits)

lemma save_config_ok:
  "\<not> is_dir w (config_file w) \<Longrightarrow> is_dir w (path_parent (config_file w)) \<Longrightarrow>
   save_config c w = (Inr (), set_node (config_file w) (File (json_dumps c) (is_exec_file w (config_file w))) w)"
  by (simp add: save_config_def write_text_def)

lemma config_file_parent:
  assumes "norm_dir (home w)" shows "path_parent (config_file w) = home w"
proof -
  have "home w \<noteq> []" using assms by (simp add: norm_dir_def)
  then show ?thesis using assms by (simp add: path_parent_child)
qed

text \<open>Saving into a home directory that exists, over anything but a directory.\<close>

lemma save_config_home:
  "norm_dir (home w) \<Longrightarrow> is_dir w (home w) \<Longrightarrow> \<not> is_dir w (config_file w) \<Longrightarrow>
   save_config c w = (Inr (), set_node (config_file w) (File (json_dumps c) (is_exec_file w (config_file w))) w)"
  by (rule save_config_ok) (simp_all add: config_file_parent del: home_child)

lemma load_config_stdout [simp]: "load_config (w\<lparr>stdout := o'\<rparr>) = (fst (load_config w), w\<lparr>stdout := o'\<rparr>)"
  by (simp add: load_config_def Let_def path_exists_def split: option.splits node.splits)

lemma load_config_stdin [simp]: "load_config (w\<lparr>stdin := i\<rparr>) = (fst (load_config w), w\<lparr>stdin := i\<rparr>)"
  by (simp add: load_config_def Let_def path_exists_def config_file_def split: option.splits node.splits)

text \<open>\<open>load_config\<close> reads nothing but the registry file.\<close>

lemma load_config_frame:
  assumes "home w' = home w" and "lookup_fs w' (config_file w) = lookup_fs w (config_file w)"
  shows "load_config w' = (fst (load_config w), w')"
proof -
  have "config_file w' = config_file w" using assms(1) by (simp add: config_file_def del: home_child)
  then show ?thesis using assms(2)
    by (simp add: load_config_def Let_def path_exists_def del: home_child split: option.splits node.splits)
qed

lemma load_config_saved:
  "wf_jdoc c \<Longrightarrow> load_config (set_node (config_file w) (File (json_dumps c) e) w) = (Inr c, set_node (config_file w) (File (json_dumps c) e) w)"
  by (simp add: load_config_def path_exists_def lookup_set_node json_roundtrip)

lemma save_and_report:
  "norm_dir (home w) \<Longrightarrow> is_dir w (home w) \<Longrightarrow> \<not> is_dir w (config_file w) \<Longrightarrow>
   thenE (save_config c) (print_line m) w =
     (Inr (), (set_node (config_file w) (File (json_dumps c) (is_exec_file w (config_file w))) w)
                \<lparr>stdout := stdout w @ [m]\<rparr>)"
  by (simp add: thenE_def bindE_def save_config_home del: home_child)

text \<open>What a successful save leaves behind, and the elimination of a successful load.\<close>

lemma save_config_loads:
  "wf_jdoc c \<Longrightarrow> save_config c w = (Inr u, w1) \<Longrightarrow> load_config w1 = (Inr c, w1)"
  using save_config_Inr(2) load_config_saved by metis

lemma load_config_InrD: "load_config w = (Inr c, w0) \<Longrightarrow> w0 = w \<and> wf_jdoc c"
  using load_config_world load_config_wf by blast

lemma load_config_bindE_InrE:
  assumes "bindE load_config f w = (Inr u, w')"
  obtains config where "load_config w = (Inr config, w)" and "wf_jdoc config" and "f config w = (Inr u, w')"
  using assms by (elim bindE_InrE) (metis load_config_InrD)

subsection \<open>The unique-command loop terminates\<close>

lemma unique_counter_Some: "\<exists>c. unique_counter w base = Some c"
  unfolding unique_counter_def
proof (rule measure_while_option_Some [where P = "\<lambda>c. 1 \<le> c \<and> (\<forall>i. 1 \<le> i \<and> i < c \<longrightarrow> which w (base @ str_nat i) \<noteq> None)"
      and f = "\<lambda>c. Suc (length (fs w)) - c"])
  fix c
  assume P: "1 \<le> c \<and> (\<forall>i. 1 \<le> i \<and> i < c \<longrightarrow> which w (base @ str_nat i) \<noteq> None)"
    and b: "which w (base @ str_nat c) \<noteq> None"
  then have all: "\<forall>i. 1 \<le> i \<and> i \<le> c \<longrightarrow> which w (base @ str_nat i) \<noteq> None"
    using le_neq_implies_less by blast
  then have "c \<le> length (fs w)" by (rule numbered_taken_bound)
  with P all show "(1 \<le> Suc c \<and> (\<forall>i. 1 \<le> i \<and> i < Suc c \<longrightarrow> which w (base @ str_nat i) \<noteq> None))
      \<and> Suc (length (fs w)) - Suc c < Suc (length (fs w)) - c"
    by auto
qed simp

lemma unique_counter_result:
  assumes "unique_counter w base = Some c"
  shows "1 \<le> c" and "which w (base @ str_nat c) = None"
    and "\<forall>i. 1 \<le> i \<and> i < c \<longrightarrow> which w (base @ str_nat i) \<noteq> None"
proof -
  let ?P = "\<lambda>c. 1 \<le> c \<and> (\<forall>i. 1 \<le> i \<and> i < c \<longrightarrow> which w (base @ str_nat i) \<noteq> None)"
  have "?P c"
    by (rule while_option_rule [where P = ?P, OF _ assms [unfolded unique_counter_def]])
      (auto simp: less_Suc_eq)
  then show "1 \<le> c" and "\<forall>i. 1 \<le> i \<and> i < c \<longrightarrow> which w (base @ str_nat i) \<noteq> None" by auto
  show "which w (base @ str_nat c) = None"
    using while_option_stop [OF assms [unfolded unique_counter_def]] by simp
qed


subsection \<open>Properties\<close>

text \<open>
  (C1) Round trip of the registry store: once \<open>save_config(config)\<close> has written the
  file, \<open>load_config()\<close> returns exactly \<open>config\<close>, for every registry that is a
  Python dictionary (no duplicate keys), with its order of commands and of fields.
\<close>

theorem save_load_roundtrip:
  assumes "wf_jdoc c" and "save_config c w = (Inr (), w')"
  shows "load_config w' = (Inr c, w')"
proof -
  have "config_file w' = config_file w"
    using save_config_Inr(2) [OF assms(2)] by simp
  moreover have "lookup_fs w' (config_file w) = Some (File (json_dumps c) (is_exec_file w (config_file w)))"
    by (rule save_config_Inr(1) [OF assms(2)])
  ultimately show ?thesis
    using json_roundtrip [OF assms(1)] by (simp add: load_config_def path_exists_def)
qed

text \<open>
  (C3) \<open>get_unique_command(base)\<close> always returns, changes nothing, and returns a command
  that \<open>shutil.which\<close> does not find: its \<open>while\<close> loop terminates on every
  file system.
\<close>

theorem get_unique_command_free: "\<exists>r. get_unique_command base w = (Inr r, w) \<and> which w r = None"
proof (cases "which w base = None")
  case True
  then show ?thesis by (simp add: get_unique_command_def check_command_exists_def)
next
  case False
  obtain c where c: "unique_counter w base = Some c" using unique_counter_Some by blast
  with False show ?thesis
    by (simp add: get_unique_command_def check_command_exists_def unique_counter_result(2) [OF c])
qed

text \<open>
  (C4) When \<open>base\<close> is taken, \<open>get_unique_command\<close> returns \<open>base\<close> followed by the
  least counter from 1 whose command is free: that command is free and every smaller
  counter names a taken command.
\<close>

theorem get_unique_command_least:
  assumes "which w base \<noteq> None"
  shows "\<exists>c \<ge> 1. get_unique_command base w = (Inr (base @ str_nat c), w)
                \<and> which w (base @ str_nat c) = None
                \<and> (\<forall>i. 1 \<le> i \<and> i < c \<longrightarrow> which w (base @ str_nat i) \<noteq> None)"
proof -
  obtain c where c: "unique_counter w base = Some c" using unique_counter_Some by blast
  with assms show ?thesis
    using unique_counter_result [OF c]
    by (auto simp: get_unique_command_def check_command_exists_def)
qed


subsection \<open>Witnesses\<close>

theorem save_load_roundtrip_witness:
  "wf_jdoc [(''foo'', [(''app_name'', ''Foo'')])] \<and>
   save_config [(''foo'', [(''app_name'', ''Foo'')])]
     \<lparr>fs = [(''/home'', Dir), (''/home/u'', Dir)], home = ''/home/u'', path_env = [], stdin = [], stdout = []\<rparr>
   = (Inr (), \<lparr>fs = [(''/home'', Dir), (''/home/u'', Dir),
        (''/home/u/.appimage_installer_config.json'', File (json_dumps [(''foo'', [(''app_name'', ''Foo'')])]) False)],
        home = ''/home/u'', path_env = [], stdin = [], stdout = []\<rparr>) \<and>
   load_config \<lparr>fs = [(''/home'', Dir), (''/home/u'', Dir),
        (''/home/u/.appimage_installer_config.json'', File (json_dumps [(''foo'', [(''app_name'', ''Foo'')])]) False)],
        home = ''/home/u'', path_env = [], stdin = [], stdout = []\<rparr>
   = (Inr [(''foo'', [(''app_name'', ''Foo'')])], \<lparr>fs = [(''/home'', Dir), (''/home/u'', Dir),
        (''/home/u/.appimage_installer_config.json'', File (json_dumps [(''foo'', [(''app_name'', ''Foo'')])]) False)],
        home = ''/home/u'', path_env = [], stdin = [], stdout = []\<rparr>)"
proof -
  have wf: "wf_jdoc [(''foo'', [(''app_name'', ''Foo'')])]" by (simp add: wf_jdoc_def)
  have sv: "save_config [(''foo'', [(''app_name'', ''Foo'')])]
     \<lparr>fs = [(''/home'', Dir), (''/home/u'', Dir)], home = ''/home/u'', path_env = [], stdin = [], stdout = []\<rparr>
   = (Inr (), \<lparr>fs = [(''/home'', Dir), (''/home/u'', Dir),
        (''/home/u/.appimage_installer_config.json'', File (json_dumps [(''foo'', [(''app_name'', ''Foo'')])]) False)],
        home = ''/home/u'', path_env = [], stdin = [], stdout = []\<rparr>)"
    by (simp add: save_config_def write_text_def config_file_def path_join_def path_parent_def
        is_dir_def lookup_fs_def is_exec_file_def set_node_def)
  show ?thesis using wf sv save_load_roundtrip [OF wf sv] by simp
qed

theorem get_unique_command_least_witness:
  "which \<lparr>fs = [(''/bin'', Dir), (''/bin/ls'', File [] True), (''/bin/ls1'', File [] True)],
          home = ''/home/u'', path_env = [''/bin''], stdin = [], stdout = []\<rparr> ''ls'' \<noteq> None \<and>
   (\<exists>c \<ge> 1. get_unique_command ''ls'' \<lparr>fs = [(''/bin'', Dir), (''/bin/ls'', File [] True), (''/bin/ls1'', File [] True)],
          home = ''/home/u'', path_env = [''/bin''], stdin = [], stdout = []\<rparr>
        = (Inr (''ls'' @ str_nat c), \<lparr>fs = [(''/bin'', Dir), (''/bin/ls'', File [] True), (''/bin/ls1'', File [] True)],
          home = ''/home/u'', path_env = [''/bin''], stdin = [], stdout = []\<rparr>)
      \<and> which \<lparr>fs = [(''/bin'', Dir), (''/bin/ls'', File [] True), (''/bin/ls1'', File [] True)],
          home = ''/home/u'', path_env = [''/bin''], stdin = [], stdout = []\<rparr> (''ls'' @ str_nat c) = None
      \<and> (\<forall>i. 1 \<le> i \<and> i < c \<longrightarrow> which \<lparr>fs = [(''/bin'', Dir), (''/bin/ls'', File [] True), (''/bin/ls1'', File [] True)],
          home = ''/home/u'', path_env = [''/bin''], stdin = [], stdout = []\<rparr> (''ls'' @ str_nat i) \<noteq> None))"
proof -
  have h: "which \<lparr>fs = [(''/bin'', Dir), (''/bin/ls'', File [] True), (''/bin/ls1'', File [] True)],
          home = ''/home/u'', path_env = [''/bin''], stdin = [], stdout = []\<rparr> ''ls'' \<noteq> None"
    by (simp add: which_def os_join_def is_exec_file_def lookup_fs_def)
  show ?thesis using h get_unique_command_least [OF h] by blast
qed

end
