(* ===== verification/Sync.thy ===== *)
theory Sync
  imports Registry
begin

text \<open>
  \<open>sync_appimages\<close> (\<open>src/app.py\<close>, lines 33--66): every \<open>*.AppImage\<close> of
  \<open>~/.appimages\<close> whose derived launcher and desktop entry both exist, and whose derived
  command is not registered yet, is registered with \<open>original_path\<close> \<open>"Unknown"\<close>.
  The loop only reads the file system, so it is a function of the world, the registry and
  the scanned paths, returning the new registry and the lines it prints; the statement
  \<open>sync_appimages\<close> then prints them, saves, and prints the closing line.
\<close>

definition sync_command :: "string \<Rightarrow> string" where
  "sync_command app_name = replace_char (CHR '' '') (CHR ''-'') (py_lower app_name)"

definition sync_record :: "string \<Rightarrow> path \<Rightarrow> path \<Rightarrow> path \<Rightarrow> app_info" where
  "sync_record app_name appimage desktop_file launcher_path =
     [(''app_name'', app_name), (''appimage_path'', appimage), (''desktop_file'', desktop_file),
      (''launcher_path'', launcher_path), (''original_path'', ''Unknown'')]"

fun sync_loop :: "world \<Rightarrow> config \<Rightarrow> path list \<Rightarrow> config \<times> string list" where
  "sync_loop w config [] = (config, [])"
| "sync_loop w config (appimage # rest) =
     (let app_name = path_stem appimage;
          command = sync_command app_name;
          launcher_path = path_join (bin_dir w) command;
          desktop_file = path_join (desktop_dir w) (app_name @ ''.desktop'')
      in if \<not> path_exists w launcher_path then sync_loop w config rest
         else if \<not> path_exists w desktop_file then sync_loop w config rest
         else if map_of config command = None then
           (let (config', out) =
              sync_loop w (AList.update command (sync_record app_name appimage desktop_file launcher_path) config) rest
            in (config', (''Added '' @ app_name @ '' to config'') # out))
         else sync_loop w config rest)"

definition sync_scan :: "world \<Rightarrow> path list" where
  "sync_scan w = glob_dir w (appimages_dir w) (star_match [] appimage_ext)"

definition sync_appimages :: "unit io" where
  "sync_appimages =
     bindE load_config (\<lambda>config.
       bindE (getsE (\<lambda>w. sync_loop w config (sync_scan w))) (\<lambda>(config', out).
         thenE (forE out print_line)
           (thenE (save_config config') (print_line ''Sync completed''))))"

subsection \<open>The scan loop\<close>

lemma sync_command_no_slash:
  "CHR ''/'' \<notin> set s \<Longrightarrow> CHR ''/'' \<notin> set (sync_command s)"
  by (auto simp: sync_command_def replace_char_def py_lower_def lower_char_slash lower_char_slash_fix eq_commute [of "CHR ''/''"])

lemma sync_loop_Cons_fst:
  "fst (sync_loop w config (p # rest)) =
     (let k = sync_command (path_stem p); l = path_join (bin_dir w) k;
          d = path_join (desktop_dir w) (path_stem p @ ''.desktop'')
      in if path_exists w l \<and> path_exists w d \<and> map_of config k = None
         then fst (sync_loop w (AList.update k (sync_record (path_stem p) p d l) config) rest)
         else fst (sync_loop w config rest))"
  by (simp add: Let_def split_def)

lemma sync_loop_keeps:
  "map_of config k = Some r \<Longrightarrow> map_of (fst (sync_loop w config ps)) k = Some r"
proof (induction ps arbitrary: config)
  case Nil
  then show ?case by simp
next
  case (Cons p rest)
  let ?k = "sync_command (path_stem p)"
  let ?l = "path_join (bin_dir w) ?k"
  let ?d = "path_join (desktop_dir w) (path_stem p @ ''.desktop'')"
  show ?case
  proof (cases "path_exists w ?l \<and> path_exists w ?d \<and> map_of config ?k = None")
    case True
    then have "map_of (AList.update ?k (sync_record (path_stem p) p ?d ?l) config) k = Some r"
      using Cons.prems by (auto simp: AList.update_conv')
    from Cons.IH [OF this] show ?thesis unfolding sync_loop_Cons_fst Let_def if_P [OF True] .
  next
    case False
    from Cons.IH [OF Cons.prems] show ?thesis unfolding sync_loop_Cons_fst Let_def if_not_P [OF False] .
  qed
qed

lemma sync_loop_new:
  "map_of (fst (sync_loop w config ps)) k = Some r \<Longrightarrow> map_of config k = None \<Longrightarrow>
   \<exists>p \<in> set ps. k = sync_command (path_stem p)
     \<and> r = sync_record (path_stem p) p (path_join (desktop_dir w) (path_stem p @ ''.desktop'')) (path_join (bin_dir w) k)
     \<and> path_exists w (path_join (bin_dir w) k) \<and> path_exists w (path_join (desktop_dir w) (path_stem p @ ''.desktop''))"
proof (induction ps arbitrary: config)
  case Nil
  then show ?case by simp
next
  case (Cons p rest)
  let ?k = "sync_command (path_stem p)"
  let ?l = "path_join (bin_dir w) ?k"
  let ?d = "path_join (desktop_dir w) (path_stem p @ ''.desktop'')"
  let ?c = "AList.update ?k (sync_record (path_stem p) p ?d ?l) config"
  show ?case
  proof (cases "path_exists w ?l \<and> path_exists w ?d \<and> map_of config ?k = None")
    case True
    have run: "map_of (fst (sync_loop w ?c rest)) k = Some r"
      using Cons.prems(1) unfolding sync_loop_Cons_fst Let_def if_P [OF True] .
    show ?thesis
    proof (cases "k = ?k")
      case True
      then have "map_of ?c k = Some (sync_record (path_stem p) p ?d ?l)" by (simp add: AList.update_conv')
      then have "r = sync_record (path_stem p) p ?d ?l" using sync_loop_keeps [of ?c k] run by simp
      then show ?thesis using True \<open>path_exists w ?l \<and> path_exists w ?d \<and> _\<close> by auto
    next
      case False
      then have "map_of ?c k = None" using Cons.prems(2) by (simp add: AList.update_conv')
      then show ?thesis using Cons.IH [OF run] by auto
    qed
  next
    case False
    have "map_of (fst (sync_loop w config rest)) k = Some r"
      using Cons.prems(1) unfolding sync_loop_Cons_fst Let_def if_not_P [OF False] .
    then show ?thesis using Cons.IH Cons.prems(2) by auto
  qed
qed

lemma sync_loop_covers:
  assumes "p \<in> set ps" and "path_exists w (path_join (bin_dir w) (sync_command (path_stem p)))"
    and "path_exists w (path_join (desktop_dir w) (path_stem p @ ''.desktop''))"
  shows "map_of (fst (sync_loop w config ps)) (sync_command (path_stem p)) \<noteq> None"
  using assms
proof (induction ps arbitrary: config)
  case Nil
  then show ?case by simp
next
  case (Cons q rest)
  let ?k = "sync_command (path_stem q)"
  let ?l = "path_join (bin_dir w) ?k"
  let ?d = "path_join (desktop_dir w) (path_stem q @ ''.desktop'')"
  let ?c = "AList.update ?k (sync_record (path_stem q) q ?d ?l) config"
  show ?case
  proof (cases "path_exists w ?l \<and> path_exists w ?d \<and> map_of config ?k = None")
    case True
    have "map_of (fst (sync_loop w ?c rest)) (sync_command (path_stem p)) \<noteq> None"
    proof (cases "p = q")
      case True
      then show ?thesis using sync_loop_keeps [of ?c ?k] by (fastforce simp: AList.update_conv')
    next
      case False
      then show ?thesis using Cons.IH Cons.prems by auto
    qed
    then show ?thesis unfolding sync_loop_Cons_fst Let_def if_P [OF True] .
  next
    case False
    have "map_of (fst (sync_loop w config rest)) (sync_command (path_stem p)) \<noteq> None"
    proof (cases "p = q")
      case True
      then have "map_of config ?k \<noteq> None" using False Cons.prems by auto
      then show ?thesis using True sync_loop_keeps [of config ?k] by fastforce
    next
      case False
      then show ?thesis using Cons.IH Cons.prems by auto
    qed
    then show ?thesis unfolding sync_loop_Cons_fst Let_def if_not_P [OF False] .
  qed
qed

lemma sync_loop_fix:
  "(\<forall>p \<in> set ps. path_exists w (path_join (bin_dir w) (sync_command (path_stem p)))
       \<and> path_exists w (path_join (desktop_dir w) (path_stem p @ ''.desktop''))
       \<longrightarrow> map_of config (sync_command (path_stem p)) \<noteq> None)
   \<Longrightarrow> sync_loop w config ps = (config, [])"
  by (induction ps) (auto simp: Let_def)

lemma sync_loop_wf: "wf_jdoc config \<Longrightarrow> wf_jdoc (fst (sync_loop w config ps))"
proof (induction ps arbitrary: config)
  case Nil
  then show ?case by simp
next
  case (Cons p rest)
  have "wf_jdoc (AList.update k (sync_record n p d l) config)" for k n d l
    using Cons.prems by (rule wf_jdoc_update) (simp add: sync_record_def)
  then show ?case using Cons.IH Cons.prems unfolding sync_loop_Cons_fst Let_def by simp
qed

lemma sync_appimages_Inr:
  assumes "sync_appimages w = (Inr u, w1)"
  obtains c0 w' where "load_config w = (Inr c0, w)"
    and "save_config (fst (sync_loop w c0 (sync_scan w)))
           (w\<lparr>stdout := stdout w @ snd (sync_loop w c0 (sync_scan w))\<rparr>) = (Inr (), w')"
    and "w1 = w'\<lparr>stdout := stdout w' @ [''Sync completed'']\<rparr>"
proof -
  obtain r w0 where ld: "load_config w = (r, w0)" by fastforce
  have w0: "w0 = w" using load_config_world [OF ld] .
  obtain c0 where c0: "r = Inr c0"
    using assms ld w0 by (cases r) (auto simp: sync_appimages_def bindE_def)
  obtain r' w' where sv: "save_config (fst (sync_loop w c0 (sync_scan w)))
           (w\<lparr>stdout := stdout w @ snd (sync_loop w c0 (sync_scan w))\<rparr>) = (r', w')" by fastforce
  show ?thesis
  proof (cases r')
    case (Inl e)
    then show ?thesis using assms ld w0 c0 sv
      by (simp add: sync_appimages_def bindE_def thenE_def split_def forE_print_line)
  next
    case (Inr v)
    then show ?thesis using that assms ld w0 c0 sv
      by (simp add: sync_appimages_def bindE_def thenE_def split_def forE_print_line)
  qed
qed

lemma sync_paths_not_config:
  assumes "norm_dir (home w)"
  shows "path_join (bin_dir w) (sync_command (path_stem p)) \<noteq> config_file w"
    and "path_join (desktop_dir w) (path_stem p @ ''.desktop'') \<noteq> config_file w"
proof -
  have k: "CHR ''/'' \<notin> set (sync_command (path_stem p))"
    by (rule sync_command_no_slash [OF path_stem_slash_free])
  have bd: "norm_dir (bin_dir w)" "norm_dir (desktop_dir w)"
    using assms by (simp_all add: norm_dir_def)
  show "path_join (bin_dir w) (sync_command (path_stem p)) \<noteq> config_file w"
    using assms k by (simp add: path_join_slash_free [OF bd(1) k] del: home_local_child, simp)
  have d: "CHR ''/'' \<notin> set (path_stem p @ ''.desktop'')" using path_stem_slash_free [of p] by simp
  have "path_join (desktop_dir w) (path_stem p @ ''.desktop'') = desktop_dir w @ CHR ''/'' # path_stem p @ ''.desktop''"
    using path_join_slash_free [OF bd(2) d] by simp
  then show "path_join (desktop_dir w) (path_stem p @ ''.desktop'') \<noteq> config_file w"
    using assms by simp
qed

lemma sync_loop_stdout [simp]: "sync_loop (w\<lparr>stdout := o'\<rparr>) = sync_loop w"
proof -
  have "sync_loop (w\<lparr>stdout := o'\<rparr>) c ps = sync_loop w c ps" for c ps
    by (induction ps arbitrary: c) (simp_all add: Let_def bin_dir_def desktop_dir_def)
  then show ?thesis by (simp add: fun_eq_iff)
qed

lemma sync_loop_set_config:
  assumes "norm_dir (home w)"
  shows "sync_loop (set_node (config_file w) n w) c ps = sync_loop w c ps"
proof (induction ps arbitrary: c)
  case Nil
  then show ?case by simp
next
  case (Cons p rest)
  have "path_exists (set_node (config_file w) n w) (path_join (bin_dir w) (sync_command (path_stem p)))
          = path_exists w (path_join (bin_dir w) (sync_command (path_stem p)))"
       "path_exists (set_node (config_file w) n w) (path_join (desktop_dir w) (path_stem p @ ''.desktop''))
          = path_exists w (path_join (desktop_dir w) (path_stem p @ ''.desktop''))"
    using sync_paths_not_config [OF assms, of p]
    by (simp_all add: path_exists_def lookup_set_node del: home_local_child home_child)
  moreover have "bin_dir (set_node (config_file w) n w) = bin_dir w"
    "desktop_dir (set_node (config_file w) n w) = desktop_dir w"
    by (simp_all add: bin_dir_def desktop_dir_def)
  ultimately show ?case using Cons.IH by (simp add: Let_def del: home_local_child home_child)
qed

lemma sync_scan_set_config:
  "norm_dir (home w) \<Longrightarrow> sync_scan (set_node (config_file w) n w) = sync_scan w"
proof -
  assume h: "norm_dir (home w)"
  have "path_parent (config_file w) \<noteq> appimages_dir w"
    using config_file_parent [OF h] h by (simp del: home_child add: appimages_dir_def path_join_plain plain_name_def)
  then show ?thesis unfolding sync_scan_def by (simp add: glob_dir_set_node appimages_dir_def del: home_child)
qed

subsection \<open>Properties\<close>

text \<open>
  (C8) A successful \<open>sync\<close> keeps every registered command with its record, and every
  command it adds belongs to a bundle of the scan whose derived launcher and desktop entry
  exist, with the record built from them and \<open>original_path\<close> \<open>"Unknown"\<close>.
\<close>

theorem sync_appimages_registers:
  assumes "sync_appimages w = (Inr (), w1)"
  shows "\<exists>c0 c1. load_config w = (Inr c0, w) \<and> load_config w1 = (Inr c1, w1)
     \<and> (\<forall>k r. map_of c0 k = Some r \<longrightarrow> map_of c1 k = Some r)
     \<and> (\<forall>k r. map_of c1 k = Some r \<longrightarrow> map_of c0 k = None \<longrightarrow>
          (\<exists>p \<in> set (sync_scan w). k = sync_command (path_stem p)
             \<and> r = sync_record (path_stem p) p (path_join (desktop_dir w) (path_stem p @ ''.desktop''))
                   (path_join (bin_dir w) k)
             \<and> path_exists w (path_join (bin_dir w) k)
             \<and> path_exists w (path_join (desktop_dir w) (path_stem p @ ''.desktop''))))"
proof -
  obtain c0 w' where ld: "load_config w = (Inr c0, w)"
    and sv: "save_config (fst (sync_loop w c0 (sync_scan w)))
           (w\<lparr>stdout := stdout w @ snd (sync_loop w c0 (sync_scan w))\<rparr>) = (Inr (), w')"
    and w1: "w1 = w'\<lparr>stdout := stdout w' @ [''Sync completed'']\<rparr>"
    using sync_appimages_Inr [OF assms] by blast
  let ?c1 = "fst (sync_loop w c0 (sync_scan w))"
  have wf: "wf_jdoc ?c1" by (rule sync_loop_wf [OF load_config_wf [OF ld]])
  have "load_config w' = (Inr ?c1, w')"
    using save_config_Inr(2) [OF sv] load_config_saved [OF wf, of "w\<lparr>stdout := stdout w @ snd (sync_loop w c0 (sync_scan w))\<rparr>"]
    by simp
  then have "load_config w1 = (Inr ?c1, w1)" by (simp add: w1)
  then show ?thesis using ld sync_loop_keeps sync_loop_new by blast
qed

text \<open>
  (C9) \<open>sync\<close> is idempotent: right after a successful run, a second run succeeds,
  adds nothing (it prints only its closing line) and leaves the file system exactly as it
  was, the registry file included.
\<close>

theorem sync_appimages_idempotent:
  assumes home: "norm_dir (home w)" and run: "sync_appimages w = (Inr (), w1)"
  shows "\<exists>w2. sync_appimages w1 = (Inr (), w2) \<and> fs w2 = fs w1
              \<and> stdout w2 = stdout w1 @ [''Sync completed'']"
proof -
  obtain c0 w' where ld: "load_config w = (Inr c0, w)"
    and sv: "save_config (fst (sync_loop w c0 (sync_scan w)))
           (w\<lparr>stdout := stdout w @ snd (sync_loop w c0 (sync_scan w))\<rparr>) = (Inr (), w')"
    and w1: "w1 = w'\<lparr>stdout := stdout w' @ [''Sync completed'']\<rparr>"
    using sync_appimages_Inr [OF run] by blast
  let ?c1 = "fst (sync_loop w c0 (sync_scan w))"
  let ?wA = "w\<lparr>stdout := stdout w @ snd (sync_loop w c0 (sync_scan w))\<rparr>"
  let ?cfg = "config_file w"
  let ?e = "is_exec_file ?wA ?cfg"
  have wf: "wf_jdoc ?c1" by (rule sync_loop_wf [OF load_config_wf [OF ld]])
  have cfA: "config_file ?wA = ?cfg" by (simp add: config_file_def)
  have w': "w' = set_node ?cfg (File (json_dumps ?c1) ?e) ?wA"
    using save_config_Inr(2) [OF sv] by (simp only: cfA)
  have pd: "is_dir ?wA (home w)"
    using sv config_file_parent [OF home] by (auto simp: save_config_def write_text_def split: if_splits)
  have hw1: "home w1 = home w" "config_file w1 = ?cfg" by (simp_all add: w1 w' config_file_def)
  have l1: "lookup_fs w1 ?cfg = Some (File (json_dumps ?c1) ?e)" by (simp add: w1 w' lookup_set_node)
  have ld1: "load_config w1 = (Inr ?c1, w1)"
    using load_config_saved [OF wf, of ?wA ?e] by (simp add: w1 w' del: home_child)
  have scan: "sync_scan w1 = sync_scan w"
  proof -
    have "sync_scan w1 = sync_scan (set_node ?cfg (File (json_dumps ?c1) ?e) ?wA)"
      by (simp add: w1 w' sync_scan_def glob_dir_def appimages_dir_def)
    also have "\<dots> = sync_scan ?wA"
      using sync_scan_set_config [of ?wA] home by (simp add: cfA)
    also have "\<dots> = sync_scan w" by (simp add: sync_scan_def appimages_dir_def)
    finally show ?thesis .
  qed
  have loop: "sync_loop w1 ?c1 (sync_scan w) = (?c1, [])"
  proof -
    have "sync_loop w1 ?c1 (sync_scan w) = sync_loop (set_node ?cfg (File (json_dumps ?c1) ?e) ?wA) ?c1 (sync_scan w)"
      by (simp add: w1 w')
    also have "\<dots> = sync_loop w ?c1 (sync_scan w)"
      using sync_loop_set_config [of ?wA] home by (simp add: cfA)
    also have "\<dots> = (?c1, [])"
      by (rule sync_loop_fix) (use sync_loop_covers in \<open>simp del: home_child home_local_child\<close>)
    finally show ?thesis .
  qed
  have sv2: "save_config ?c1 w1 = (Inr (), set_node ?cfg (File (json_dumps ?c1) ?e) w1)"
  proof -
    have cfne: "?cfg \<noteq> ''/''" using home by (simp add: norm_dir_def)
    have "\<not> is_dir w1 ?cfg" using cfne by (simp add: l1 is_dir_def del: home_child)
    moreover have "is_dir w1 (path_parent ?cfg)"
      using pd config_file_parent [OF home] home_child(1) [OF home]
      by (simp add: w1 w' is_dir_def lookup_set_node del: home_child)
    moreover have "is_exec_file w1 ?cfg = ?e" by (simp add: l1 is_exec_file_def del: home_child)
    ultimately show ?thesis using save_config_ok [of w1 ?c1] by (simp add: hw1 del: home_child)
  qed
  have "fs (set_node ?cfg (File (json_dumps ?c1) ?e) w1) = fs w1"
    using l1 by (simp add: set_node_def lookup_fs_def AList.update_triv)
  moreover have "sync_appimages w1 = (Inr (), (set_node ?cfg (File (json_dumps ?c1) ?e) w1)
      \<lparr>stdout := stdout w1 @ [''Sync completed'']\<rparr>)"
    by (simp add: sync_appimages_def ld1 scan loop sv2 bindE_def thenE_def del: home_child)
  ultimately show ?thesis by simp
qed

subsection \<open>Witnesses\<close>

theorem sync_appimages_registers_witness:
  "\<exists>w1. sync_appimages \<lparr>fs = [(''/h'', Dir), (''/h/.appimages'', Dir), (''/h/.appimages/Foo.AppImage'', File ''b'' True),
         (''/h/.local'', Dir), (''/h/.local/bin'', Dir), (''/h/.local/bin/foo'', File ''l'' True),
         (''/h/.local/share'', Dir), (''/h/.local/share/applications'', Dir),
         (''/h/.local/share/applications/Foo.desktop'', File ''d'' False)],
       home = ''/h'', path_env = [], stdin = [], stdout = []\<rparr> = (Inr (), w1)
     \<and> (\<exists>c0 c1. load_config \<lparr>fs = [(''/h'', Dir), (''/h/.appimages'', Dir), (''/h/.appimages/Foo.AppImage'', File ''b'' True),
         (''/h/.local'', Dir), (''/h/.local/bin'', Dir), (''/h/.local/bin/foo'', File ''l'' True),
         (''/h/.local/share'', Dir), (''/h/.local/share/applications'', Dir),
         (''/h/.local/share/applications/Foo.desktop'', File ''d'' False)],
       home = ''/h'', path_env = [], stdin = [], stdout = []\<rparr> = (Inr c0, \<lparr>fs = [(''/h'', Dir), (''/h/.appimages'', Dir), (''/h/.appimages/Foo.AppImage'', File ''b'' True),
         (''/h/.local'', Dir), (''/h/.local/bin'', Dir), (''/h/.local/bin/foo'', File ''l'' True),
         (''/h/.local/share'', Dir), (''/h/.local/share/applications'', Dir),
         (''/h/.local/share/applications/Foo.desktop'', File ''d'' False)],
       home = ''/h'', path_env = [], stdin = [], stdout = []\<rparr>) \<and> load_config w1 = (Inr c1, w1)
     \<and> (\<forall>k r. map_of c0 k = Some r \<longrightarrow> map_of c1 k = Some r)
     \<and> (\<forall>k r. map_of c1 k = Some r \<longrightarrow> map_of c0 k = None \<longrightarrow>
          (\<exists>p \<in> set (sync_scan \<lparr>fs = [(''/h'', Dir), (''/h/.appimages'', Dir), (''/h/.appimages/Foo.AppImage'', File ''b'' True),
         (''/h/.local'', Dir), (''/h/.local/bin'', Dir), (''/h/.local/bin/foo'', File ''l'' True),
         (''/h/.local/share'', Dir), (''/h/.local/share/applications'', Dir),
         (''/h/.local/share/applications/Foo.desktop'', File ''d'' False)],
       home = ''/h'', path_env = [], stdin = [], stdout = []\<rparr>). k = sync_command (path_stem p)
             \<and> r = sync_record (path_stem p) p (path_join (desktop_dir \<lparr>fs = [(''/h'', Dir), (''/h/.appimages'', Dir), (''/h/.appimages/Foo.AppImage'', File ''b'' True),
         (''/h/.local'', Dir), (''/h/.local/bin'', Dir), (''/h/.local/bin/foo'', File ''l'' True),
         (''/h/.local/share'', Dir), (''/h/.local/share/applications'', Dir),
         (''/h/.local/share/applications/Foo.desktop'', File ''d'' False)],
       home = ''/h'', path_env = [], stdin = [], stdout = []\<rparr>) (path_stem p @ ''.desktop''))
                   (path_join (bin_dir \<lparr>fs = [(''/h'', Dir), (''/h/.appimages'', Dir), (''/h/.appimages/Foo.AppImage'', File ''b'' True),
         (''/h/.local'', Dir), (''/h/.local/bin'', Dir), (''/h/.local/bin/foo'', File ''l'' True),
         (''/h/.local/share'', Dir), (''/h/.local/share/applications'', Dir),
         (''/h/.local/share/applications/Foo.desktop'', File ''d'' False)],
       home = ''/h'', path_env = [], stdin = [], stdout = []\<rparr>) k)
             \<and> path_exists \<lparr>fs = [(''/h'', Dir), (''/h/.appimages'', Dir), (''/h/.appimages/Foo.AppImage'', File ''b'' True),
         (''/h/.local'', Dir), (''/h/.local/bin'', Dir), (''/h/.local/bin/foo'', File ''l'' True),
         (''/h/.local/share'', Dir), (''/h/.local/share/applications'', Dir),
         (''/h/.local/share/applications/Foo.desktop'', File ''d'' False)],
       home = ''/h'', path_env = [], stdin = [], stdout = []\<rparr> (path_join (bin_dir \<lparr>fs = [(''/h'', Dir), (''/h/.appimages'', Dir), (''/h/.appimages/Foo.AppImage'', File ''b'' True),
         (''/h/.local'', Dir), (''/h/.local/bin'', Dir), (''/h/.local/bin/foo'', File ''l'' True),
         (''/h/.local/share'', Dir), (''/h/.local/share/applications'', Dir),
         (''/h/.local/share/applications/Foo.desktop'', File ''d'' False)],
       home = ''/h'', path_env = [], stdin = [], stdout = []\<rparr>) k)
             \<and> path_exists \<lparr>fs = [(''/h'', Dir), (''/h/.appimages'', Dir), (''/h/.appimages/Foo.AppImage'', File ''b'' True),
         (''/h/.local'', Dir), (''/h/.local/bin'', Dir), (''/h/.local/bin/foo'', File ''l'' True),
         (''/h/.local/share'', Dir), (''/h/.local/share/applications'', Dir),
         (''/h/.local/share/applications/Foo.desktop'', File ''d'' False)],
       home = ''/h'', path_env = [], stdin = [], stdout = []\<rparr> (path_join (desktop_dir \<lparr>fs = [(''/h'', Dir), (''/h/.appimages'', Dir), (''/h/.appimages/Foo.AppImage'', File ''b'' True),
         (''/h/.local'', Dir), (''/h/.local/bin'', Dir), (''/h/.local/bin/foo'', File ''l'' True),
         (''/h/.local/share'', Dir), (''/h/.local/share/applications'', Dir),
         (''/h/.local/share/applications/Foo.desktop'', File ''d'' False)],
       home = ''/h'', path_env = [], stdin = [], stdout = []\<rparr>) (path_stem p @ ''.desktop'')))))"
proof -
  have "case sync_appimages \<lparr>fs = [(''/h'', Dir), (''/h/.appimages'', Dir), (''/h/.appimages/Foo.AppImage'', File ''b'' True),
         (''/h/.local'', Dir), (''/h/.local/bin'', Dir), (''/h/.local/bin/foo'', File ''l'' True),
         (''/h/.local/share'', Dir), (''/h/.local/share/applications'', Dir),
         (''/h/.local/share/applications/Foo.desktop'', File ''d'' False)],
       home = ''/h'', path_env = [], stdin = [], stdout = []\<rparr> of (Inr (), _) \<Rightarrow> True | _ \<Rightarrow> False"
    by code_simp
  then obtain w1 where r: "sync_appimages \<lparr>fs = [(''/h'', Dir), (''/h/.appimages'', Dir), (''/h/.appimages/Foo.AppImage'', File ''b'' True),
         (''/h/.local'', Dir), (''/h/.local/bin'', Dir), (''/h/.local/bin/foo'', File ''l'' True),
         (''/h/.local/share'', Dir), (''/h/.local/share/applications'', Dir),
         (''/h/.local/share/applications/Foo.desktop'', File ''d'' False)],
       home = ''/h'', path_env = [], stdin = [], stdout = []\<rparr> = (Inr (), w1)"
    by (auto split: prod.splits sum.splits)
  show ?thesis using r sync_appimages_registers [OF r] by blast
qed

theorem sync_appimages_idempotent_witness:
  "\<exists>w1. sync_appimages \<lparr>fs = [(''/h'', Dir), (''/h/.appimages'', Dir), (''/h/.appimages/Foo.AppImage'', File ''b'' True),
         (''/h/.local'', Dir), (''/h/.local/bin'', Dir), (''/h/.local/bin/foo'', File ''l'' True),
         (''/h/.local/share'', Dir), (''/h/.local/share/applications'', Dir),
         (''/h/.local/share/applications/Foo.desktop'', File ''d'' False)],
       home = ''/h'', path_env = [], stdin = [], stdout = []\<rparr> = (Inr (), w1)
     \<and> (\<exists>w2. sync_appimages w1 = (Inr (), w2) \<and> fs w2 = fs w1 \<and> stdout w2 = stdout w1 @ [''Sync completed''])"
proof -
  have "case sync_appimages \<lparr>fs = [(''/h'', Dir), (''/h/.appimages'', Dir), (''/h/.appimages/Foo.AppImage'', File ''b'' True),
         (''/h/.local'', Dir), (''/h/.local/bin'', Dir), (''/h/.local/bin/foo'', File ''l'' True),
         (''/h/.local/share'', Dir), (''/h/.local/share/applications'', Dir),
         (''/h/.local/share/applications/Foo.desktop'', File ''d'' False)],
       home = ''/h'', path_env = [], stdin = [], stdout = []\<rparr> of (Inr (), _) \<Rightarrow> True | _ \<Rightarrow> False"
    by code_simp
  then obtain w1 where r: "sync_appimages \<lparr>fs = [(''/h'', Dir), (''/h/.appimages'', Dir), (''/h/.appimages/Foo.AppImage'', File ''b'' True),
         (''/h/.local'', Dir), (''/h/.local/bin'', Dir), (''/h/.local/bin/foo'', File ''l'' True),
         (''/h/.local/share'', Dir), (''/h/.local/share/applications'', Dir),
         (''/h/.local/share/applications/Foo.desktop'', File ''d'' False)],
       home = ''/h'', path_env = [], stdin = [], stdout = []\<rparr> = (Inr (), w1)"
    by (auto split: prod.splits sum.splits)
  have h: "norm_dir (home \<lparr>fs = [(''/h'', Dir), (''/h/.appimages'', Dir), (''/h/.appimages/Foo.AppImage'', File ''b'' True),
         (''/h/.local'', Dir), (''/h/.local/bin'', Dir), (''/h/.local/bin/foo'', File ''l'' True),
         (''/h/.local/share'', Dir), (''/h/.local/share/applications'', Dir),
         (''/h/.local/share/applications/Foo.desktop'', File ''d'' False)],
       home = ''/h'', path_env = [], stdin = [], stdout = []\<rparr>)" by (simp add: norm_dir_def)
  show ?thesis using r sync_appimages_idempotent [OF h r] by blast
qed

end
