(* ===== verification/Remove.thy ===== *)
theory Remove
  imports Registry
begin

text \<open>
  \<open>remove_appimage\<close> (\<open>src/app.py\<close>, lines 196--229): an unknown command is reported
  and nothing changes; otherwise the desktop entry and the launcher are unlinked when they
  exist, the bundle is deleted (\<open>-d\<close>) or moved back to \<open>~/Downloads\<close> when it
  exists, and only then is the record deleted and the registry saved. An exception of any
  step (a directory where a file was expected, a bundle of the same name already in
  \<open>~/Downloads\<close>) ends the command with the earlier steps done and the registry file
  untouched.
\<close>

text \<open>The two guarded unlinks of lines 205--208 and 211--214.\<close>

definition remove_if_exists :: "path \<Rightarrow> string \<Rightarrow> unit io" where
  "remove_if_exists p msg =
     bindE (getsE (\<lambda>w. path_exists w p)) (\<lambda>ex.
       if ex then thenE (unlink p) (print_line msg) else returnE ())"

definition remove_bundle :: "path \<Rightarrow> bool \<Rightarrow> unit io" where
  "remove_bundle appimage_path delete =
     bindE (getsE (\<lambda>w. path_exists w appimage_path)) (\<lambda>ex.
       if \<not> ex then returnE ()
       else if delete then thenE (unlink appimage_path) (print_line (''Deleted AppImage: '' @ appimage_path))
       else bindE (getsE downloads_dir) (\<lambda>dl.
              thenE (shutil_move appimage_path dl)
                (print_line (''Moved AppImage back to: '' @ path_join dl (path_name appimage_path)))))"

definition remove_appimage :: "string \<Rightarrow> bool \<Rightarrow> unit io" where
  "remove_appimage app_command delete =
     bindE load_config (\<lambda>config.
       case map_of config app_command of
         None \<Rightarrow> print_line (''No AppImage installation found for command '' @ squote app_command)
       | Some app_info \<Rightarrow>
           bindE (getitem app_info ''desktop_file'') (\<lambda>desktop_file.
           thenE (remove_if_exists desktop_file (''Removed desktop file: '' @ desktop_file))
           (bindE (getitem app_info ''launcher_path'') (\<lambda>launcher_path.
            thenE (remove_if_exists launcher_path (''Removed launcher: '' @ launcher_path))
            (bindE (getitem app_info ''appimage_path'') (\<lambda>appimage_path.
             thenE (remove_bundle appimage_path delete)
             (thenE (save_config (AList.delete app_command config))
               (print_line (''Successfully removed AppImage installation for '' @ squote app_command)))))))))"

subsection \<open>Steps\<close>

lemma remove_if_exists_file:
  "lookup_fs w p = Some (File d x) \<Longrightarrow>
   remove_if_exists p msg w = (Inr (), (del_node p w)\<lparr>stdout := stdout w @ [msg]\<rparr>)"
  by (simp add: remove_if_exists_def path_exists_def thenE_def bindE_def unlink_file)

lemma remove_bundle_move:
  assumes img: "lookup_fs w img = Some (File b x)" and dl: "is_dir w (downloads_dir w)"
    and pt: "path_parent (os_join (downloads_dir w) (path_name img)) = downloads_dir w"
    and free: "lookup_fs w (os_join (downloads_dir w) (path_name img)) = None"
    and tne: "os_join (downloads_dir w) (path_name img) \<noteq> ''/''" and dlne: "downloads_dir w \<noteq> ''/''"
  shows "remove_bundle img False w =
           (Inr (), (set_node (os_join (downloads_dir w) (path_name img)) (File b x) (del_node img w))
                      \<lparr>stdout := stdout w @ [''Moved AppImage back to: '' @ path_join (downloads_dir w) (path_name img)]\<rparr>)"
proof -
  let ?t = "os_join (downloads_dir w) (path_name img)"
  have ne: "img \<noteq> ?t" "img \<noteq> downloads_dir w" using img free dl dlne by (auto simp: is_dir_def)
  have "shutil_move img (downloads_dir w) w = (Inr (), set_node ?t (File b x) (del_node img w))"
    using img dl pt free tne ne by (simp add: shutil_move_def path_exists_def os_rename_file is_dir_def)
  then show ?thesis
    using img by (simp add: remove_bundle_def path_exists_def thenE_def bindE_def)
qed

lemma remove_bundle_delete:
  "lookup_fs w img = Some (File b x) \<Longrightarrow>
   remove_bundle img True w = (Inr (), (del_node img w)\<lparr>stdout := stdout w @ [''Deleted AppImage: '' @ img]\<rparr>)"
  by (simp add: remove_bundle_def path_exists_def thenE_def bindE_def unlink_file)

lemma remove_appimage_files:
  assumes load: "load_config w = (Inr config, w)"
    and rec: "map_of config c = Some info"
    and fd: "map_of info ''desktop_file'' = Some dsk"
    and fl: "map_of info ''launcher_path'' = Some lnc"
    and fi: "map_of info ''appimage_path'' = Some img"
    and files: "lookup_fs w dsk = Some (File d1 x1)" "lookup_fs w lnc = Some (File d2 x2)" and ne: "lnc \<noteq> dsk"
  shows "remove_appimage c delete w =
     (case remove_bundle img delete ((del_node lnc (del_node dsk w))
              \<lparr>stdout := stdout w @ [''Removed desktop file: '' @ dsk, ''Removed launcher: '' @ lnc]\<rparr>) of
        (Inl e, w3) \<Rightarrow> (Inl e, w3)
      | (Inr u, w3) \<Rightarrow> thenE (save_config (AList.delete c config))
                         (print_line (''Successfully removed AppImage installation for '' @ squote c)) w3)"
proof -
  have s1: "remove_if_exists dsk (''Removed desktop file: '' @ dsk) w
     = (Inr (), (del_node dsk w)\<lparr>stdout := stdout w @ [''Removed desktop file: '' @ dsk]\<rparr>)"
    using files(1) by (rule remove_if_exists_file)
  have "lookup_fs ((del_node dsk w)\<lparr>stdout := stdout w @ [''Removed desktop file: '' @ dsk]\<rparr>) lnc = Some (File d2 x2)"
    using files(2) ne by (simp add: lookup_del_node)
  then have s2: "remove_if_exists lnc (''Removed launcher: '' @ lnc)
       ((del_node dsk w)\<lparr>stdout := stdout w @ [''Removed desktop file: '' @ dsk]\<rparr>)
     = (Inr (), (del_node lnc (del_node dsk w))
              \<lparr>stdout := stdout w @ [''Removed desktop file: '' @ dsk, ''Removed launcher: '' @ lnc]\<rparr>)"
    by (simp add: remove_if_exists_file del_node_def)
  show ?thesis
    unfolding remove_appimage_def
    by (simp only: bindE_def thenE_def load rec fd fl fi getitem_def option.case prod.case sum.case
        returnE_def s1 s2)
qed

lemma remove_appimage_run:
  assumes load: "load_config w = (Inr config, w)"
    and home: "norm_dir (home w)" "is_dir w (home w)"
    and rec: "map_of config c = Some info"
    and fd: "map_of info ''desktop_file'' = Some dsk"
    and fl: "map_of info ''launcher_path'' = Some lnc"
    and fi: "map_of info ''appimage_path'' = Some img"
    and files: "lookup_fs w dsk = Some (File d1 x1)" "lookup_fs w lnc = Some (File d2 x2)"
    and dist: "distinct [dsk, lnc, config_file w]"
    and bnd: "remove_bundle img delete ((del_node lnc (del_node dsk w))
              \<lparr>stdout := stdout w @ [''Removed desktop file: '' @ dsk, ''Removed launcher: '' @ lnc]\<rparr>) = (Inr (), w3)"
    and frame: "home w3 = home w" "\<forall>q. q \<in> {home w, config_file w} \<longrightarrow> lookup_fs w3 q = lookup_fs w q"
  shows "\<exists>e. remove_appimage c delete w =
           (Inr (), (set_node (config_file w) (File (json_dumps (AList.delete c config)) e) w3)
              \<lparr>stdout := stdout w3 @ [''Successfully removed AppImage installation for '' @ squote c]\<rparr>)
         \<and> load_config ((set_node (config_file w) (File (json_dumps (AList.delete c config)) e) w3)
              \<lparr>stdout := stdout w3 @ [''Successfully removed AppImage installation for '' @ squote c]\<rparr>)
           = (Inr (AList.delete c config), (set_node (config_file w) (File (json_dumps (AList.delete c config)) e) w3)
              \<lparr>stdout := stdout w3 @ [''Successfully removed AppImage installation for '' @ squote c]\<rparr>)"
proof -
  have ne: "lnc \<noteq> dsk" using dist by auto
  have cf3: "config_file w3 = config_file w" by (simp add: config_file_def frame(1))
  have cfgnd: "\<not> is_dir w (config_file w)" using load_config_not_dir [OF load] home(1) by (simp add: norm_dir_def)
  have hd3: "is_dir w3 (home w3)" using home(2) frame by (simp add: is_dir_def)
  have cd3: "\<not> is_dir w3 (config_file w3)" using cfgnd frame by (simp add: cf3 is_dir_def)
  have wf: "wf_jdoc (AList.delete c config)" by (rule wf_jdoc_delete [OF load_config_wf [OF load]])
  have "remove_appimage c delete w =
     (Inr (), (set_node (config_file w) (File (json_dumps (AList.delete c config)) (is_exec_file w3 (config_file w))) w3)
              \<lparr>stdout := stdout w3 @ [''Successfully removed AppImage installation for '' @ squote c]\<rparr>)"
    using remove_appimage_files [OF load rec fd fl fi files ne, of delete] bnd
      save_and_report [of w3, OF _ hd3 cd3] home(1)
    by (simp add: frame(1) cf3 del: home_child)
  moreover have "load_config ((set_node (config_file w) (File (json_dumps (AList.delete c config)) e) w3)
              \<lparr>stdout := stdout w3 @ [''Successfully removed AppImage installation for '' @ squote c]\<rparr>)
           = (Inr (AList.delete c config), (set_node (config_file w) (File (json_dumps (AList.delete c config)) e) w3)
              \<lparr>stdout := stdout w3 @ [''Successfully removed AppImage installation for '' @ squote c]\<rparr>)" for e
    using load_config_saved [OF wf, of w3 e] by (simp add: cf3 del: home_child)
  ultimately show ?thesis by blast
qed

lemma remove_deletes_run:
  assumes load: "load_config w = (Inr config, w)"
    and home: "norm_dir (home w)" "is_dir w (home w)"
    and rec: "map_of config c = Some info"
    and fd: "map_of info ''desktop_file'' = Some dsk"
    and fl: "map_of info ''launcher_path'' = Some lnc"
    and fi: "map_of info ''appimage_path'' = Some img"
    and files: "lookup_fs w dsk = Some (File d1 x1)" "lookup_fs w lnc = Some (File d2 x2)"
      "lookup_fs w img = Some (File b x)"
    and dist: "distinct [dsk, lnc, img, config_file w]"
  shows "\<exists>w'. remove_appimage c True w = (Inr (), w')
           \<and> load_config w' = (Inr (AList.delete c config), w')
           \<and> lookup_fs w' dsk = None \<and> lookup_fs w' lnc = None \<and> lookup_fs w' img = None
           \<and> (\<forall>q. q \<notin> {dsk, lnc, img, config_file w} \<longrightarrow> lookup_fs w' q = lookup_fs w q)"
proof -
  define w2 where "w2 = (del_node lnc (del_node dsk w))
              \<lparr>stdout := stdout w @ [''Removed desktop file: '' @ dsk, ''Removed launcher: '' @ lnc]\<rparr>"
  have l2: "lookup_fs w2 q = (if q = dsk \<or> q = lnc then None else lookup_fs w q)" for q
    by (simp add: w2_def lookup_del_node)
  define w3 where "w3 = (del_node img w2)\<lparr>stdout := stdout w2 @ [''Deleted AppImage: '' @ img]\<rparr>"
  have "lookup_fs w2 img = Some (File b x)" using files(3) dist by (auto simp: l2)
  then have rb: "remove_bundle img True w2 = (Inr (), w3)" unfolding w3_def by (rule remove_bundle_delete)
  have l3: "lookup_fs w3 q = (if q \<in> {dsk, lnc, img} then None else lookup_fs w q)" for q
    by (simp add: w3_def l2 lookup_del_node)
  have hne: "home w \<noteq> ''/''" using home(1) by (auto simp: norm_dir_def)
  have hdir: "lookup_fs w (home w) = Some Dir" using home(2) hne by (simp add: is_dir_def)
  have "lookup_fs w3 (home w) = lookup_fs w (home w)" using hdir files by (auto simp: l3 simp del: home_child)
  moreover have "lookup_fs w3 (config_file w) = lookup_fs w (config_file w)" using dist by (auto simp: l3 simp del: home_child)
  ultimately have frame: "home w3 = home w" "\<forall>q. q \<in> {home w, config_file w} \<longrightarrow> lookup_fs w3 q = lookup_fs w q"
    by (auto simp: w3_def w2_def simp del: home_child)
  obtain e where run: "remove_appimage c True w =
           (Inr (), (set_node (config_file w) (File (json_dumps (AList.delete c config)) e) w3)
              \<lparr>stdout := stdout w3 @ [''Successfully removed AppImage installation for '' @ squote c]\<rparr>)"
      and ld: "load_config ((set_node (config_file w) (File (json_dumps (AList.delete c config)) e) w3)
              \<lparr>stdout := stdout w3 @ [''Successfully removed AppImage installation for '' @ squote c]\<rparr>)
           = (Inr (AList.delete c config), (set_node (config_file w) (File (json_dumps (AList.delete c config)) e) w3)
              \<lparr>stdout := stdout w3 @ [''Successfully removed AppImage installation for '' @ squote c]\<rparr>)"
    using remove_appimage_run [OF load home rec fd fl fi files(1,2) _ rb [unfolded w2_def] frame] dist by auto
  show ?thesis
    using run ld dist by (intro exI [of _ "(set_node (config_file w) (File (json_dumps (AList.delete c config)) e) w3)
              \<lparr>stdout := stdout w3 @ [''Successfully removed AppImage installation for '' @ squote c]\<rparr>"])
      (auto simp: lookup_set_node l3 simp del: home_child)
qed

subsection \<open>Properties\<close>

text \<open>
  (C2) \<open>rm\<close> without \<open>-d\<close> on a registered command whose three files exist and
  are distinct: the command ends normally, the desktop entry, the launcher and the bundle
  are gone, the bundle is in \<open>~/Downloads\<close> under its own name with its content, the
  saved registry is the old one without the command, and no other file changes apart
  from the registry file.
\<close>

theorem remove_moves_bundle_back:
  assumes load: "load_config w = (Inr config, w)"
    and home: "norm_dir (home w)" "is_dir w (home w)"
    and rec: "map_of config c = Some info"
    and fd: "map_of info ''desktop_file'' = Some dsk"
    and fl: "map_of info ''launcher_path'' = Some lnc"
    and fi: "map_of info ''appimage_path'' = Some img"
    and files: "lookup_fs w dsk = Some (File d1 x1)" "lookup_fs w lnc = Some (File d2 x2)"
      "lookup_fs w img = Some (File b x)"
    and dist: "distinct [dsk, lnc, img, config_file w]"
    and dl: "is_dir w (downloads_dir w)" and name: "plain_name (path_name img)"
    and free: "lookup_fs w (downloads_dir w @ CHR ''/'' # path_name img) = None"
  shows "\<exists>w'. remove_appimage c False w = (Inr (), w')
           \<and> load_config w' = (Inr (AList.delete c config), w')
           \<and> lookup_fs w' dsk = None \<and> lookup_fs w' lnc = None \<and> lookup_fs w' img = None
           \<and> lookup_fs w' (downloads_dir w @ CHR ''/'' # path_name img) = Some (File b x)
           \<and> (\<forall>q. q \<notin> {dsk, lnc, img, downloads_dir w @ CHR ''/'' # path_name img, config_file w}
                  \<longrightarrow> lookup_fs w' q = lookup_fs w q)"
proof -
  let ?t = "downloads_dir w @ CHR ''/'' # path_name img"
  define w2 where "w2 = (del_node lnc (del_node dsk w))
              \<lparr>stdout := stdout w @ [''Removed desktop file: '' @ dsk, ''Removed launcher: '' @ lnc]\<rparr>"
  have dl2: "downloads_dir w2 = downloads_dir w" by (simp add: w2_def downloads_dir_def)
  have dlne: "downloads_dir w \<noteq> []" "downloads_dir w \<noteq> ''/''" using home(1) by (simp_all add: norm_dir_def)
  have tj: "os_join (downloads_dir w) (path_name img) = ?t" using dlne by (simp add: os_join_def home(1))
  have pt: "path_parent ?t = downloads_dir w"
    using name dlne(1) by (simp add: path_parent_child plain_name_def del: home_child)
  have tne: "?t \<noteq> ''/''" using dlne(1) by simp
  have l2: "lookup_fs w2 q = (if q = dsk \<or> q = lnc then None else lookup_fs w q)" for q
    by (simp add: w2_def lookup_del_node)
  define w3 where "w3 = (set_node ?t (File b x) (del_node img w2))
     \<lparr>stdout := stdout w2 @ [''Moved AppImage back to: '' @ path_join (downloads_dir w) (path_name img)]\<rparr>"
  have rb: "remove_bundle img False w2 = (Inr (), w3)"
  proof -
    have "lookup_fs w2 img = Some (File b x)" "is_dir w2 (downloads_dir w2)"
      "lookup_fs w2 (os_join (downloads_dir w2) (path_name img)) = None"
      using files dist dl free by (auto simp: l2 dl2 tj is_dir_def)
    then show ?thesis using remove_bundle_move [of w2 img b x] pt tne dlne by (simp add: dl2 tj w3_def)
  qed
  have l3: "lookup_fs w3 q = (if q = ?t then Some (File b x) else if q \<in> {dsk, lnc, img} then None else lookup_fs w q)" for q
    by (simp add: w3_def l2 lookup_set_node lookup_del_node)
  have hdl: "home w \<noteq> downloads_dir w" using home(1) by simp
  have tc: "?t \<noteq> config_file w" using pt config_file_parent [OF home(1)] hdl by (auto simp del: home_child)
  have hne: "home w \<noteq> ''/''" using home(1) by (auto simp: norm_dir_def)
  have hdir: "lookup_fs w (home w) = Some Dir" using home(2) hne by (simp add: is_dir_def)
  have "lookup_fs w3 (home w) = lookup_fs w (home w)" using hdir files free by (auto simp: l3 simp del: home_child)
  moreover have "lookup_fs w3 (config_file w) = lookup_fs w (config_file w)" using tc dist by (auto simp: l3 simp del: home_child)
  ultimately have frame: "home w3 = home w" "\<forall>q. q \<in> {home w, config_file w} \<longrightarrow> lookup_fs w3 q = lookup_fs w q"
    by (auto simp: w3_def w2_def simp del: home_child)
  obtain e where run: "remove_appimage c False w =
           (Inr (), (set_node (config_file w) (File (json_dumps (AList.delete c config)) e) w3)
              \<lparr>stdout := stdout w3 @ [''Successfully removed AppImage installation for '' @ squote c]\<rparr>)"
      and ld: "load_config ((set_node (config_file w) (File (json_dumps (AList.delete c config)) e) w3)
              \<lparr>stdout := stdout w3 @ [''Successfully removed AppImage installation for '' @ squote c]\<rparr>)
           = (Inr (AList.delete c config), (set_node (config_file w) (File (json_dumps (AList.delete c config)) e) w3)
              \<lparr>stdout := stdout w3 @ [''Successfully removed AppImage installation for '' @ squote c]\<rparr>)"
    using remove_appimage_run [OF load home rec fd fl fi files(1,2) _ rb [unfolded w2_def] frame] dist by auto
  have tn: "?t \<noteq> dsk" "?t \<noteq> lnc" "?t \<noteq> img" using free files by auto
  show ?thesis
    using run ld dist tc tn by (intro exI [of _ "(set_node (config_file w) (File (json_dumps (AList.delete c config)) e) w3)
              \<lparr>stdout := stdout w3 @ [''Successfully removed AppImage installation for '' @ squote c]\<rparr>"])
      (auto simp: lookup_set_node l3 simp del: home_child)
qed

text \<open>
  (C14) \<open>rm -d\<close> on a registered command whose three files exist and are distinct (the
  scenario \<open>rm foo -d\<close> of the specification): the bundle, the launcher and the desktop
  entry are deleted, nothing else but the registry file changes, and the saved registry
  no longer has the command and keeps every other entry.
\<close>

theorem remove_deletes_bundle:
  assumes load: "load_config w = (Inr config, w)"
    and home: "norm_dir (home w)" "is_dir w (home w)"
    and rec: "map_of config c = Some info"
    and fd: "map_of info ''desktop_file'' = Some dsk"
    and fl: "map_of info ''launcher_path'' = Some lnc"
    and fi: "map_of info ''appimage_path'' = Some img"
    and files: "lookup_fs w dsk = Some (File d1 x1)" "lookup_fs w lnc = Some (File d2 x2)"
      "lookup_fs w img = Some (File b x)"
    and dist: "distinct [dsk, lnc, img, config_file w]"
  shows "\<exists>w' config'. remove_appimage c True w = (Inr (), w') \<and> load_config w' = (Inr config', w')
           \<and> map_of config' c = None \<and> (\<forall>k. k \<noteq> c \<longrightarrow> map_of config' k = map_of config k)
           \<and> lookup_fs w' dsk = None \<and> lookup_fs w' lnc = None \<and> lookup_fs w' img = None
           \<and> (\<forall>q. q \<notin> {dsk, lnc, img, config_file w} \<longrightarrow> lookup_fs w' q = lookup_fs w q)"
  using remove_deletes_run [OF assms] by (fastforce simp: AList.delete_conv')


text \<open>
  (C16) Error path: when \<open>~/Downloads\<close> already holds an entry with the bundle's
  name, \<open>shutil.move\<close> raises after the desktop entry and the launcher have been
  unlinked; the bundle stays where it was and the registry on disk still lists the
  command, whose launcher and desktop entry are gone.
\<close>

theorem remove_name_clash_partial:
  assumes load: "load_config w = (Inr config, w)"
    and home: "norm_dir (home w)"
    and rec: "map_of config c = Some info"
    and fd: "map_of info ''desktop_file'' = Some dsk"
    and fl: "map_of info ''launcher_path'' = Some lnc"
    and fi: "map_of info ''appimage_path'' = Some img"
    and files: "lookup_fs w dsk = Some (File d1 x1)" "lookup_fs w lnc = Some (File d2 x2)"
      "lookup_fs w img = Some (File b x)"
    and dl: "is_dir w (downloads_dir w)"
    and clash: "lookup_fs w (downloads_dir w @ CHR ''/'' # path_name img) = Some n"
    and dist: "distinct [dsk, lnc, img, config_file w, downloads_dir w @ CHR ''/'' # path_name img]"
  shows "\<exists>w'. remove_appimage c False w = (Inl (ShutilError (downloads_dir w @ CHR ''/'' # path_name img)), w')
           \<and> load_config w' = (Inr config, w') \<and> map_of config c = Some info
           \<and> lookup_fs w' dsk = None \<and> lookup_fs w' lnc = None \<and> lookup_fs w' img = Some (File b x)"
proof -
  let ?t = "downloads_dir w @ CHR ''/'' # path_name img"
  define w2 where "w2 = (del_node lnc (del_node dsk w))
              \<lparr>stdout := stdout w @ [''Removed desktop file: '' @ dsk, ''Removed launcher: '' @ lnc]\<rparr>"
  have l2: "lookup_fs w2 q = (if q = dsk \<or> q = lnc then None else lookup_fs w q)" for q
    by (simp add: w2_def lookup_del_node)
  have dl2: "downloads_dir w2 = downloads_dir w" by (simp add: w2_def downloads_dir_def)
  have dlne: "downloads_dir w \<noteq> []" "last (downloads_dir w) \<noteq> CHR ''/''" "downloads_dir w \<noteq> ''/''"
    using home by (simp_all add: norm_dir_def)
  have tj: "os_join (downloads_dir w) (path_name img) = ?t" using dlne by (simp add: os_join_def del: home_child)
  have ne: "img \<noteq> downloads_dir w2" using files(3) dl dlne(3) by (auto simp: dl2 is_dir_def simp del: home_child)
  have pe: "path_exists w2 img" using files(3) dist by (auto simp: l2 path_exists_def)
  have isd: "is_dir w2 (downloads_dir w2)" using dl files(1,2) by (auto simp: dl2 l2 is_dir_def simp del: home_child)
  have ex: "path_exists w2 (os_join (downloads_dir w2) (path_name img))"
    using clash dist by (auto simp: dl2 tj l2 path_exists_def simp del: home_child)
  have rb: "remove_bundle img False w2 = (Inl (ShutilError ?t), w2)"
    using pe isd ex ne by (simp add: remove_bundle_def shutil_move_def bindE_def thenE_def Let_def dl2 tj del: home_child)
  have "lookup_fs w2 (config_file w) = lookup_fs w (config_file w)" using dist by (auto simp: l2 simp del: home_child)
  moreover have "home w2 = home w" by (simp add: w2_def)
  ultimately have "load_config w2 = (fst (load_config w), w2)" by (rule load_config_frame [rotated])
  then have ld2: "load_config w2 = (Inr config, w2)" using load by simp
  have "remove_appimage c False w = (Inl (ShutilError ?t), w2)"
  proof -
    have "lnc \<noteq> dsk" using dist by auto
    from remove_appimage_files [OF load rec fd fl fi files(1,2) this, of False] rb show ?thesis
      by (simp add: w2_def)
  qed
  then show ?thesis using ld2 rec dist files by (auto simp: l2)
qed

text \<open>
  (C17) An unknown command is reported and nothing else happens: no file, no registry
  change.
\<close>

theorem remove_unknown_command:
  "load_config w = (Inr config, w) \<Longrightarrow> map_of config c = None \<Longrightarrow>
   remove_appimage c delete w = (Inr (), w\<lparr>stdout := stdout w @ [''No AppImage installation found for command '' @ squote c]\<rparr>)"
  by (simp add: remove_appimage_def bindE_def)

subsection \<open>Witnesses\<close>

theorem remove_moves_bundle_back_witness:
  "\<exists>w'. remove_appimage ''foo'' False
      \<lparr>fs = [(''/h'', Dir), (''/h/Downloads'', Dir),
         (''/h/.appimage_installer_config.json'', File (json_dumps [(''foo'', [(''desktop_file'', ''/h/foo.desktop''),
            (''launcher_path'', ''/h/foo''), (''appimage_path'', ''/h/Foo.AppImage'')])]) False),
         (''/h/foo.desktop'', File ''d'' False), (''/h/foo'', File ''l'' True), (''/h/Foo.AppImage'', File ''b'' True)],
       home = ''/h'', path_env = [], stdin = [], stdout = []\<rparr> = (Inr (), w')
    \<and> load_config w' = (Inr [], w')
    \<and> lookup_fs w' ''/h/foo.desktop'' = None \<and> lookup_fs w' ''/h/foo'' = None
    \<and> lookup_fs w' ''/h/Foo.AppImage'' = None
    \<and> lookup_fs w' ''/h/Downloads/Foo.AppImage'' = Some (File ''b'' True)"
proof -
  define cfg where "cfg = [(''foo'', [(''desktop_file'', ''/h/foo.desktop''),
            (''launcher_path'', ''/h/foo''), (''appimage_path'', ''/h/Foo.AppImage'')])]"
  define w where "w = \<lparr>fs = [(''/h'', Dir), (''/h/Downloads'', Dir),
         (''/h/.appimage_installer_config.json'', File (json_dumps cfg) False),
         (''/h/foo.desktop'', File ''d'' False), (''/h/foo'', File ''l'' True), (''/h/Foo.AppImage'', File ''b'' True)],
       home = ''/h'', path_env = [], stdin = [], stdout = []\<rparr>"
  have wf: "wf_jdoc cfg" by (simp add: cfg_def wf_jdoc_def)
  have cf: "config_file w = ''/h/.appimage_installer_config.json''"
    by (simp add: w_def config_file_def path_join_def)
  have dl: "downloads_dir w = ''/h/Downloads''" by (simp add: w_def downloads_dir_def path_join_def)
  have lk: "lookup_fs w (config_file w) = Some (File (json_dumps cfg) False)"
    by (simp only: cf, simp add: w_def lookup_fs_def)
  have load: "load_config w = (Inr cfg, w)"
    by (simp add: load_config_def path_exists_def lk json_roundtrip [OF wf])
  have pn: "path_name ''/h/Foo.AppImage'' = ''Foo.AppImage''" by (simp add: path_name_def)
  have info: "map_of cfg ''foo'' = Some [(''desktop_file'', ''/h/foo.desktop''),
            (''launcher_path'', ''/h/foo''), (''appimage_path'', ''/h/Foo.AppImage'')]"
    by (simp add: cfg_def)
  have hd: "norm_dir (home w)" "is_dir w (home w)" by (simp_all add: w_def norm_dir_def is_dir_def lookup_fs_def)
  have fs: "lookup_fs w ''/h/foo.desktop'' = Some (File ''d'' False)" "lookup_fs w ''/h/foo'' = Some (File ''l'' True)"
    "lookup_fs w ''/h/Foo.AppImage'' = Some (File ''b'' True)" by (simp_all add: w_def lookup_fs_def)
  have ds: "distinct [''/h/foo.desktop'', ''/h/foo'', ''/h/Foo.AppImage'', config_file w]" by (simp add: cf)
  have dd: "is_dir w (downloads_dir w)" by (simp add: dl, simp add: w_def is_dir_def lookup_fs_def)
  have nm: "plain_name (path_name ''/h/Foo.AppImage'')" by (simp add: pn plain_name_def)
  have fr: "lookup_fs w (downloads_dir w @ CHR ''/'' # path_name ''/h/Foo.AppImage'') = None"
    by (simp add: dl pn, simp add: w_def lookup_fs_def)
  have "\<exists>w'. remove_appimage ''foo'' False w = (Inr (), w')
           \<and> load_config w' = (Inr (AList.delete ''foo'' cfg), w')
           \<and> lookup_fs w' ''/h/foo.desktop'' = None \<and> lookup_fs w' ''/h/foo'' = None
           \<and> lookup_fs w' ''/h/Foo.AppImage'' = None
           \<and> lookup_fs w' (downloads_dir w @ CHR ''/'' # path_name ''/h/Foo.AppImage'') = Some (File ''b'' True)"
  proof -
    have "map_of [(''desktop_file'', ''/h/foo.desktop''), (''launcher_path'', ''/h/foo''),
        (''appimage_path'', ''/h/Foo.AppImage'')] ''desktop_file'' = Some ''/h/foo.desktop''"
      "map_of [(''desktop_file'', ''/h/foo.desktop''), (''launcher_path'', ''/h/foo''),
        (''appimage_path'', ''/h/Foo.AppImage'')] ''launcher_path'' = Some ''/h/foo''"
      "map_of [(''desktop_file'', ''/h/foo.desktop''), (''launcher_path'', ''/h/foo''),
        (''appimage_path'', ''/h/Foo.AppImage'')] ''appimage_path'' = Some ''/h/Foo.AppImage''" by simp_all
    from remove_moves_bundle_back [OF load hd info this fs ds dd nm fr] show ?thesis by blast
  qed
  then have "\<exists>w'. remove_appimage ''foo'' False w = (Inr (), w')
           \<and> load_config w' = (Inr [], w')
           \<and> lookup_fs w' ''/h/foo.desktop'' = None \<and> lookup_fs w' ''/h/foo'' = None
           \<and> lookup_fs w' ''/h/Foo.AppImage'' = None
           \<and> lookup_fs w' ''/h/Downloads/Foo.AppImage'' = Some (File ''b'' True)"
    unfolding dl pn by (simp add: cfg_def)
  then show ?thesis by (simp only: w_def cfg_def)
qed

theorem remove_deletes_bundle_witness:
  "\<exists>w' config'. remove_appimage ''foo'' True
      \<lparr>fs = [(''/h'', Dir),
         (''/h/.appimage_installer_config.json'', File (json_dumps [(''foo'', [(''desktop_file'', ''/h/foo.desktop''),
            (''launcher_path'', ''/h/foo''), (''appimage_path'', ''/h/Foo.AppImage'')]), (''bar'', [])]) False),
         (''/h/foo.desktop'', File ''d'' False), (''/h/foo'', File ''l'' True), (''/h/Foo.AppImage'', File ''b'' True)],
       home = ''/h'', path_env = [], stdin = [], stdout = []\<rparr> = (Inr (), w')
    \<and> load_config w' = (Inr config', w') \<and> map_of config' ''foo'' = None \<and> map_of config' ''bar'' = Some []
    \<and> lookup_fs w' ''/h/foo.desktop'' = None \<and> lookup_fs w' ''/h/foo'' = None
    \<and> lookup_fs w' ''/h/Foo.AppImage'' = None \<and> lookup_fs w' ''/h'' = Some Dir"
proof -
  define info where "info = [(''desktop_file'', ''/h/foo.desktop''), (''launcher_path'', ''/h/foo''),
     (''appimage_path'', ''/h/Foo.AppImage'')]"
  define cfg where "cfg = [(''foo'', info), (''bar'', [])]"
  define w where "w = \<lparr>fs = [(''/h'', Dir), (''/h/.appimage_installer_config.json'', File (json_dumps cfg) False),
         (''/h/foo.desktop'', File ''d'' False), (''/h/foo'', File ''l'' True), (''/h/Foo.AppImage'', File ''b'' True)],
       home = ''/h'', path_env = [], stdin = [], stdout = []\<rparr>"
  have wf: "wf_jdoc cfg" by (simp add: cfg_def info_def wf_jdoc_def)
  have cf: "config_file w = ''/h/.appimage_installer_config.json''" by (simp add: w_def config_file_def path_join_def)
  have lk: "lookup_fs w (config_file w) = Some (File (json_dumps cfg) False)" by (simp only: cf, simp add: w_def lookup_fs_def)
  have load: "load_config w = (Inr cfg, w)" by (simp add: load_config_def path_exists_def lk json_roundtrip [OF wf])
  have hd: "norm_dir (home w)" "is_dir w (home w)" by (simp_all add: w_def norm_dir_def is_dir_def lookup_fs_def)
  have rec: "map_of cfg ''foo'' = Some info" by (simp add: cfg_def)
  have fm: "map_of info ''desktop_file'' = Some ''/h/foo.desktop''" "map_of info ''launcher_path'' = Some ''/h/foo''"
    "map_of info ''appimage_path'' = Some ''/h/Foo.AppImage''" by (simp_all add: info_def)
  have fs: "lookup_fs w ''/h/foo.desktop'' = Some (File ''d'' False)" "lookup_fs w ''/h/foo'' = Some (File ''l'' True)"
    "lookup_fs w ''/h/Foo.AppImage'' = Some (File ''b'' True)" by (simp_all add: w_def lookup_fs_def)
  have ds: "distinct [''/h/foo.desktop'', ''/h/foo'', ''/h/Foo.AppImage'', config_file w]" by (simp add: cf)
  obtain w' config' where r: "remove_appimage ''foo'' True w = (Inr (), w')" "load_config w' = (Inr config', w')"
      "map_of config' ''foo'' = None" "\<forall>k. k \<noteq> ''foo'' \<longrightarrow> map_of config' k = map_of cfg k"
      "lookup_fs w' ''/h/foo.desktop'' = None" "lookup_fs w' ''/h/foo'' = None" "lookup_fs w' ''/h/Foo.AppImage'' = None"
      "\<forall>q. q \<notin> {''/h/foo.desktop'', ''/h/foo'', ''/h/Foo.AppImage'', config_file w} \<longrightarrow> lookup_fs w' q = lookup_fs w q"
    using remove_deletes_bundle [OF load hd rec fm fs ds] apply - apply (elim exE conjE) apply (rule that) apply assumption+ done
  have "map_of config' ''bar'' = map_of cfg ''bar''" using r(4) by simp
  then have bar: "map_of config' ''bar'' = Some []" by (simp add: cfg_def)
  have "lookup_fs w' ''/h'' = lookup_fs w ''/h''" using r(8) by (simp add: cf)
  then have h: "lookup_fs w' ''/h'' = Some Dir" by (simp add: w_def lookup_fs_def)
  have "\<exists>w' config'. remove_appimage ''foo'' True w = (Inr (), w')
    \<and> load_config w' = (Inr config', w') \<and> map_of config' ''foo'' = None \<and> map_of config' ''bar'' = Some []
    \<and> lookup_fs w' ''/h/foo.desktop'' = None \<and> lookup_fs w' ''/h/foo'' = None
    \<and> lookup_fs w' ''/h/Foo.AppImage'' = None \<and> lookup_fs w' ''/h'' = Some Dir"
    using r(1-3,5-7) bar h by blast
  then show ?thesis by (simp only: w_def cfg_def info_def)
qed


theorem remove_unknown_command_witness:
  "remove_appimage ''foo'' False \<lparr>fs = [], home = ''/h'', path_env = [], stdin = [], stdout = []\<rparr>
   = (Inr (), \<lparr>fs = [], home = ''/h'', path_env = [], stdin = [],
       stdout = [''No AppImage installation found for command '' @ squote ''foo'']\<rparr>)"
proof -
  have load: "load_config \<lparr>fs = [], home = ''/h'', path_env = [], stdin = [], stdout = []\<rparr>
      = (Inr [], \<lparr>fs = [], home = ''/h'', path_env = [], stdin = [], stdout = []\<rparr>)"
    by (simp add: load_config_def config_file_def path_join_def path_exists_def lookup_fs_def)
  show ?thesis using remove_unknown_command [OF load, of "''foo''" False] by simp
qed

theorem remove_name_clash_partial_witness:
  "\<exists>w'. remove_appimage ''foo'' False
      \<lparr>fs = [(''/h'', Dir), (''/h/Downloads'', Dir), (''/h/Downloads/Foo.AppImage'', File ''old'' False),
         (''/h/.appimage_installer_config.json'', File (json_dumps [(''foo'', [(''desktop_file'', ''/h/foo.desktop''),
            (''launcher_path'', ''/h/foo''), (''appimage_path'', ''/h/Foo.AppImage'')])]) False),
         (''/h/foo.desktop'', File ''d'' False), (''/h/foo'', File ''l'' True), (''/h/Foo.AppImage'', File ''b'' True)],
       home = ''/h'', path_env = [], stdin = [], stdout = []\<rparr>
      = (Inl (ShutilError ''/h/Downloads/Foo.AppImage''), w')
    \<and> load_config w' = (Inr [(''foo'', [(''desktop_file'', ''/h/foo.desktop''),
            (''launcher_path'', ''/h/foo''), (''appimage_path'', ''/h/Foo.AppImage'')])], w')
    \<and> lookup_fs w' ''/h/foo.desktop'' = None \<and> lookup_fs w' ''/h/foo'' = None
    \<and> lookup_fs w' ''/h/Foo.AppImage'' = Some (File ''b'' True)"
proof -
  define info where "info = [(''desktop_file'', ''/h/foo.desktop''), (''launcher_path'', ''/h/foo''),
     (''appimage_path'', ''/h/Foo.AppImage'')]"
  define cfg where "cfg = [(''foo'', info)]"
  define w where "w = \<lparr>fs = [(''/h'', Dir), (''/h/Downloads'', Dir), (''/h/Downloads/Foo.AppImage'', File ''old'' False),
         (''/h/.appimage_installer_config.json'', File (json_dumps cfg) False),
         (''/h/foo.desktop'', File ''d'' False), (''/h/foo'', File ''l'' True), (''/h/Foo.AppImage'', File ''b'' True)],
       home = ''/h'', path_env = [], stdin = [], stdout = []\<rparr>"
  have wf: "wf_jdoc cfg" by (simp add: cfg_def info_def wf_jdoc_def)
  have cf: "config_file w = ''/h/.appimage_installer_config.json''" by (simp add: w_def config_file_def path_join_def)
  have dl: "downloads_dir w = ''/h/Downloads''" by (simp add: w_def downloads_dir_def path_join_def)
  have pn: "path_name ''/h/Foo.AppImage'' = ''Foo.AppImage''" by (simp add: path_name_def)
  have lk: "lookup_fs w (config_file w) = Some (File (json_dumps cfg) False)" by (simp only: cf, simp add: w_def lookup_fs_def)
  have load: "load_config w = (Inr cfg, w)" by (simp add: load_config_def path_exists_def lk json_roundtrip [OF wf])
  have hm: "norm_dir (home w)" by (simp add: w_def norm_dir_def)
  have rec: "map_of cfg ''foo'' = Some info" by (simp add: cfg_def)
  have fm: "map_of info ''desktop_file'' = Some ''/h/foo.desktop''" "map_of info ''launcher_path'' = Some ''/h/foo''"
    "map_of info ''appimage_path'' = Some ''/h/Foo.AppImage''" by (simp_all add: info_def)
  have fs: "lookup_fs w ''/h/foo.desktop'' = Some (File ''d'' False)" "lookup_fs w ''/h/foo'' = Some (File ''l'' True)"
    "lookup_fs w ''/h/Foo.AppImage'' = Some (File ''b'' True)" by (simp_all add: w_def lookup_fs_def)
  have dd: "is_dir w (downloads_dir w)" by (simp add: dl, simp add: w_def is_dir_def lookup_fs_def)
  have cl: "lookup_fs w (downloads_dir w @ CHR ''/'' # path_name ''/h/Foo.AppImage'') = Some (File ''old'' False)"
    by (simp add: dl pn, simp add: w_def lookup_fs_def)
  have ds: "distinct [''/h/foo.desktop'', ''/h/foo'', ''/h/Foo.AppImage'', config_file w,
      downloads_dir w @ CHR ''/'' # path_name ''/h/Foo.AppImage'']" by (simp add: cf dl pn)
  have "\<exists>w'. remove_appimage ''foo'' False w = (Inl (ShutilError (downloads_dir w @ CHR ''/'' # path_name ''/h/Foo.AppImage'')), w')
           \<and> load_config w' = (Inr cfg, w') \<and> map_of cfg ''foo'' = Some info
           \<and> lookup_fs w' ''/h/foo.desktop'' = None \<and> lookup_fs w' ''/h/foo'' = None
           \<and> lookup_fs w' ''/h/Foo.AppImage'' = Some (File ''b'' True)"
    by (rule remove_name_clash_partial [OF load hm rec fm fs dd cl ds])
  then have "\<exists>w'. remove_appimage ''foo'' False w = (Inl (ShutilError ''/h/Downloads/Foo.AppImage''), w')
           \<and> load_config w' = (Inr cfg, w')
           \<and> lookup_fs w' ''/h/foo.desktop'' = None \<and> lookup_fs w' ''/h/foo'' = None
           \<and> lookup_fs w' ''/h/Foo.AppImage'' = Some (File ''b'' True)"
    unfolding dl pn by auto
  then show ?thesis by (simp only: w_def cfg_def info_def)
qed

end
