(* ===== verification/Edit.thy ===== *)
theory Edit
  imports Registry
begin

text \<open>
  \<open>edit_command\<close> (\<open>src/app.py\<close>, lines 251--281): the launcher is renamed within its
  directory, reopened for writing (truncated before its new text is even computed) and
  given a blocking \<open>exec\<close> script, made executable, and the record is re-keyed: stored
  under the new command with the new launcher path, then the old key is deleted. A
  missing launcher makes \<open>Path.rename\<close> raise \<open>FileNotFoundError\<close> before anything
  changes.
\<close>

definition edit_launcher_script :: "path \<Rightarrow> string" where
  "edit_launcher_script appimage_path =
     ''#!/bin/bash'' @ [CHR 0x0A] @ replicate 16 (CHR '' '') @ ''exec '' @ appimage_path
     @ '' '' @ [CHR 0x22] @ ''$@'' @ [CHR 0x22] @ [CHR 0x0A] @ replicate 12 (CHR '' '')"

text \<open>
  Lines 274--276: \<open>config[new] = app_info\<close>, then the launcher field of that same
  dictionary object is replaced, then \<open>del config[old]\<close>.
\<close>

definition edit_rekey :: "string \<Rightarrow> string \<Rightarrow> app_info \<Rightarrow> path \<Rightarrow> config \<Rightarrow> config" where
  "edit_rekey old_command new_command app_info new_launcher_path config =
     (let config1 = AList.update new_command app_info config;
          config2 = AList.update new_command (AList.update ''launcher_path'' new_launcher_path app_info) config1
      in AList.delete old_command config2)"

definition edit_command :: "string \<Rightarrow> string \<Rightarrow> unit io" where
  "edit_command old_command new_command =
     bindE load_config (\<lambda>config.
       case map_of config old_command of
         None \<Rightarrow> print_line (''No AppImage installation found for command '' @ squote old_command)
       | Some app_info \<Rightarrow>
           bindE (getitem app_info ''launcher_path'') (\<lambda>old_launcher_path.
           (let new_launcher_path = path_join (path_parent old_launcher_path) new_command in
            thenE (os_rename old_launcher_path new_launcher_path)
            (thenE (write_text new_launcher_path [])
            (bindE (getitem app_info ''appimage_path'') (\<lambda>appimage_path.
             thenE (write_text new_launcher_path (edit_launcher_script appimage_path))
             (thenE (chmod_exec new_launcher_path)
             (thenE (save_config (edit_rekey old_command new_command app_info new_launcher_path config))
               (print_line (''Successfully renamed command from '' @ squote old_command
                  @ '' to '' @ squote new_command))))))))))"

subsection \<open>Re-keying and the run of a successful rename\<close>

lemma edit_rekey_lookup:
  "map_of (edit_rekey old new app_info nl config) k =
           (if k = old then None
            else if k = new then Some (AList.update ''launcher_path'' nl app_info)
            else map_of config k)"
  by (simp add: edit_rekey_def AList.update_conv' AList.delete_conv')

lemma edit_rekey_wf:
  assumes "wf_jdoc config" and "map_of config old = Some app_info"
  shows "wf_jdoc (edit_rekey old new app_info nl config)"
proof -
  have d: "distinct (map fst app_info)" by (rule wf_jdoc_record [OF assms])
  show ?thesis unfolding edit_rekey_def Let_def
    by (intro wf_jdoc_delete wf_jdoc_update assms(1) d AList.distinct_update)
qed

lemma edit_command_run:
  assumes load: "load_config w = (Inr config, w)"
    and home: "norm_dir (home w)" "is_dir w (home w)"
    and rec: "map_of config old = Some info"
    and fl: "map_of info ''launcher_path'' = Some lnc"
    and fi: "map_of info ''appimage_path'' = Some img"
    and lf: "lookup_fs w lnc = Some (File d x)"
    and par: "norm_dir (path_parent lnc)" "is_dir w (path_parent lnc)"
    and new: "plain_name new"
    and nd: "\<not> is_dir w (path_join (path_parent lnc) new)"
    and ncfg: "lnc \<noteq> config_file w" "path_join (path_parent lnc) new \<noteq> config_file w"
  shows "\<exists>w'. edit_command old new w = (Inr (), w')
           \<and> load_config w' = (Inr (edit_rekey old new info (path_join (path_parent lnc) new) config), w')
           \<and> lookup_fs w' (path_join (path_parent lnc) new) = Some (File (edit_launcher_script img) True)
           \<and> (lnc \<noteq> path_join (path_parent lnc) new \<longrightarrow> lookup_fs w' lnc = None)"
proof -
  let ?nl = "path_join (path_parent lnc) new"
  let ?cfg = "config_file w"
  have wf: "wf_jdoc config" by (rule load_config_wf [OF load])
  have cfgnd: "\<not> is_dir w ?cfg" using load_config_not_dir [OF load] home(1) by (simp add: norm_dir_def)
  have pn: "path_parent ?nl = path_parent lnc"
    using par(1) new by (simp add: path_join_plain path_parent_child norm_dir_def plain_name_def)
  define w1 where "w1 = (if lnc = ?nl then w else set_node ?nl (File d x) (del_node lnc w))"
  have l1: "lookup_fs w1 q = (if q = ?nl then Some (File d x) else if q = lnc then None else lookup_fs w q)" for q
    using lf by (auto simp: w1_def lookup_set_node lookup_del_node)
  have h1: "home w1 = home w" "stdout w1 = stdout w" by (simp_all add: w1_def)
  have s1: "os_rename lnc ?nl w = (Inr (), w1)"
    using os_rename_file_any [OF lf, of ?nl] par(2) nd pn by (simp add: w1_def)
  have pd1: "is_dir w1 (path_parent ?nl)"
    using par(2) lf nd by (auto simp: pn l1 is_dir_def)
  have nlne: "?nl \<noteq> ''/''" using par(1) new by (simp add: path_join_plain norm_dir_def)
  have nd1: "\<not> is_dir w1 ?nl" using nlne by (simp add: l1 is_dir_def)
  have ex1: "is_exec_file w1 ?nl = x" by (simp add: l1 is_exec_file_def)
  define w2 where "w2 = set_node ?nl (File [] x) w1"
  have s2: "write_text ?nl [] w1 = (Inr (), w2)"
    using write_text_ok [OF nd1 pd1] ex1 by (simp add: w2_def)
  define w3 where "w3 = set_node ?nl (File (edit_launcher_script img) x) w2"
  have s3: "write_text ?nl (edit_launcher_script img) w2 = (Inr (), w3)"
  proof -
    have "\<not> is_dir w2 ?nl" "is_dir w2 (path_parent ?nl)" "is_exec_file w2 ?nl = x"
      using pd1 nd1 by (auto simp: w2_def is_dir_def is_exec_file_def lookup_set_node)
    then show ?thesis using write_text_ok [of w2 ?nl] by (simp add: w3_def)
  qed
  define w4 where "w4 = set_node ?nl (File (edit_launcher_script img) True) w3"
  have s4: "chmod_exec ?nl w3 = (Inr (), w4)"
    by (simp add: w4_def chmod_exec_def w3_def lookup_set_node)
  have l4: "lookup_fs w4 q = (if q = ?nl then Some (File (edit_launcher_script img) True)
                              else if q = lnc then None else lookup_fs w q)" for q
    by (simp add: w4_def w3_def w2_def lookup_set_node l1)
  have hm4: "home w4 = home w" by (simp add: w4_def w3_def w2_def h1)
  have cf4: "config_file w4 = ?cfg" by (simp add: config_file_def hm4)
  define c' where "c' = edit_rekey old new info ?nl config"
  define w5 where "w5 = set_node ?cfg (File (json_dumps c') (is_exec_file w4 ?cfg)) w4"
  have s5: "save_config c' w4 = (Inr (), w5)"
  proof -
    have "\<not> is_dir w4 (config_file w4)" using cfgnd ncfg by (simp add: cf4 l4 is_dir_def)
    moreover have "is_dir w4 (home w4)" using home(2) par(2) lf nd ncfg
      by (auto simp: hm4 l4 is_dir_def)
    ultimately show ?thesis using save_config_home [of w4 c'] home(1) by (simp add: hm4 cf4 w5_def)
  qed
  define w6 where "w6 = w5\<lparr>stdout := stdout w5 @ [''Successfully renamed command from '' @ squote old
                  @ '' to '' @ squote new]\<rparr>"
  have run: "edit_command old new w = (Inr (), w6)"
    unfolding edit_command_def
    by (simp only: bindE_def thenE_def load rec fl fi getitem_def option.case prod.case sum.case Let_def
        returnE_def s1 s2 s3 s4 s5 [unfolded c'_def] print_line_apply w6_def c'_def)
  have wf': "wf_jdoc c'" unfolding c'_def by (rule edit_rekey_wf [OF wf rec])
  have ld: "load_config w6 = (Inr c', w6)"
    using load_config_saved [OF wf', of w4] by (simp add: w6_def w5_def cf4)
  have "lookup_fs w6 ?nl = Some (File (edit_launcher_script img) True)"
    "lnc \<noteq> ?nl \<longrightarrow> lookup_fs w6 lnc = None"
    using ncfg by (simp_all add: w6_def w5_def lookup_set_node l4)
  with run ld show ?thesis by (auto simp: c'_def)
qed
subsection \<open>Properties\<close>

text \<open>
  (C5) \<open>edit old new\<close> on a registered command whose launcher is a regular file, with
  \<open>new\<close> a plain name that differs from \<open>old\<close>: the command ends normally, the
  saved registry has no entry for \<open>old\<close>, holds the old record under \<open>new\<close>
  with the launcher path replaced by the renamed launcher, and keeps every other entry;
  the renamed launcher is the executable \<open>exec\<close> script of the bundle.
\<close>

theorem edit_command_renames:
  assumes load: "load_config w = (Inr config, w)"
    and home: "norm_dir (home w)" "is_dir w (home w)"
    and rec: "map_of config old = Some info"
    and fl: "map_of info ''launcher_path'' = Some lnc"
    and fi: "map_of info ''appimage_path'' = Some img"
    and lf: "lookup_fs w lnc = Some (File d x)"
    and par: "norm_dir (path_parent lnc)" "is_dir w (path_parent lnc)"
    and new: "plain_name new"
    and nd: "\<not> is_dir w (path_join (path_parent lnc) new)"
    and ncfg: "lnc \<noteq> config_file w" "path_join (path_parent lnc) new \<noteq> config_file w"
    and diff: "old \<noteq> new"
  shows "\<exists>w' c'. edit_command old new w = (Inr (), w') \<and> load_config w' = (Inr c', w')
           \<and> map_of c' old = None
           \<and> map_of c' new = Some (AList.update ''launcher_path'' (path_join (path_parent lnc) new) info)
           \<and> (\<forall>k. k \<noteq> old \<and> k \<noteq> new \<longrightarrow> map_of c' k = map_of config k)
           \<and> lookup_fs w' (path_join (path_parent lnc) new) = Some (File (edit_launcher_script img) True)"
proof -
  obtain w' where "edit_command old new w = (Inr (), w')"
      "load_config w' = (Inr (edit_rekey old new info (path_join (path_parent lnc) new) config), w')"
      "lookup_fs w' (path_join (path_parent lnc) new) = Some (File (edit_launcher_script img) True)"
    using edit_command_run [OF load home rec fl fi lf par new nd ncfg] by blast
  then show ?thesis using diff by (auto simp: edit_rekey_lookup)
qed

text \<open>
  (C6) \<open>edit c c\<close> renames the launcher onto itself and then, because the record is
  stored under \<open>c\<close> before \<open>del config[c]\<close> runs, saves a registry with no entry
  for \<open>c\<close> at all: the installation is forgotten although its files remain.
\<close>

theorem edit_command_same_drops_record:
  assumes load: "load_config w = (Inr config, w)"
    and home: "norm_dir (home w)" "is_dir w (home w)"
    and rec: "map_of config c = Some info"
    and fl: "map_of info ''launcher_path'' = Some lnc"
    and fi: "map_of info ''appimage_path'' = Some img"
    and lf: "lookup_fs w lnc = Some (File d x)"
    and par: "norm_dir (path_parent lnc)" "is_dir w (path_parent lnc)"
    and new: "plain_name c"
    and nd: "\<not> is_dir w (path_join (path_parent lnc) c)"
    and ncfg: "lnc \<noteq> config_file w" "path_join (path_parent lnc) c \<noteq> config_file w"
  shows "\<exists>w'. edit_command c c w = (Inr (), w') \<and> load_config w' = (Inr (AList.delete c config), w')
           \<and> map_of (AList.delete c config) c = None"
proof -
  obtain w' where "edit_command c c w = (Inr (), w')"
      "load_config w' = (Inr (edit_rekey c c info (path_join (path_parent lnc) c) config), w')"
    using edit_command_run [OF load home rec fl fi lf par new nd ncfg] by blast
  then show ?thesis by (simp add: edit_rekey_def AList.delete_update_same AList.delete_conv')
qed

text \<open>
  (C7) Error path: when the recorded launcher does not exist, \<open>Path.rename\<close> raises
  \<open>FileNotFoundError\<close> for it and nothing has changed: no file, no output, and the
  registry on disk is untouched.
\<close>

theorem edit_command_missing_launcher:
  assumes "load_config w = (Inr config, w)" and "map_of config old = Some info"
    and "map_of info ''launcher_path'' = Some lnc" and "lookup_fs w lnc = None"
  shows "edit_command old new w = (Inl (FileNotFoundError lnc), w)"
  using assms by (simp add: edit_command_def bindE_def getitem_def os_rename_missing thenE_def Let_def)

subsection \<open>Witnesses\<close>

theorem edit_command_renames_witness:
  "\<exists>w' c'. edit_command ''foo'' ''bar''
      \<lparr>fs = [(''/h'', Dir), (''/h/bin'', Dir),
         (''/h/.appimage_installer_config.json'', File (json_dumps [(''foo'', [(''appimage_path'', ''/h/Foo.AppImage''),
            (''launcher_path'', ''/h/bin/foo'')])]) False),
         (''/h/bin/foo'', File ''l'' True)],
       home = ''/h'', path_env = [], stdin = [], stdout = []\<rparr> = (Inr (), w')
    \<and> load_config w' = (Inr c', w') \<and> map_of c' ''foo'' = None
    \<and> map_of c' ''bar'' = Some [(''appimage_path'', ''/h/Foo.AppImage''), (''launcher_path'', ''/h/bin/bar'')]
    \<and> (\<forall>k. k \<noteq> ''foo'' \<and> k \<noteq> ''bar'' \<longrightarrow> map_of c' k = None)
    \<and> lookup_fs w' ''/h/bin/bar'' = Some (File (edit_launcher_script ''/h/Foo.AppImage'') True)"
proof -
  define info where "info = [(''appimage_path'', ''/h/Foo.AppImage''), (''launcher_path'', ''/h/bin/foo'')]"
  define cfg where "cfg = [(''foo'', info)]"
  define w where "w = \<lparr>fs = [(''/h'', Dir), (''/h/bin'', Dir),
         (''/h/.appimage_installer_config.json'', File (json_dumps cfg) False),
         (''/h/bin/foo'', File ''l'' True)],
       home = ''/h'', path_env = [], stdin = [], stdout = []\<rparr>"
  have wf: "wf_jdoc cfg" by (simp add: cfg_def info_def wf_jdoc_def)
  have cf: "config_file w = ''/h/.appimage_installer_config.json''"
    by (simp add: w_def config_file_def path_join_def)
  have lk: "lookup_fs w (config_file w) = Some (File (json_dumps cfg) False)"
    by (simp only: cf, simp add: w_def lookup_fs_def)
  have load: "load_config w = (Inr cfg, w)"
    by (simp add: load_config_def path_exists_def lk json_roundtrip [OF wf])
  have hd: "norm_dir (home w)" "is_dir w (home w)" by (simp_all add: w_def norm_dir_def is_dir_def lookup_fs_def)
  have rec: "map_of cfg ''foo'' = Some info" by (simp add: cfg_def)
  have fl: "map_of info ''launcher_path'' = Some ''/h/bin/foo''" by (simp add: info_def)
  have fi: "map_of info ''appimage_path'' = Some ''/h/Foo.AppImage''" by (simp add: info_def)
  have lf: "lookup_fs w ''/h/bin/foo'' = Some (File ''l'' True)" by (simp add: w_def lookup_fs_def)
  have pp: "path_parent ''/h/bin/foo'' = ''/h/bin''" by (simp add: path_parent_def)
  have nl: "path_join (path_parent ''/h/bin/foo'') ''bar'' = ''/h/bin/bar''" by (simp add: pp path_join_def)
  have par: "norm_dir (path_parent ''/h/bin/foo'')" "is_dir w (path_parent ''/h/bin/foo'')"
    by (simp_all add: pp norm_dir_def is_dir_def w_def lookup_fs_def)
  have new: "plain_name ''bar''" by (simp add: plain_name_def)
  have nd: "\<not> is_dir w (path_join (path_parent ''/h/bin/foo'') ''bar'')"
    by (simp add: nl is_dir_def w_def lookup_fs_def)
  have ncfg: "''/h/bin/foo'' \<noteq> config_file w" "path_join (path_parent ''/h/bin/foo'') ''bar'' \<noteq> config_file w"
    by (simp_all add: cf nl)
  have "\<exists>w' c'. edit_command ''foo'' ''bar'' w = (Inr (), w') \<and> load_config w' = (Inr c', w')
           \<and> map_of c' ''foo'' = None
           \<and> map_of c' ''bar'' = Some (AList.update ''launcher_path'' (path_join (path_parent ''/h/bin/foo'') ''bar'') info)
           \<and> (\<forall>k. k \<noteq> ''foo'' \<and> k \<noteq> ''bar'' \<longrightarrow> map_of c' k = map_of cfg k)
           \<and> lookup_fs w' (path_join (path_parent ''/h/bin/foo'') ''bar'') = Some (File (edit_launcher_script ''/h/Foo.AppImage'') True)"
    by (rule edit_command_renames [OF load hd rec fl fi lf par new nd ncfg]) simp
  then show ?thesis unfolding nl by (simp add: w_def cfg_def info_def)
qed

theorem edit_command_same_drops_record_witness:
  "\<exists>w'. edit_command ''foo'' ''foo''
      \<lparr>fs = [(''/h'', Dir), (''/h/bin'', Dir),
         (''/h/.appimage_installer_config.json'', File (json_dumps [(''foo'', [(''appimage_path'', ''/h/Foo.AppImage''),
            (''launcher_path'', ''/h/bin/foo'')])]) False),
         (''/h/bin/foo'', File ''l'' True)],
       home = ''/h'', path_env = [], stdin = [], stdout = []\<rparr> = (Inr (), w')
    \<and> load_config w' = (Inr [], w')"
proof -
  define info where "info = [(''appimage_path'', ''/h/Foo.AppImage''), (''launcher_path'', ''/h/bin/foo'')]"
  define cfg where "cfg = [(''foo'', info)]"
  define w where "w = \<lparr>fs = [(''/h'', Dir), (''/h/bin'', Dir),
         (''/h/.appimage_installer_config.json'', File (json_dumps cfg) False),
         (''/h/bin/foo'', File ''l'' True)],
       home = ''/h'', path_env = [], stdin = [], stdout = []\<rparr>"
  have wf: "wf_jdoc cfg" by (simp add: cfg_def info_def wf_jdoc_def)
  have cf: "config_file w = ''/h/.appimage_installer_config.json''"
    by (simp add: w_def config_file_def path_join_def)
  have lk: "lookup_fs w (config_file w) = Some (File (json_dumps cfg) False)"
    by (simp only: cf, simp add: w_def lookup_fs_def)
  have load: "load_config w = (Inr cfg, w)"
    by (simp add: load_config_def path_exists_def lk json_roundtrip [OF wf])
  have nl: "path_join (path_parent ''/h/bin/foo'') ''foo'' = ''/h/bin/foo''"
    by (simp add: path_parent_def path_join_def)
  have "\<exists>w'. edit_command ''foo'' ''foo'' w = (Inr (), w') \<and> load_config w' = (Inr (AList.delete ''foo'' cfg), w')
           \<and> map_of (AList.delete ''foo'' cfg) ''foo'' = None"
    by (rule edit_command_same_drops_record [where c="''foo''" and info=info and lnc="''/h/bin/foo''"
          and img="''/h/Foo.AppImage''" and d="''l''" and x=True, OF load],
        simp_all add: w_def cfg_def info_def nl norm_dir_def is_dir_def lookup_fs_def plain_name_def path_parent_def path_join_def cf)
  then show ?thesis by (simp add: w_def cfg_def info_def)
qed

theorem edit_command_missing_launcher_witness:
  "edit_command ''foo'' ''bar''
      \<lparr>fs = [(''/h/.appimage_installer_config.json'', File (json_dumps [(''foo'', [(''launcher_path'', ''/h/bin/foo'')])]) False)],
       home = ''/h'', path_env = [], stdin = [], stdout = []\<rparr>
   = (Inl (FileNotFoundError ''/h/bin/foo''),
      \<lparr>fs = [(''/h/.appimage_installer_config.json'', File (json_dumps [(''foo'', [(''launcher_path'', ''/h/bin/foo'')])]) False)],
       home = ''/h'', path_env = [], stdin = [], stdout = []\<rparr>)"
proof -
  define cfg where "cfg = [(''foo'', [(''launcher_path'', ''/h/bin/foo'')])]"
  define w where "w = \<lparr>fs = [(''/h/.appimage_installer_config.json'', File (json_dumps cfg) False)],
       home = ''/h'', path_env = [], stdin = [], stdout = []\<rparr>"
  have wf: "wf_jdoc cfg" by (simp add: cfg_def wf_jdoc_def)
  have cf: "config_file w = ''/h/.appimage_installer_config.json''"
    by (simp add: w_def config_file_def path_join_def)
  have lk: "lookup_fs w (config_file w) = Some (File (json_dumps cfg) False)"
    by (simp only: cf, simp add: w_def lookup_fs_def)
  have load: "load_config w = (Inr cfg, w)"
    by (simp add: load_config_def path_exists_def lk json_roundtrip [OF wf])
  have "edit_command ''foo'' ''bar'' w = (Inl (FileNotFoundError ''/h/bin/foo''), w)"
  proof (rule edit_command_missing_launcher [OF load])
    show "map_of cfg ''foo'' = Some [(''launcher_path'', ''/h/bin/foo'')]" by (simp add: cfg_def)
    show "map_of [(''launcher_path'', ''/h/bin/foo'')] ''launcher_path'' = Some ''/h/bin/foo''" by simp
    show "lookup_fs w ''/h/bin/foo'' = None" by (simp add: w_def lookup_fs_def)
  qed
  then show ?thesis by (simp only: w_def cfg_def)
qed

end
