(* ===== verification/ListApps.thy ===== *)
theory ListApps
  imports Registry
begin

text \<open>
  \<open>list_appimages\<close> (\<open>src/app.py\<close>, lines 232--248): read-only; prints one line per
  registered command, the whole record in verbose mode, the application name otherwise;
  only the terse mode prints the closing line.
\<close>

definition list_appimages :: "bool \<Rightarrow> unit io" where
  "list_appimages verbose =
     bindE load_config (\<lambda>config.
       if config = [] then print_line ''No AppImage installations found''
       else if verbose then
         forE config (\<lambda>(command, app_info). print_line (command @ '': '' @ py_repr_dict app_info))
       else
         thenE (forE config (\<lambda>(command, app_info).
                  bindE (getitem app_info ''app_name'') (\<lambda>n. print_line (command @ '': '' @ n))))
           (print_line ''List of all installed AppImages''))"

subsection \<open>The two loops\<close>

lemma forE_terse:
  assumes "\<forall>(c, info) \<in> set config. map_of info ''app_name'' \<noteq> None"
  shows "forE config (\<lambda>(command, app_info). bindE (getitem app_info ''app_name'') (\<lambda>n. print_line (command @ '': '' @ n))) w
     = (Inr (), w\<lparr>stdout := stdout w @ map (\<lambda>(c, info). c @ '': '' @ the (map_of info ''app_name'')) config\<rparr>)"
  using assms
proof (induction config arbitrary: w)
  case Nil
  then show ?case by simp
next
  case (Cons a config)
  obtain c info where a: "a = (c, info)" by fastforce
  obtain n where n: "map_of info ''app_name'' = Some n" using Cons.prems a by auto
  show ?case using Cons.IH [of "w\<lparr>stdout := stdout w @ [c @ '': '' @ n]\<rparr>"] Cons.prems a n
    by (simp add: thenE_def bindE_def getitem_def)
qed

lemma forE_verbose:
  "forE config (\<lambda>(command, app_info). print_line (command @ '': '' @ py_repr_dict app_info)) w
     = (Inr (), w\<lparr>stdout := stdout w @ map (\<lambda>(c, info). c @ '': '' @ py_repr_dict info) config\<rparr>)"
  by (induction config arbitrary: w) (auto simp: thenE_def bindE_def split: prod.splits)

subsection \<open>Properties\<close>

text \<open>
  (C21) Terse \<open>list\<close> on a non-empty registry whose records all have an
  \<open>app_name\<close>: one line \<open>command: app_name\<close> per record in registry order, then the
  closing line; nothing else changes.
\<close>

theorem list_appimages_terse:
  assumes "load_config w = (Inr config, w)" and "config \<noteq> []"
    and "\<forall>(c, info) \<in> set config. map_of info ''app_name'' \<noteq> None"
  shows "list_appimages False w = (Inr (), w\<lparr>stdout := stdout w
           @ map (\<lambda>(c, info). c @ '': '' @ the (map_of info ''app_name'')) config
           @ [''List of all installed AppImages'']\<rparr>)"
  using assms(1,2) forE_terse [OF assms(3), of w] by (simp add: list_appimages_def bindE_def thenE_def)

text \<open>
  (C22) Verbose \<open>list\<close> prints \<open>command: {record}\<close> with Python's \<open>repr\<close> of each
  record, in registry order, and (unlike the terse mode) no closing line.
\<close>

theorem list_appimages_verbose:
  assumes "load_config w = (Inr config, w)" and "config \<noteq> []"
  shows "list_appimages True w = (Inr (), w\<lparr>stdout := stdout w
           @ map (\<lambda>(c, info). c @ '': '' @ py_repr_dict info) config\<rparr>)"
  using assms forE_verbose [of config w] by (simp add: list_appimages_def bindE_def)

text \<open>
  (C23) On an empty registry (in particular when no registry file exists) \<open>list\<close>
  prints only that no installation was found.
\<close>

theorem list_appimages_empty:
  "load_config w = (Inr [], w) \<Longrightarrow>
   list_appimages v w = (Inr (), w\<lparr>stdout := stdout w @ [''No AppImage installations found'']\<rparr>)"
  by (simp add: list_appimages_def bindE_def)

subsection \<open>Witnesses\<close>

theorem list_appimages_terse_witness:
  "list_appimages False \<lparr>fs = [(''/h/.appimage_installer_config.json'',
       File (json_dumps [(''foo'', [(''app_name'', ''Foo'')]), (''bar'', [(''app_name'', ''Bar'')])]) False)],
     home = ''/h'', path_env = [], stdin = [], stdout = []\<rparr>
   = (Inr (), \<lparr>fs = [(''/h/.appimage_installer_config.json'',
       File (json_dumps [(''foo'', [(''app_name'', ''Foo'')]), (''bar'', [(''app_name'', ''Bar'')])]) False)],
     home = ''/h'', path_env = [], stdin = [],
     stdout = [''foo: Foo'', ''bar: Bar'', ''List of all installed AppImages'']\<rparr>)"
proof -
  define cfg where "cfg = [(''foo'', [(''app_name'', ''Foo'')]), (''bar'', [(''app_name'', ''Bar'')])]"
  define w where "w = \<lparr>fs = [(''/h/.appimage_installer_config.json'', File (json_dumps cfg) False)],
     home = ''/h'', path_env = [], stdin = [], stdout = []\<rparr>"
  have wf: "wf_jdoc cfg" by (simp add: cfg_def wf_jdoc_def)
  have load: "load_config w = (Inr cfg, w)"
    by (simp add: load_config_def config_file_def path_join_def path_exists_def json_roundtrip [OF wf],
        simp add: w_def lookup_fs_def json_roundtrip [OF wf])
  have "list_appimages False w = (Inr (), w\<lparr>stdout := stdout w
           @ map (\<lambda>(c, info). c @ '': '' @ the (map_of info ''app_name'')) cfg
           @ [''List of all installed AppImages'']\<rparr>)"
    by (rule list_appimages_terse [OF load]) (simp_all add: cfg_def)
  then show ?thesis by (simp add: w_def cfg_def)
qed

theorem list_appimages_verbose_witness:
  "list_appimages True \<lparr>fs = [(''/h/.appimage_installer_config.json'',
       File (json_dumps [(''foo'', [(''app_name'', ''Foo'')])]) False)],
     home = ''/h'', path_env = [], stdin = [], stdout = []\<rparr>
   = (Inr (), \<lparr>fs = [(''/h/.appimage_installer_config.json'',
       File (json_dumps [(''foo'', [(''app_name'', ''Foo'')])]) False)],
     home = ''/h'', path_env = [], stdin = [],
     stdout = [''foo: '' @ py_repr_dict [(''app_name'', ''Foo'')]]\<rparr>)"
proof -
  define cfg where "cfg = [(''foo'', [(''app_name'', ''Foo'')])]"
  define w where "w = \<lparr>fs = [(''/h/.appimage_installer_config.json'', File (json_dumps cfg) False)],
     home = ''/h'', path_env = [], stdin = [], stdout = []\<rparr>"
  have wf: "wf_jdoc cfg" by (simp add: cfg_def wf_jdoc_def)
  have load: "load_config w = (Inr cfg, w)"
    by (simp add: load_config_def config_file_def path_join_def path_exists_def json_roundtrip [OF wf],
        simp add: w_def lookup_fs_def json_roundtrip [OF wf])
  have "list_appimages True w = (Inr (), w\<lparr>stdout := stdout w
           @ map (\<lambda>(c, info). c @ '': '' @ py_repr_dict info) cfg\<rparr>)"
    by (rule list_appimages_verbose [OF load]) (simp add: cfg_def)
  then show ?thesis by (simp add: w_def cfg_def)
qed

theorem list_appimages_empty_witness:
  "list_appimages False \<lparr>fs = [], home = ''/h'', path_env = [], stdin = [], stdout = []\<rparr>
   = (Inr (), \<lparr>fs = [], home = ''/h'', path_env = [], stdin = [], stdout = [''No AppImage installations found'']\<rparr>)"
proof -
  have load: "load_config \<lparr>fs = [], home = ''/h'', path_env = [], stdin = [], stdout = []\<rparr>
      = (Inr [], \<lparr>fs = [], home = ''/h'', path_env = [], stdin = [], stdout = []\<rparr>)"
    by (simp add: load_config_def config_file_def path_join_def path_exists_def lookup_fs_def)
  show ?thesis using list_appimages_empty [OF load, of False] by simp
qed

end
