(* ===== verification/Add.thy ===== *)
theory Add
  imports Registry
begin

text \<open>
  \<open>add_appimage\<close> and its helpers (\<open>src/app.py\<close>, lines 69--96 and 113--193). The
  bundle is chosen among the \<open>~/Downloads\<close> entries matching \<open>{app_name}*.AppImage\<close>:
  none ends the command with exit status 1, one asks for confirmation, several ask for a
  number until a valid one is typed (each attempt consumes one input line, so the loop
  ends, at the latest with \<open>EOFError\<close>). A command already found by \<open>shutil.which\<close>
  is replaced by the answer to a prompt (\<open>force\<close> keeps it, anything else goes through
  \<open>get_unique_command\<close>). Then the bundle is moved into \<open>~/.appimages\<close> and made
  executable, the desktop entry and the launcher are written, and the record is stored
  and saved: every step is a file operation that may raise, with no rollback.
\<close>

text \<open>The numbered-choice loop of lines 89--96.\<close>

function choose_loop :: "path list \<Rightarrow> path io" where
  "choose_loop app_images w =
     (case get_user_input ''Enter the number of your choice'' [] w of
        (Inl e, w1) \<Rightarrow> (Inl e, w1)
      | (Inr s, w1) \<Rightarrow>
          (case py_int s of
             None \<Rightarrow> choose_loop app_images (w1\<lparr>stdout := stdout w1 @ [''Please enter a valid number.'']\<rparr>)
           | Some choice \<Rightarrow>
               if 1 \<le> choice \<and> choice \<le> int (length app_images)
               then (Inr (app_images ! nat (choice - 1)), w1)
               else choose_loop app_images (w1\<lparr>stdout := stdout w1 @ [''Invalid choice. Please try again.'']\<rparr>)))"
  by pat_completeness auto

termination
  by (relation "measure (\<lambda>(app_images, w). length (stdin w))")
    (auto dest: get_user_input_consumes [OF sym])

definition select_appimage :: "string \<Rightarrow> path option io" where
  "select_appimage app_name =
     bindE (getsE (\<lambda>w. glob_dir w (downloads_dir w) (star_match app_name appimage_ext))) (\<lambda>app_images.
       if app_images = [] then
         thenE (print_line (''No AppImage files matching '' @ squote (app_name @ ''*.AppImage'')
                             @ '' found in Downloads folder.''))
           (returnE None)
       else if length app_images = 1 then
         bindE (get_user_input (''Is this the app you want to add? '' @ path_name (hd app_images) @ '' (Y/n)'') ''Y'')
           (\<lambda>confirm. returnE (if py_lower confirm \<noteq> ''n'' then Some (hd app_images) else None))
       else
         thenE (print_line ''Multiple AppImage files found. Please select one:'')
           (thenE (forE (zip [1..<Suc (length app_images)] app_images)
                    (\<lambda>(i, app). print_line (str_nat i @ ''. '' @ path_name app)))
             (bindE (choose_loop app_images) (\<lambda>p. returnE (Some p)))))"

definition desktop_entry :: "string \<Rightarrow> path \<Rightarrow> string \<Rightarrow> string" where
  "desktop_entry app_name exec_path icon_path =
     ''[Desktop Entry]'' @ [CHR 0x0A] @ ''Name='' @ app_name @ [CHR 0x0A] @ ''Exec='' @ exec_path @ [CHR 0x0A]
     @ ''Icon='' @ (if icon_path = [] then ''application-x-executable'' else icon_path) @ [CHR 0x0A]
     @ ''Type=Application'' @ [CHR 0x0A] @ ''Categories=Utility;'' @ [CHR 0x0A]"

definition create_desktop_file :: "string \<Rightarrow> path \<Rightarrow> string \<Rightarrow> unit io" where
  "create_desktop_file app_name exec_path icon_path =
     bindE (getsE desktop_dir) (\<lambda>dd.
       thenE (mkdir_parents dd)
         (let desktop_file = path_join dd (app_name @ ''.desktop'') in
          thenE (write_text desktop_file (desktop_entry app_name exec_path icon_path))
            (print_line (''Desktop file created: '' @ desktop_file))))"

text \<open>Lines 149--157: the command actually used.\<close>

definition resolve_command :: "string \<Rightarrow> string io" where
  "resolve_command app_command =
     bindE (check_command_exists app_command) (\<lambda>taken.
       if \<not> taken then returnE app_command
       else bindE (getsE (\<lambda>w. which w app_command)) (\<lambda>found.
         thenE (print_line (''Command '' @ squote app_command @ '' is already in use by '' @ the found))
           (bindE (get_user_input (''Enter a new command or type '' @ squote ''force'' @ '' to replace it'') [])
              (\<lambda>choice.
                 if py_lower choice = ''force''
                 then thenE (print_line ''Warning: Replacing existing command.'') (returnE app_command)
                 else get_unique_command choice))))"

definition add_launcher_script :: "path \<Rightarrow> string" where
  "add_launcher_script appimage_path =
     ''#!/bin/bash'' @ [CHR 0x0A] @ ''nohup '' @ appimage_path @ '' '' @ [CHR 0x22] @ ''$@'' @ [CHR 0x22]
     @ '' >/dev/null 2>&1 &'' @ [CHR 0x0A]"

definition add_record :: "string \<Rightarrow> path \<Rightarrow> path \<Rightarrow> path \<Rightarrow> path \<Rightarrow> app_info" where
  "add_record app_name appimage_path desktop_file launcher_path original_path =
     [(''app_name'', app_name), (''appimage_path'', appimage_path), (''desktop_file'', desktop_file),
      (''launcher_path'', launcher_path), (''original_path'', original_path)]"

text \<open>
  Lines 159--193, once a bundle and a command are chosen: move, chmod, desktop entry,
  launcher, chmod, store and save, report.
\<close>

definition install_appimage :: "config \<Rightarrow> string \<Rightarrow> path \<Rightarrow> string \<Rightarrow> string \<Rightarrow> unit io" where
  "install_appimage config app_name appimage_path app_command icon =
     bindE (getsE appimages_dir) (\<lambda>ad.
     thenE (mkdir_exist_ok ad)
     (let new_appimage_path = path_join ad (path_name appimage_path) in
      thenE (shutil_move appimage_path new_appimage_path)
      (thenE (chmod_exec new_appimage_path)
      (bindE (getsE desktop_dir) (\<lambda>dd.
       thenE (create_desktop_file app_name new_appimage_path icon)
       (bindE (getsE bin_dir) (\<lambda>bd.
        thenE (mkdir_parents bd)
        (let launcher_path = path_join bd app_command in
         thenE (write_text launcher_path (add_launcher_script new_appimage_path))
         (thenE (chmod_exec launcher_path)
         (thenE (save_config (AList.update app_command
                   (add_record app_name new_appimage_path (path_join dd (app_name @ ''.desktop''))
                      launcher_path appimage_path) config))
         (thenE (print_line ''AppImage installed successfully!'')
           (print_line (''You can now launch '' @ app_name @ '' by running '' @ squote app_command
              @ '' or from your applications menu.'')))))))))))))"

definition add_appimage :: "string \<Rightarrow> string \<Rightarrow> string \<Rightarrow> unit io" where
  "add_appimage app_name_arg app_command_arg icon =
     bindE load_config (\<lambda>config.
     bindE (if app_name_arg = [] then get_user_input ''Enter the name of the AppImage file (without extension)'' []
            else returnE app_name_arg) (\<lambda>app_name.
     bindE (select_appimage app_name) (\<lambda>selected.
       case selected of
         None \<Rightarrow> thenE (print_line ''No AppImage selected. Exiting.'') (raiseE (SystemExit 1))
       | Some appimage_path \<Rightarrow>
           bindE (if app_command_arg = [] then get_user_input ''Enter the command to launch the app'' []
                  else returnE app_command_arg) (\<lambda>app_command0.
           bindE (resolve_command app_command0) (\<lambda>app_command.
             install_appimage config app_name appimage_path app_command icon)))))"

subsection \<open>Steps of a successful installation\<close>

lemma select_appimage_single:
  assumes "glob_dir w (downloads_dir w) (star_match app_name appimage_ext) = [src]"
    and "stdin w = ans # rest" and "py_lower ans \<noteq> ''n''"
  shows "select_appimage app_name w = (Inr (Some src), w\<lparr>stdin := rest\<rparr>)"
  using assms by (simp add: select_appimage_def get_user_input_def py_input_def bindE_def lower_eval)

lemma resolve_command_free:
  "which w c = None \<Longrightarrow> resolve_command c w = (Inr c, w)"
  by (simp add: resolve_command_def check_command_exists_def)

lemma create_desktop_file_ok:
  assumes "is_dir w (desktop_dir w)"
    and "\<not> is_dir w (path_join (desktop_dir w) (app_name @ ''.desktop''))"
    and "is_dir w (path_parent (path_join (desktop_dir w) (app_name @ ''.desktop'')))"
  shows "create_desktop_file app_name exec_path icon w =
     (Inr (), (set_node (path_join (desktop_dir w) (app_name @ ''.desktop''))
                (File (desktop_entry app_name exec_path icon)
                   (is_exec_file w (path_join (desktop_dir w) (app_name @ ''.desktop'')))) w)
              \<lparr>stdout := stdout w @ [''Desktop file created: '' @ path_join (desktop_dir w) (app_name @ ''.desktop'')]\<rparr>)"
  using assms by (simp add: create_desktop_file_def mkdir_parents_dir thenE_def bindE_def Let_def write_text_ok)

lemma install_appimage_run:
  fixes w :: world and src app_name cmd icon
  defines "tgt \<equiv> path_join (appimages_dir w) (path_name src)"
    and "dsk \<equiv> path_join (desktop_dir w) (app_name @ ''.desktop'')"
    and "lnc \<equiv> path_join (bin_dir w) cmd"
  assumes load: "load_config w = (Inr config, w)"
    and home: "norm_dir (home w)" "is_dir w (home w)"
    and dirs: "is_dir w (appimages_dir w)" "is_dir w (desktop_dir w)" "is_dir w (bin_dir w)"
    and srcf: "lookup_fs w src = Some (File b x)" and tfree: "lookup_fs w tgt = None"
    and pt: "path_parent tgt = appimages_dir w" "path_parent dsk = desktop_dir w" "path_parent lnc = bin_dir w"
    and nd: "\<not> is_dir w dsk" "\<not> is_dir w lnc"
    and dist: "distinct [src, tgt, dsk, lnc, config_file w]"
  shows "\<exists>w'. install_appimage config app_name src cmd icon w = (Inr (), w')
           \<and> load_config w' = (Inr (AList.update cmd (add_record app_name tgt dsk lnc src) config), w')
           \<and> lookup_fs w' src = None \<and> lookup_fs w' tgt = Some (File b True)
           \<and> (\<exists>e. lookup_fs w' dsk = Some (File (desktop_entry app_name tgt icon) e))
           \<and> lookup_fs w' lnc = Some (File (add_launcher_script tgt) True)"
proof -
  let ?cfg = "config_file w"
  have dne: "tgt \<noteq> src" "dsk \<noteq> src" "dsk \<noteq> tgt" "lnc \<noteq> src" "lnc \<noteq> tgt" "lnc \<noteq> dsk"
    "?cfg \<noteq> src" "?cfg \<noteq> tgt" "?cfg \<noteq> dsk" "?cfg \<noteq> lnc" using dist by auto
  have cfgnd: "\<not> is_dir w ?cfg" using load_config_not_dir [OF load] home(1) by (simp add: norm_dir_def)
  have adne: "appimages_dir w \<noteq> ''/''" using home(1) by (simp add: norm_dir_def)
  have tne: "tgt \<noteq> ''/''"
  proof
    assume "tgt = ''/''"
    then have "path_parent tgt = ''/''" by (simp add: path_parent_def)
    then show False using pt(1) adne by simp
  qed
  define w1 where "w1 = set_node tgt (File b x) (del_node src w)"
  have s1: "shutil_move src tgt w = (Inr (), w1)"
    using shutil_move_free [OF srcf tfree dne(1) [symmetric]] pt(1) dirs(1) tne by (simp add: w1_def)
  define w2 where "w2 = set_node tgt (File b True) w1"
  have s2: "chmod_exec tgt w1 = (Inr (), w2)" by (simp add: w1_def w2_def chmod_exec_def lookup_set_node)
  have l2: "lookup_fs w2 q = (if q = tgt then Some (File b True) else if q = src then None else lookup_fs w q)" for q
    by (simp add: w1_def w2_def lookup_set_node lookup_del_node)
  have d2: "is_dir w2 p" if "is_dir w p" for p
    using that srcf tfree by (auto simp: is_dir_def l2)
  have h2: "home w2 = home w" "stdout w2 = stdout w" by (simp_all add: w1_def w2_def)
  have dd2: "desktop_dir w2 = desktop_dir w" "bin_dir w2 = bin_dir w" "config_file w2 = ?cfg"
    by (simp_all add: desktop_dir_def bin_dir_def config_file_def h2)
  define w3 where "w3 = (set_node dsk (File (desktop_entry app_name tgt icon) (is_exec_file w2 dsk)) w2)
     \<lparr>stdout := stdout w2 @ [''Desktop file created: '' @ dsk]\<rparr>"
  have s3: "create_desktop_file app_name tgt icon w2 = (Inr (), w3)"
  proof -
    have "\<not> is_dir w2 dsk" using nd(1) dne by (simp add: is_dir_def l2)
    then show ?thesis using create_desktop_file_ok [of w2 app_name tgt icon] d2 dirs(2) pt(2)
      by (simp add: dd2 w3_def dsk_def)
  qed
  have l3: "lookup_fs w3 q = (if q = dsk then Some (File (desktop_entry app_name tgt icon) (is_exec_file w2 dsk))
                              else lookup_fs w2 q)" for q
    by (simp add: w3_def lookup_set_node)
  have d3: "is_dir w3 p" if "is_dir w p" for p
    using that d2 nd(1) by (auto simp: is_dir_def l3)
  have h3: "home w3 = home w" by (simp add: w3_def h2)
  have bd3: "bin_dir w3 = bin_dir w" by (simp add: bin_dir_def h3)
  define w4 where "w4 = set_node lnc (File (add_launcher_script tgt) (is_exec_file w3 lnc)) w3"
  have s4: "write_text lnc (add_launcher_script tgt) w3 = (Inr (), w4)"
  proof -
    have "\<not> is_dir w3 lnc" using nd(2) dne by (simp add: is_dir_def l3 l2)
    then show ?thesis using write_text_ok [of w3 lnc] d3 dirs(3) pt(3) by (simp add: w4_def)
  qed
  define w5 where "w5 = set_node lnc (File (add_launcher_script tgt) True) w4"
  have s5: "chmod_exec lnc w4 = (Inr (), w5)" by (simp add: w4_def w5_def chmod_exec_def lookup_set_node)
  have l5: "lookup_fs w5 q = (if q = lnc then Some (File (add_launcher_script tgt) True) else lookup_fs w3 q)" for q
    by (simp add: w4_def w5_def lookup_set_node)
  have h5: "home w5 = home w" "config_file w5 = ?cfg" by (simp_all add: w4_def w5_def h3 config_file_def)
  define c' where "c' = AList.update cmd (add_record app_name tgt dsk lnc src) config"
  define w6 where "w6 = set_node ?cfg (File (json_dumps c') (is_exec_file w5 ?cfg)) w5"
  have s6: "save_config c' w5 = (Inr (), w6)"
  proof -
    have "\<not> is_dir w5 (config_file w5)" using cfgnd dne by (simp add: h5 is_dir_def l5 l3 l2)
    moreover have "is_dir w5 (home w5)" using d3 home(2) nd(2) by (auto simp: h5 is_dir_def l5)
    ultimately show ?thesis using save_config_home [of w5 c'] home(1) by (simp add: h5 w6_def)
  qed
  define w7 where "w7 = w6\<lparr>stdout := stdout w6 @ [''AppImage installed successfully!'',
       ''You can now launch '' @ app_name @ '' by running '' @ squote cmd @ '' or from your applications menu.'']\<rparr>"
  have run: "install_appimage config app_name src cmd icon w = (Inr (), w7)"
    unfolding install_appimage_def
    by (simp add: bindE_def thenE_def Let_def mkdir_exist_ok_dir mkdir_parents_dir dirs d3 [OF dirs(3)] dd2 bd3
        s1 [unfolded tgt_def] s2 [unfolded tgt_def] s3 [unfolded tgt_def] s4 [unfolded tgt_def lnc_def]
        s5 [unfolded lnc_def] s6 [unfolded c'_def tgt_def dsk_def lnc_def] w7_def del: home_child home_local_child)
  have wf: "wf_jdoc c'" unfolding c'_def
    by (rule wf_jdoc_update [OF load_config_wf [OF load]]) (simp add: add_record_def)
  have ld: "load_config w7 = (Inr c', w7)"
    using load_config_saved [OF wf, of w5] by (simp add: w7_def w6_def h5 del: home_child)
  have "lookup_fs w7 src = None" "lookup_fs w7 tgt = Some (File b True)"
    "lookup_fs w7 dsk = Some (File (desktop_entry app_name tgt icon) (is_exec_file w2 dsk))"
    "lookup_fs w7 lnc = Some (File (add_launcher_script tgt) True)"
    using dne by (simp_all add: w7_def w6_def lookup_set_node l5 l3 l2 del: home_child)
  then show ?thesis using run ld by (auto simp: c'_def)
qed

lemma add_dirs_distinct:
  assumes "norm_dir (home w)"
  shows "distinct [downloads_dir w, appimages_dir w, desktop_dir w, bin_dir w, home w]"
  using assms by simp

subsection \<open>The numbered choice\<close>

lemma choose_loop_result:
  "choose_loop xs w = (r, w') \<Longrightarrow> ((\<exists>p. r = Inr p \<and> p \<in> set xs) \<or> r = Inl EOFError) \<and> (\<exists>pre. stdin w = pre @ stdin w')"
proof (induction xs w arbitrary: r w' rule: choose_loop.induct)
  case (1 app_images w)
  show ?case
  proof (cases "stdin w")
    case Nil
    then show ?thesis using "1.prems" by (simp add: choose_loop.simps get_user_input_def py_input_def bindE_def)
  next
    case (Cons s rest)
    let ?w1 = "w\<lparr>stdin := rest\<rparr>"
    have gi: "get_user_input ''Enter the number of your choice'' [] w = (Inr s, ?w1)"
      using Cons by (simp add: get_user_input_def py_input_def bindE_def)
    show ?thesis
    proof (cases "py_int s")
      case None
      let ?w2 = "?w1\<lparr>stdout := stdout ?w1 @ [''Please enter a valid number.'']\<rparr>"
      have "choose_loop app_images ?w2 = (r, w')" using "1.prems" gi None by (simp add: choose_loop.simps)
      from "1.IH"(1) [OF gi [symmetric] refl None this] Cons show ?thesis by auto
    next
      case (Some choice)
      show ?thesis
      proof (cases "1 \<le> choice \<and> choice \<le> int (length app_images)")
        case True
        then have "r = Inr (app_images ! nat (choice - 1))" "w' = ?w1"
          using "1.prems" gi Some by (simp_all add: choose_loop.simps)
        moreover have "nat (choice - 1) < length app_images" using True by linarith
        ultimately show ?thesis using Cons by auto
      next
        case False
        let ?w2 = "?w1\<lparr>stdout := stdout ?w1 @ [''Invalid choice. Please try again.'']\<rparr>"
        have "choose_loop app_images ?w2 = (r, w')" using "1.prems" gi Some False by (simp add: choose_loop.simps)
        from "1.IH"(2) [OF gi [symmetric] refl Some False this] Cons show ?thesis by auto
      qed
    qed
  qed
qed

subsection \<open>Properties\<close>

text \<open>
  (C10) \<open>add name cmd\<close> when exactly one bundle of \<open>~/Downloads\<close> matches, the user
  does not answer \<open>n\<close>, the command is free on \<open>PATH\<close>, and the three target
  directories exist: the command ends normally, the bundle is gone from \<open>~/Downloads\<close>
  and is an executable file of \<open>~/.appimages\<close> with its content, the desktop entry
  and the executable launcher script point at it, and the saved registry is the old one
  with the new record under \<open>cmd\<close>.
\<close>

theorem add_appimage_installs:
  fixes w :: world and src app_name cmd icon
  defines "tgt \<equiv> path_join (appimages_dir w) (path_name src)"
    and "dsk \<equiv> path_join (desktop_dir w) (app_name @ ''.desktop'')"
    and "lnc \<equiv> path_join (bin_dir w) cmd"
  assumes load: "load_config w = (Inr config, w)"
    and home: "norm_dir (home w)" "is_dir w (home w)"
    and dirs: "is_dir w (appimages_dir w)" "is_dir w (desktop_dir w)" "is_dir w (bin_dir w)"
    and sel: "glob_dir w (downloads_dir w) (star_match app_name appimage_ext) = [src]"
    and ans: "stdin w = ans # rest" "py_lower ans \<noteq> ''n''"
    and name: "app_name \<noteq> []" "CHR ''/'' \<notin> set app_name"
    and cmd: "plain_name cmd" "which w cmd = None"
    and srcf: "lookup_fs w src = Some (File b x)" and tfree: "lookup_fs w tgt = None"
    and nd: "\<not> is_dir w dsk" "\<not> is_dir w lnc"
  shows "\<exists>w'. add_appimage app_name cmd icon w = (Inr (), w')
           \<and> load_config w' = (Inr (AList.update cmd (add_record app_name tgt dsk lnc src) config), w')
           \<and> lookup_fs w' src = None \<and> lookup_fs w' tgt = Some (File b True)
           \<and> (\<exists>e. lookup_fs w' dsk = Some (File (desktop_entry app_name tgt icon) e))
           \<and> lookup_fs w' lnc = Some (File (add_launcher_script tgt) True)"
proof -
  define wi where "wi = w\<lparr>stdin := rest\<rparr>"
  have sm: "path_parent src = downloads_dir w" "star_match app_name appimage_ext (path_name src)"
    using glob_dir_member [of src w "downloads_dir w" "star_match app_name appimage_ext"] sel by simp_all
  have nn: "path_name src \<noteq> []" using star_match_nonempty [OF sm(2)] by simp
  have nd': "norm_dir (appimages_dir w)" "norm_dir (desktop_dir w)" "norm_dir (bin_dir w)"
    using home by (simp_all add: norm_dir_def)
  have pt: "path_parent tgt = appimages_dir w" "path_parent dsk = desktop_dir w" "path_parent lnc = bin_dir w"
    using child_parent [OF nd'(1) path_name_slash_free nn] child_parent [OF nd'(2), of "app_name @ ''.desktop''"]
      child_parent [OF nd'(3), of cmd] name cmd(1)
    by (simp_all add: tgt_def dsk_def lnc_def plain_name_def)
  have dist: "distinct [src, tgt, dsk, lnc, config_file w]"
  proof -
    have "distinct (map path_parent [src, tgt, dsk, lnc, config_file w])"
      using add_dirs_distinct [OF home(1)] sm(1) pt config_file_parent [OF home(1)]
      by (simp del: home_child home_local_child)
    then show ?thesis by (simp only: distinct_map)
  qed
  have ldi: "load_config wi = (Inr config, wi)"
    using load by (simp add: wi_def)
  have wi: "load_config wi = (Inr config, wi)" "norm_dir (home wi)" "is_dir wi (home wi)"
    "is_dir wi (appimages_dir wi)" "is_dir wi (desktop_dir wi)" "is_dir wi (bin_dir wi)"
    "lookup_fs wi src = Some (File b x)" "lookup_fs wi (path_join (appimages_dir wi) (path_name src)) = None"
    "path_parent (path_join (appimages_dir wi) (path_name src)) = appimages_dir wi"
    "path_parent (path_join (desktop_dir wi) (app_name @ ''.desktop'')) = desktop_dir wi"
    "path_parent (path_join (bin_dir wi) cmd) = bin_dir wi"
    "\<not> is_dir wi (path_join (desktop_dir wi) (app_name @ ''.desktop''))" "\<not> is_dir wi (path_join (bin_dir wi) cmd)"
    "distinct [src, path_join (appimages_dir wi) (path_name src), path_join (desktop_dir wi) (app_name @ ''.desktop''),
        path_join (bin_dir wi) cmd, config_file wi]"
    using ldi home dirs srcf tfree pt nd dist
    by (simp_all add: wi_def appimages_dir_def desktop_dir_def bin_dir_def config_file_def tgt_def dsk_def lnc_def
        del: home_child home_local_child)
  have eqs: "appimages_dir wi = appimages_dir w" "desktop_dir wi = desktop_dir w" "bin_dir wi = bin_dir w"
    by (simp_all add: wi_def appimages_dir_def desktop_dir_def bin_dir_def del: home_child home_local_child)
  obtain w' where inst: "install_appimage config app_name src cmd icon wi = (Inr (), w')"
      "load_config w' = (Inr (AList.update cmd (add_record app_name tgt dsk lnc src) config), w')"
      "lookup_fs w' src = None" "lookup_fs w' tgt = Some (File b True)"
      "\<exists>e. lookup_fs w' dsk = Some (File (desktop_entry app_name tgt icon) e)"
      "lookup_fs w' lnc = Some (File (add_launcher_script tgt) True)"
    using install_appimage_run [OF wi, where icon = icon] unfolding eqs tgt_def dsk_def lnc_def by blast
  have "add_appimage app_name cmd icon w = (Inr (), w')"
    using name(1) select_appimage_single [OF sel ans] resolve_command_free [of wi cmd] cmd inst(1) load
    by (simp add: add_appimage_def bindE_def wi_def plain_name_def)
  then show ?thesis using inst by blast
qed

text \<open>
  (C11) Whatever \<open>select_appimage\<close> selects is one of the \<open>~/Downloads\<close> entries
  matching \<open>{app_name}*.AppImage\<close>: the single match after confirmation, or the entry
  of the first valid number typed, however many invalid answers precede it.
\<close>

theorem select_appimage_member:
  assumes "select_appimage app_name w = (Inr (Some p), w')"
  shows "p \<in> set (glob_dir w (downloads_dir w) (star_match app_name appimage_ext))"
proof -
  let ?xs = "glob_dir w (downloads_dir w) (star_match app_name appimage_ext)"
  consider (none) "?xs = []" | (one) "length ?xs = 1" | (many) "?xs \<noteq> []" "length ?xs \<noteq> 1" by blast
  then show ?thesis
  proof cases
    case none
    then show ?thesis using assms by (simp add: select_appimage_def thenE_def bindE_def)
  next
    case one
    then have "p = hd ?xs" using assms
      by (auto simp: select_appimage_def bindE_def get_user_input_def py_input_def split: list.splits if_splits)
    then show ?thesis using one by (cases ?xs) auto
  next
    case many
    let ?w1 = "w\<lparr>stdout := stdout w @ [''Multiple AppImage files found. Please select one:'']
                 @ map (\<lambda>(i, app). str_nat i @ ''. '' @ path_name app) (zip [1..<Suc (length ?xs)] ?xs)\<rparr>"
    obtain r w2 where cl: "choose_loop ?xs ?w1 = (r, w2)" by fastforce
    have sel: "select_appimage app_name w = (case r of Inl e \<Rightarrow> Inl e | Inr q \<Rightarrow> Inr (Some q), w2)"
      using many cl by (simp add: select_appimage_def thenE_def bindE_def forE_print_enum split: sum.splits)
    then have "r = Inr p" using assms by (cases r) auto
    then show ?thesis using choose_loop_result [OF cl] by auto
  qed
qed

text \<open>
  (C12) Error path: with no matching bundle, \<open>add\<close> prints the two messages and exits
  with status 1 before touching any file.
\<close>

theorem add_appimage_no_match:
  assumes "load_config w = (Inr config, w)" and "app_name \<noteq> []"
    and "glob_dir w (downloads_dir w) (star_match app_name appimage_ext) = []"
  shows "add_appimage app_name cmd icon w =
     (Inl (SystemExit 1), w\<lparr>stdout := stdout w @
        [''No AppImage files matching '' @ squote (app_name @ ''*.AppImage'') @ '' found in Downloads folder.'',
         ''No AppImage selected. Exiting.'']\<rparr>)"
  using assms by (simp add: add_appimage_def select_appimage_def bindE_def thenE_def)

text \<open>
  (C13) Error path: answering \<open>n\<close> (in any case) to the confirmation of the single
  match exits with status 1; the file system is unchanged and exactly one input line is
  consumed.
\<close>

theorem add_appimage_declined:
  assumes "load_config w = (Inr config, w)" and "app_name \<noteq> []"
    and "glob_dir w (downloads_dir w) (star_match app_name appimage_ext) = [src]"
    and "stdin w = ans # rest" and "py_lower ans = ''n''"
  shows "\<exists>w'. add_appimage app_name cmd icon w = (Inl (SystemExit 1), w') \<and> fs w' = fs w \<and> stdin w' = rest"
proof -
  have "ans \<noteq> []" using assms(5) by (auto simp: py_lower_def)
  then show ?thesis
    using assms by (simp add: add_appimage_def select_appimage_def bindE_def thenE_def get_user_input_def py_input_def)
qed

text \<open>
  (C18) The specification's scenario \<open>add\<close> with a taken command such as \<open>ls\<close>:
  the user is told which file holds the command and, on answering \<open>force\<close> (in any
  case), is warned and the taken command is kept.
\<close>

theorem resolve_command_force:
  assumes "which w c = Some p" and "stdin w = ans # rest" and "py_lower ans = ''force''"
  shows "resolve_command c w = (Inr c, w\<lparr>stdin := rest, stdout := stdout w @
           [''Command '' @ squote c @ '' is already in use by '' @ p, ''Warning: Replacing existing command.'']\<rparr>)"
proof -
  have "ans \<noteq> []" using assms(3) by (auto simp: py_lower_def)
  then show ?thesis using assms
    by (simp add: resolve_command_def check_command_exists_def get_user_input_def py_input_def bindE_def thenE_def)
qed

text \<open>
  (C19) Answering the collision prompt with an empty line gives the empty string, which
  \<open>get_unique_command\<close> accepts as a free command: the command the installation
  goes on with is empty, so its launcher path \<open>~/.local/bin/\<close> joined with nothing
  is the launcher directory itself.
\<close>

theorem resolve_command_empty_answer:
  assumes "which w c \<noteq> None" and "stdin w = [] # rest" and "which w [] = None"
  shows "\<exists>w'. resolve_command c w = (Inr [], w') \<and> fs w' = fs w \<and> stdin w' = rest"
  using assms by (auto simp: resolve_command_def check_command_exists_def get_user_input_def py_input_def
      bindE_def thenE_def get_unique_command_def py_lower_def)


subsection \<open>Witnesses\<close>

theorem add_appimage_installs_witness:
  "\<exists>w'. add_appimage ''Foo'' ''foo'' []
      \<lparr>fs = [(''/h'', Dir), (''/h/Downloads'', Dir), (''/h/Downloads/Foo-1.0.AppImage'', File ''b'' False),
         (''/h/.appimages'', Dir), (''/h/.local'', Dir), (''/h/.local/bin'', Dir), (''/h/.local/share'', Dir),
         (''/h/.local/share/applications'', Dir)],
       home = ''/h'', path_env = [''/usr/bin''], stdin = [[]], stdout = []\<rparr> = (Inr (), w')
    \<and> load_config w' = (Inr [(''foo'', add_record ''Foo'' ''/h/.appimages/Foo-1.0.AppImage''
          ''/h/.local/share/applications/Foo.desktop'' ''/h/.local/bin/foo'' ''/h/Downloads/Foo-1.0.AppImage'')], w')
    \<and> lookup_fs w' ''/h/Downloads/Foo-1.0.AppImage'' = None
    \<and> lookup_fs w' ''/h/.appimages/Foo-1.0.AppImage'' = Some (File ''b'' True)
    \<and> (\<exists>e. lookup_fs w' ''/h/.local/share/applications/Foo.desktop''
            = Some (File (desktop_entry ''Foo'' ''/h/.appimages/Foo-1.0.AppImage'' []) e))
    \<and> lookup_fs w' ''/h/.local/bin/foo'' = Some (File (add_launcher_script ''/h/.appimages/Foo-1.0.AppImage'') True)"
proof -
  define w where "w = \<lparr>fs = [(''/h'', Dir), (''/h/Downloads'', Dir), (''/h/Downloads/Foo-1.0.AppImage'', File ''b'' False),
         (''/h/.appimages'', Dir), (''/h/.local'', Dir), (''/h/.local/bin'', Dir), (''/h/.local/share'', Dir),
         (''/h/.local/share/applications'', Dir)],
       home = ''/h'', path_env = [''/usr/bin''], stdin = [[]], stdout = []\<rparr>"
  have dirs: "appimages_dir w = ''/h/.appimages''" "desktop_dir w = ''/h/.local/share/applications''"
    "bin_dir w = ''/h/.local/bin''" "downloads_dir w = ''/h/Downloads''"
    by (simp_all add: w_def appimages_dir_def desktop_dir_def bin_dir_def downloads_dir_def path_join_def)
  have pj: "path_join (appimages_dir w) (path_name ''/h/Downloads/Foo-1.0.AppImage'') = ''/h/.appimages/Foo-1.0.AppImage''"
    "path_join (desktop_dir w) (''Foo'' @ ''.desktop'') = ''/h/.local/share/applications/Foo.desktop''"
    "path_join (bin_dir w) ''foo'' = ''/h/.local/bin/foo''"
    by (simp_all add: dirs path_join_def path_name_def)
  have load: "load_config w = (Inr [], w)"
    by (simp add: load_config_def config_file_def path_join_def path_exists_def w_def lookup_fs_def)
  have "\<exists>w'. add_appimage ''Foo'' ''foo'' [] w = (Inr (), w')
           \<and> load_config w' = (Inr (AList.update ''foo'' (add_record ''Foo'' (path_join (appimages_dir w) (path_name ''/h/Downloads/Foo-1.0.AppImage''))
                (path_join (desktop_dir w) (''Foo'' @ ''.desktop'')) (path_join (bin_dir w) ''foo'') ''/h/Downloads/Foo-1.0.AppImage'') []), w')
           \<and> lookup_fs w' ''/h/Downloads/Foo-1.0.AppImage'' = None
           \<and> lookup_fs w' (path_join (appimages_dir w) (path_name ''/h/Downloads/Foo-1.0.AppImage'')) = Some (File ''b'' True)
           \<and> (\<exists>e. lookup_fs w' (path_join (desktop_dir w) (''Foo'' @ ''.desktop''))
                = Some (File (desktop_entry ''Foo'' (path_join (appimages_dir w) (path_name ''/h/Downloads/Foo-1.0.AppImage'')) []) e))
           \<and> lookup_fs w' (path_join (bin_dir w) ''foo'')
                = Some (File (add_launcher_script (path_join (appimages_dir w) (path_name ''/h/Downloads/Foo-1.0.AppImage''))) True)"
  proof (rule add_appimage_installs [OF load])
    show "norm_dir (home w)" "is_dir w (home w)" by (simp_all add: w_def norm_dir_def is_dir_def lookup_fs_def)
    show "is_dir w (appimages_dir w)" "is_dir w (desktop_dir w)" "is_dir w (bin_dir w)"
      by (simp_all add: dirs, simp_all add: w_def is_dir_def lookup_fs_def)
    show "glob_dir w (downloads_dir w) (star_match ''Foo'' appimage_ext) = [''/h/Downloads/Foo-1.0.AppImage'']"
      unfolding dirs by (simp add: w_def glob_dir_def path_parent_def path_name_def star_match_def)
    show "stdin w = [] # []" by (simp add: w_def)
    show "py_lower [] \<noteq> ''n''" by (simp add: py_lower_def)
    show "''Foo'' \<noteq> []" "CHR ''/'' \<notin> set ''Foo''" by simp_all
    show "plain_name ''foo''" by (simp add: plain_name_def)
    show "which w ''foo'' = None" by (simp add: which_def w_def os_join_def is_exec_file_def lookup_fs_def)
    show "lookup_fs w ''/h/Downloads/Foo-1.0.AppImage'' = Some (File ''b'' False)" by (simp add: w_def lookup_fs_def)
    show "lookup_fs w (path_join (appimages_dir w) (path_name ''/h/Downloads/Foo-1.0.AppImage'')) = None"
      unfolding pj by (simp add: w_def lookup_fs_def)
    show "\<not> is_dir w (path_join (desktop_dir w) (''Foo'' @ ''.desktop''))" "\<not> is_dir w (path_join (bin_dir w) ''foo'')"
      unfolding pj by (simp_all add: w_def is_dir_def lookup_fs_def)
  qed
  then show ?thesis unfolding pj by (simp add: w_def)
qed

theorem select_appimage_member_witness:
  "select_appimage ''Foo'' \<lparr>fs = [(''/h/Downloads/Foo-1.AppImage'', File [] False), (''/h/Downloads/Foo-2.AppImage'', File [] False)],
       home = ''/h'', path_env = [], stdin = [''2''], stdout = []\<rparr>
     = (Inr (Some ''/h/Downloads/Foo-2.AppImage''), \<lparr>fs = [(''/h/Downloads/Foo-1.AppImage'', File [] False),
         (''/h/Downloads/Foo-2.AppImage'', File [] False)], home = ''/h'', path_env = [], stdin = [],
         stdout = [''Multiple AppImage files found. Please select one:'', ''1. Foo-1.AppImage'', ''2. Foo-2.AppImage'']\<rparr>)
   \<and> ''/h/Downloads/Foo-2.AppImage'' \<in> set (glob_dir \<lparr>fs = [(''/h/Downloads/Foo-1.AppImage'', File [] False),
         (''/h/Downloads/Foo-2.AppImage'', File [] False)], home = ''/h'', path_env = [], stdin = [''2''], stdout = []\<rparr>
         ''/h/Downloads'' (star_match ''Foo'' appimage_ext))"
proof -
  have run: "select_appimage ''Foo'' \<lparr>fs = [(''/h/Downloads/Foo-1.AppImage'', File [] False), (''/h/Downloads/Foo-2.AppImage'', File [] False)],
       home = ''/h'', path_env = [], stdin = [''2''], stdout = []\<rparr>
     = (Inr (Some ''/h/Downloads/Foo-2.AppImage''), \<lparr>fs = [(''/h/Downloads/Foo-1.AppImage'', File [] False),
         (''/h/Downloads/Foo-2.AppImage'', File [] False)], home = ''/h'', path_env = [], stdin = [],
         stdout = [''Multiple AppImage files found. Please select one:'', ''1. Foo-1.AppImage'', ''2. Foo-2.AppImage'']\<rparr>)"
    by code_simp
  have dl: "downloads_dir \<lparr>fs = [(''/h/Downloads/Foo-1.AppImage'', File [] False),
         (''/h/Downloads/Foo-2.AppImage'', File [] False)], home = ''/h'', path_env = [], stdin = [''2''], stdout = []\<rparr>
         = ''/h/Downloads''" by (simp add: downloads_dir_def path_join_def)
  show ?thesis using run select_appimage_member [OF run] unfolding dl by simp
qed

theorem add_appimage_no_match_witness:
  "add_appimage ''Foo'' ''foo'' [] \<lparr>fs = [(''/h/Downloads'', Dir)], home = ''/h'', path_env = [], stdin = [], stdout = []\<rparr>
   = (Inl (SystemExit 1), \<lparr>fs = [(''/h/Downloads'', Dir)], home = ''/h'', path_env = [], stdin = [],
       stdout = [''No AppImage files matching '' @ squote (''Foo'' @ ''*.AppImage'') @ '' found in Downloads folder.'',
         ''No AppImage selected. Exiting.'']\<rparr>)"
proof -
  define w where "w = \<lparr>fs = [(''/h/Downloads'', Dir)], home = ''/h'', path_env = [], stdin = [], stdout = []\<rparr>"
  have load: "load_config w = (Inr [], w)"
    by (simp add: load_config_def config_file_def path_join_def path_exists_def w_def lookup_fs_def)
  have gl: "glob_dir w (downloads_dir w) (star_match ''Foo'' appimage_ext) = []"
    by (simp add: w_def glob_dir_def downloads_dir_def path_join_def path_parent_def)
  show ?thesis using add_appimage_no_match [OF load _ gl, of "''foo''" "[]"] by (simp add: w_def)
qed

theorem add_appimage_declined_witness:
  "\<exists>w'. add_appimage ''Foo'' ''foo'' [] \<lparr>fs = [(''/h/Downloads/Foo.AppImage'', File [] False)], home = ''/h'',
       path_env = [], stdin = [''N''], stdout = []\<rparr> = (Inl (SystemExit 1), w')
     \<and> fs w' = [(''/h/Downloads/Foo.AppImage'', File [] False)] \<and> stdin w' = []"
proof -
  define w where "w = \<lparr>fs = [(''/h/Downloads/Foo.AppImage'', File [] False)], home = ''/h'',
       path_env = [], stdin = [''N''], stdout = []\<rparr>"
  have load: "load_config w = (Inr [], w)"
    by (simp add: load_config_def config_file_def path_join_def path_exists_def w_def lookup_fs_def)
  have gl: "glob_dir w (downloads_dir w) (star_match ''Foo'' appimage_ext) = [''/h/Downloads/Foo.AppImage'']"
    by (simp add: w_def glob_dir_def downloads_dir_def path_join_def path_parent_def path_name_def star_match_def)
  have "\<exists>w'. add_appimage ''Foo'' ''foo'' [] w = (Inl (SystemExit 1), w') \<and> fs w' = fs w \<and> stdin w' = []"
  proof (rule add_appimage_declined [OF load _ gl])
    show "''Foo'' \<noteq> []" "stdin w = ''N'' # []" by (simp_all add: w_def)
    show "py_lower ''N'' = ''n''" by code_simp
  qed
  then show ?thesis by (simp add: w_def)
qed

theorem resolve_command_force_witness:
  "resolve_command ''ls'' \<lparr>fs = [(''/bin/ls'', File [] True)], home = ''/h'', path_env = [''/bin''],
      stdin = [''Force''], stdout = []\<rparr>
   = (Inr ''ls'', \<lparr>fs = [(''/bin/ls'', File [] True)], home = ''/h'', path_env = [''/bin''], stdin = [],
      stdout = [''Command '' @ squote ''ls'' @ '' is already in use by '' @ ''/bin/ls'', ''Warning: Replacing existing command.'']\<rparr>)"
proof -
  have wh: "which \<lparr>fs = [(''/bin/ls'', File [] True)], home = ''/h'', path_env = [''/bin''],
      stdin = [''Force''], stdout = []\<rparr> ''ls'' = Some ''/bin/ls''"
    by (simp add: which_def os_join_def is_exec_file_def lookup_fs_def)
  have lw: "py_lower ''Force'' = ''force''" by code_simp
  show ?thesis using resolve_command_force [OF wh _ lw] by simp
qed

theorem resolve_command_empty_answer_witness:
  "\<exists>w'. resolve_command ''ls'' \<lparr>fs = [(''/bin/ls'', File [] True)], home = ''/h'', path_env = [''/bin''],
      stdin = [[]], stdout = []\<rparr> = (Inr [], w') \<and> fs w' = [(''/bin/ls'', File [] True)] \<and> stdin w' = []"
proof -
  have "\<exists>w'. resolve_command ''ls'' \<lparr>fs = [(''/bin/ls'', File [] True)], home = ''/h'', path_env = [''/bin''],
      stdin = [[]], stdout = []\<rparr> = (Inr [], w') \<and> fs w' = fs \<lparr>fs = [(''/bin/ls'', File [] True)], home = ''/h'',
      path_env = [''/bin''], stdin = [[]], stdout = []\<rparr> \<and> stdin w' = []"
    by (rule resolve_command_empty_answer) (simp_all add: which_def os_join_def is_exec_file_def lookup_fs_def)
  then show ?thesis by simp
qed

end
