(* ===== verification/Cli.thy ===== *)
theory Cli
  imports Sync Add Remove Edit ListApps
begin

text \<open>
  \<open>main\<close> (\<open>src/app.py\<close>, lines 284--333): \<open>argparse\<close> turns the command line into
  one of five subcommands with their arguments (an omitted optional argument is the empty
  string, which the handlers treat exactly as Python treats \<open>None\<close>: both are falsy),
  and \<open>main\<close> dispatches to the handler. Parsing the command line itself is the
  library's and is not modelled.
\<close>

datatype cli_command =
    CmdAdd string string string
  | CmdRm string bool
  | CmdEdit string string
  | CmdSync
  | CmdList bool

fun main :: "cli_command \<Rightarrow> unit io" where
  "main (CmdAdd app_name app_command icon) = add_appimage app_name app_command icon"
| "main (CmdRm app_command delete) = remove_appimage app_command delete"
| "main (CmdEdit old_command new_command) = edit_command old_command new_command"
| "main CmdSync = sync_appimages"
| "main (CmdList verbose) = list_appimages verbose"

subsection \<open>Every successful command leaves a loadable, well-formed registry\<close>

text \<open>
  Each handler either only prints (unknown command, \<open>list\<close>) or ends by saving a
  registry built from the loaded one by \<open>AList.update\<close>, \<open>AList.delete\<close> or the
  re-keying of \<open>edit\<close>, followed by prints; saving writes the whole JSON text, so the
  next load returns the saved registry.
\<close>

lemma sync_appimages_Inr_registry:
  assumes "sync_appimages w = (Inr (), w')"
  shows "\<exists>config. load_config w' = (Inr config, w') \<and> wf_jdoc config"
proof -
  obtain c0 w1 where ld: "load_config w = (Inr c0, w)"
    and sv: "save_config (fst (sync_loop w c0 (sync_scan w)))
           (w\<lparr>stdout := stdout w @ snd (sync_loop w c0 (sync_scan w))\<rparr>) = (Inr (), w1)"
    and w': "w' = w1\<lparr>stdout := stdout w1 @ [''Sync completed'']\<rparr>"
    using sync_appimages_Inr [OF assms] by blast
  have "wf_jdoc (fst (sync_loop w c0 (sync_scan w)))" by (rule sync_loop_wf [OF load_config_wf [OF ld]])
  then show ?thesis using save_config_loads [OF _ sv] w' by auto
qed

lemma edit_command_Inr_registry:
  assumes "edit_command old new w = (Inr (), w')"
  shows "\<exists>config. load_config w' = (Inr config, w') \<and> wf_jdoc config"
  using assms unfolding edit_command_def
  apply (elim load_config_bindE_InrE)
  subgoal premises p for config
    using p(3) p(1,2)
    by (cases "map_of config old")
      (auto simp: Let_def edit_rekey_wf [OF p(2)] elim!: bindE_InrE thenE_InrE
        dest!: save_config_loads [OF edit_rekey_wf [OF p(2)], rotated])
  done

lemma remove_appimage_Inr_registry:
  assumes "remove_appimage c d w = (Inr (), w')"
  shows "\<exists>config. load_config w' = (Inr config, w') \<and> wf_jdoc config"
  using assms unfolding remove_appimage_def
  apply (elim load_config_bindE_InrE)
  subgoal premises p for config
    using p(3) p(1,2)
    by (cases "map_of config c")
      (auto simp: wf_jdoc_delete [OF p(2)] elim!: bindE_InrE thenE_InrE dest!: save_config_loads [rotated])
  done

lemma add_appimage_Inr_registry:
  assumes "add_appimage app_name cmd icon w = (Inr (), w')"
  shows "\<exists>config. load_config w' = (Inr config, w') \<and> wf_jdoc config"
  using assms unfolding add_appimage_def
  apply (elim load_config_bindE_InrE)
  subgoal premises p for config
    using p(3) p(1,2) unfolding install_appimage_def Let_def
    by (auto simp: wf_jdoc_update [OF p(2)] add_record_def elim!: bindE_InrE thenE_InrE
        dest!: save_config_loads [rotated] split: option.splits)
  done

lemma list_appimages_frame:
  assumes "list_appimages v w = (r, w')"
  shows "fs w' = fs w \<and> home w' = home w"
proof -
  obtain r0 where ld: "load_config w = (r0, w)" using load_config_world by (metis surj_pair)
  show ?thesis
  proof (cases r0)
    case (Inl e)
    then show ?thesis using assms ld by (simp add: list_appimages_def bindE_def)
  next
    case (Inr config)
    then show ?thesis using assms ld
      by (auto simp: list_appimages_def bindE_def thenE_def getitem_def split: prod.splits sum.splits if_splits
          option.splits dest!: forE_frame)
  qed
qed

lemma list_appimages_Inr_registry:
  assumes "list_appimages v w = (Inr (), w')"
  shows "\<exists>config. load_config w' = (Inr config, w') \<and> wf_jdoc config"
proof -
  obtain config where ld: "load_config w = (Inr config, w)" and wf: "wf_jdoc config"
    using assms unfolding list_appimages_def by (rule load_config_bindE_InrE)
  have "fs w' = fs w \<and> home w' = home w" by (rule list_appimages_frame [OF assms])
  then have "load_config w' = (fst (load_config w), w')" by (intro load_config_frame) (simp_all add: lookup_fs_def)
  then show ?thesis using ld wf by simp
qed

lemma main_Inr_registry:
  "main cmd w = (Inr (), w') \<Longrightarrow> \<exists>config. load_config w' = (Inr config, w') \<and> wf_jdoc config"
  by (cases cmd) (auto intro: add_appimage_Inr_registry remove_appimage_Inr_registry edit_command_Inr_registry
      sync_appimages_Inr_registry list_appimages_Inr_registry)

end
