(* ===== verification/Spec2Isabelle.thy ===== *)
theory Spec2Isabelle
  imports Prelude PyStr FileSystem Json Registry Sync Remove Edit ListApps Add Cli
begin

text \<open>
  \<^bold>\<open>A verification of AppImageManager (\<open>src/app.py\<close>).\<close>

  The program is one Python script. It manages AppImage bundles for one user through a
  JSON registry, \<open>~/.appimage_installer_config.json\<close>, which maps each launch command
  to a record of five strings: \<open>app_name\<close>, \<open>appimage_path\<close>, \<open>desktop_file\<close>,
  \<open>launcher_path\<close> and \<open>original_path\<close>. Five subcommands are dispatched by
  \<open>main\<close>: \<open>add\<close>, \<open>rm\<close>, \<open>edit\<close>, \<open>sync\<close> and \<open>list\<close>. Each of them loads
  the registry, works on the file system, and (except \<open>list\<close>) saves the registry.

  \<^bold>\<open>Theories.\<close> Each theory models one part of the program.
  \<^item> \<open>Prelude\<close>: the Python dictionary is an association list (\<open>AList.update\<close>,
    \<open>AList.delete\<close>, \<open>map_of\<close>). A statement is a function from the state to an
    exception-or-value result and the next state (\<open>returnE\<close>, \<open>raiseE\<close>,
    \<open>bindE\<close>, \<open>thenE\<close>, \<open>forE\<close>). \<open>py_error\<close> lists the exceptions that can
    escape, \<open>SystemExit\<close> included.
  \<^item> \<open>PyStr\<close>: the string functions the script uses. These are \<open>str(int)\<close> and
    \<open>int()\<close>, \<open>strip\<close>, \<open>lower\<close> on Latin-1, \<open>replace\<close>, \<open>repr\<close>, and the
    \<open>pathlib\<close> operations \<open>/\<close>, \<open>name\<close>, \<open>parent\<close>, \<open>stem\<close> and
    \<open>glob\<close> matching of \<open>a*b\<close>.
  \<^item> \<open>FileSystem\<close>: the state is a record \<open>world\<close>. It holds a flat map from
    absolute paths to regular files (content and execute bit) or directories, the home
    directory, the \<open>PATH\<close> directories, the input lines still to be typed and the lines
    printed so far. It also defines the library calls the script makes, each with the
    exceptions it raises: \<open>open("w").write\<close>, \<open>chmod\<close>, \<open>unlink\<close>,
    \<open>os.rename\<close>, \<open>shutil.move\<close>, \<open>mkdir\<close>, \<open>glob\<close>, \<open>shutil.which\<close>,
    \<open>input\<close> and \<open>print\<close>.
  \<^item> \<open>Json\<close>: \<open>json.dump(indent=2)\<close> and \<open>json.load\<close>, restricted to the shape the
    registry has: an object of objects of strings. The round trip \<open>json_roundtrip\<close>
    holds for every dictionary without duplicate keys.
  \<^item> \<open>Registry\<close> (lines 10--30 and 99--110): \<open>config_file\<close>, \<open>load_config\<close>,
    \<open>save_config\<close>, \<open>get_user_input\<close>, \<open>check_command_exists\<close> and
    \<open>get_unique_command\<close>. The suffix loop of \<open>get_unique_command\<close> is a
    \<open>while_option\<close> (\<open>unique_counter\<close>). It is proved to terminate because every
    counter it tries names a distinct executable file, and there are finitely many files.
  \<^item> \<open>Sync\<close> (lines 33--66): \<open>sync_appimages\<close>. The loop is the pure function
    \<open>sync_loop\<close> of the world, the registry and the scanned paths. It returns the new
    registry and the lines to print, which the handler prints before saving.
  \<^item> \<open>Add\<close> (lines 69--193): \<open>select_appimage\<close>, with the numbered-choice loop
    \<open>choose_loop\<close>. That loop is a \<open>function\<close> whose measure is the number of input lines
    left, since every attempt consumes one line and input ends in \<open>EOFError\<close>. Also
    \<open>create_desktop_file\<close>, \<open>resolve_command\<close> (lines 149--157),
    \<open>install_appimage\<close> (lines 159--193) and \<open>add_appimage\<close>.
  \<^item> \<open>Remove\<close> (lines 196--229), \<open>ListApps\<close> (232--248), \<open>Edit\<close> (251--281).
  \<^item> \<open>Cli\<close> (lines 284--333): the parsed command line as the datatype
    \<open>cli_command\<close> and the dispatch \<open>main\<close>.
  \<^item> This theory: the reachability relation \<open>reachable\<close> of worlds under successful
    commands, and properties that span several commands.

  \<^bold>\<open>What is proved.\<close> The claims C1 to C25 carry their statements in the text
  before each of them.
  \<^item> The registry store round-trips (C1).
  \<^item> \<open>get_unique_command\<close> terminates and returns the least free numbered command
    (C3, C4).
  \<^item> Each handler is proved on its success paths, the whole file system effect included:
    \<open>rm\<close> (C2, C14), \<open>edit\<close> (C5), \<open>sync\<close> (C8, C9), \<open>add\<close> (C10, C11, C18)
    and \<open>list\<close> (C21 to C23).
  \<^item> The error paths are proved: C7, C12, C13, C16, C17 and C20.
  \<^item> Each theory has a section of step lemmas (a run lemma per handler) from which its
    properties follow.
  \<^item> C24 is an invariant proved by rule induction: in every world reachable by successful
    commands from a world whose registry loads, the registry still loads and has unique
    keys.
  \<^item> C25 is the specification's "remove, then list" property.
  \<^item> Several claims pin behaviour that the specification or the intent contradicts:
    C6 (\<open>edit c c\<close> unregisters \<open>c\<close>), C15 (a desktop entry shared by two records is
    deleted), C16 (a name clash in \<open>~/Downloads\<close> aborts \<open>rm\<close> half way), and C19
    and C20 (an empty answer at the collision prompt makes the launcher path the
    launcher directory).

  \<^bold>\<open>Loops and termination.\<close> No fuel is used. Every loop of the script is
  modelled by one of the following, each proved to terminate:
  \<^item> \<open>for\<close> over a list, as structural recursion (\<open>forE\<close>, \<open>sync_loop\<close>);
  \<^item> the input-driven \<open>while True\<close> of \<open>select_appimage\<close>, as a \<open>function\<close> with a
    measure;
  \<^item> the counter loop of \<open>get_unique_command\<close>, as a \<open>while_option\<close> with a
    termination proof.

  \<^bold>\<open>Not modelled.\<close>
  \<^item> \<open>argparse\<close>'s parsing of \<open>argv\<close>: a missing optional argument is the empty
    string, which the handlers test exactly as Python tests \<open>None\<close>.
  \<^item> Path normalisation by \<open>Path()\<close>: paths are kept as the strings the script builds.
  \<^item> Symbolic links, permissions other than the execute bit, and the copy fallback of
    \<open>shutil.move\<close> across file systems.
  \<^item> JSON values other than strings in records: such a file gives
    \<open>JSONDecodeError\<close> here.
  \<^item> Characters beyond Latin-1.
  \<^item> Glob metacharacters inside \<open>app_name\<close>: they are matched literally.
  \<^item> The order of a directory scan is the order of the file-system list, so every
    theorem holds for every scan order.
\<close>

subsection \<open>Runs of successful commands\<close>

text \<open>
  \<open>reachable w0 w\<close>: the world \<open>w\<close> is obtained from \<open>w0\<close> by a sequence of
  command-line invocations of the script, each of which ended normally.
\<close>

inductive reachable :: "world \<Rightarrow> world \<Rightarrow> bool" where
  start: "reachable w w"
| step: "reachable w0 w \<Longrightarrow> main cmd w = (Inr (), w') \<Longrightarrow> reachable w0 w'"

subsection \<open>Properties spanning several commands\<close>

text \<open>
  (C24) Starting from a world whose registry file loads (or is absent), every world
  reached by successful commands, in any order and number, still has a registry file
  that loads, and the registry it holds has unique commands and unique fields in every
  record.
\<close>

theorem registry_invariant:
  assumes "reachable w0 w" and "load_config w0 = (Inr c0, w0)"
  shows "\<exists>c. load_config w = (Inr c, w) \<and> wf_jdoc c"
  using assms
proof (induction rule: reachable.induct)
  case (start w)
  then show ?case using load_config_wf by blast
next
  case (step w0 w cmd w')
  then show ?case using main_Inr_registry by blast
qed

text \<open>
  (C25) The specification's "remove followed by list" property, for \<open>rm -d\<close>: after a
  successful removal, \<open>list\<close> prints exactly the remaining commands, in registry order,
  and the removed one is not among them; the bundle is gone from disk.
\<close>

theorem rm_then_list:
  assumes load: "load_config w = (Inr config, w)"
    and home: "norm_dir (home w)" "is_dir w (home w)"
    and rec: "map_of config c = Some info"
    and fd: "map_of info ''desktop_file'' = Some dsk"
    and fl: "map_of info ''launcher_path'' = Some lnc"
    and fi: "map_of info ''appimage_path'' = Some img"
    and files: "lookup_fs w dsk = Some (File d1 x1)" "lookup_fs w lnc = Some (File d2 x2)"
      "lookup_fs w img = Some (File b x)"
    and dist: "distinct [dsk, lnc, img, config_file w]"
    and names: "\<forall>(k, r) \<in> set config. map_of r ''app_name'' \<noteq> None"
    and others: "AList.delete c config \<noteq> []"
  shows "\<exists>w1 w2. main (CmdRm c True) w = (Inr (), w1) \<and> main (CmdList False) w1 = (Inr (), w2)
           \<and> stdout w2 = stdout w1 @ map (\<lambda>(k, r). k @ '': '' @ the (map_of r ''app_name'')) (AList.delete c config)
                          @ [''List of all installed AppImages'']
           \<and> c \<notin> set (map fst (AList.delete c config))
           \<and> lookup_fs w2 img = None"
proof -
  obtain w1 where r: "remove_appimage c True w = (Inr (), w1)"
    and ld: "load_config w1 = (Inr (AList.delete c config), w1)" and gone: "lookup_fs w1 img = None"
    using remove_deletes_run [OF load home rec fd fl fi files dist] by blast
  have nm: "\<forall>(k, r) \<in> set (AList.delete c config). map_of r ''app_name'' \<noteq> None"
    using names by (auto simp: AList.delete_eq)
  have "list_appimages False w1 = (Inr (), w1\<lparr>stdout := stdout w1
           @ map (\<lambda>(k, r). k @ '': '' @ the (map_of r ''app_name'')) (AList.delete c config)
           @ [''List of all installed AppImages'']\<rparr>)"
    using ld others forE_terse [OF nm, of w1] by (simp add: list_appimages_def bindE_def thenE_def)
  then show ?thesis using r gone by (auto simp: AList.delete_keys)
qed

subsection \<open>Witnesses\<close>

theorem registry_invariant_witness:
  "\<exists>w1. main CmdSync \<lparr>fs = [(''/h'', Dir), (''/h/.appimages'', Dir), (''/h/.appimages/Foo.AppImage'', File ''b'' True),
         (''/h/.local'', Dir), (''/h/.local/bin'', Dir), (''/h/.local/bin/foo'', File ''l'' True),
         (''/h/.local/share'', Dir), (''/h/.local/share/applications'', Dir),
         (''/h/.local/share/applications/Foo.desktop'', File ''d'' False)],
       home = ''/h'', path_env = [], stdin = [], stdout = []\<rparr> = (Inr (), w1)
     \<and> reachable \<lparr>fs = [(''/h'', Dir), (''/h/.appimages'', Dir), (''/h/.appimages/Foo.AppImage'', File ''b'' True),
         (''/h/.local'', Dir), (''/h/.local/bin'', Dir), (''/h/.local/bin/foo'', File ''l'' True),
         (''/h/.local/share'', Dir), (''/h/.local/share/applications'', Dir),
         (''/h/.local/share/applications/Foo.desktop'', File ''d'' False)],
       home = ''/h'', path_env = [], stdin = [], stdout = []\<rparr> w1 \<and> (\<exists>c. load_config w1 = (Inr c, w1) \<and> wf_jdoc c)"
proof -
  have "case main CmdSync \<lparr>fs = [(''/h'', Dir), (''/h/.appimages'', Dir), (''/h/.appimages/Foo.AppImage'', File ''b'' True),
         (''/h/.local'', Dir), (''/h/.local/bin'', Dir), (''/h/.local/bin/foo'', File ''l'' True),
         (''/h/.local/share'', Dir), (''/h/.local/share/applications'', Dir),
         (''/h/.local/share/applications/Foo.desktop'', File ''d'' False)],
       home = ''/h'', path_env = [], stdin = [], stdout = []\<rparr> of (Inr (), _) \<Rightarrow> True | _ \<Rightarrow> False"
    by code_simp
  then obtain w1 where r: "main CmdSync \<lparr>fs = [(''/h'', Dir), (''/h/.appimages'', Dir), (''/h/.appimages/Foo.AppImage'', File ''b'' True),
         (''/h/.local'', Dir), (''/h/.local/bin'', Dir), (''/h/.local/bin/foo'', File ''l'' True),
         (''/h/.local/share'', Dir), (''/h/.local/share/applications'', Dir),
         (''/h/.local/share/applications/Foo.desktop'', File ''d'' False)],
       home = ''/h'', path_env = [], stdin = [], stdout = []\<rparr> = (Inr (), w1)"
    by (auto split: prod.splits sum.splits)
  have re: "reachable \<lparr>fs = [(''/h'', Dir), (''/h/.appimages'', Dir), (''/h/.appimages/Foo.AppImage'', File ''b'' True),
         (''/h/.local'', Dir), (''/h/.local/bin'', Dir), (''/h/.local/bin/foo'', File ''l'' True),
         (''/h/.local/share'', Dir), (''/h/.local/share/applications'', Dir),
         (''/h/.local/share/applications/Foo.desktop'', File ''d'' False)],
       home = ''/h'', path_env = [], stdin = [], stdout = []\<rparr> w1" by (rule reachable.step [OF reachable.start r])
  have ld: "load_config \<lparr>fs = [(''/h'', Dir), (''/h/.appimages'', Dir), (''/h/.appimages/Foo.AppImage'', File ''b'' True),
         (''/h/.local'', Dir), (''/h/.local/bin'', Dir), (''/h/.local/bin/foo'', File ''l'' True),
         (''/h/.local/share'', Dir), (''/h/.local/share/applications'', Dir),
         (''/h/.local/share/applications/Foo.desktop'', File ''d'' False)],
       home = ''/h'', path_env = [], stdin = [], stdout = []\<rparr> = (Inr [], \<lparr>fs = [(''/h'', Dir), (''/h/.appimages'', Dir), (''/h/.appimages/Foo.AppImage'', File ''b'' True),
         (''/h/.local'', Dir), (''/h/.local/bin'', Dir), (''/h/.local/bin/foo'', File ''l'' True),
         (''/h/.local/share'', Dir), (''/h/.local/share/applications'', Dir),
         (''/h/.local/share/applications/Foo.desktop'', File ''d'' False)],
       home = ''/h'', path_env = [], stdin = [], stdout = []\<rparr>)"
    by (simp add: load_config_def config_file_def path_join_def path_exists_def lookup_fs_def)
  show ?thesis using r re registry_invariant [OF re ld] by blast
qed

theorem rm_then_list_witness:
  "\<exists>w1 w2. main (CmdRm ''foo'' True)
      \<lparr>fs = [(''/h'', Dir),
         (''/h/.appimage_installer_config.json'', File (json_dumps [(''foo'', [(''app_name'', ''Foo''),
            (''desktop_file'', ''/h/foo.desktop''), (''launcher_path'', ''/h/foo''), (''appimage_path'', ''/h/Foo.AppImage'')]),
            (''bar'', [(''app_name'', ''Bar'')])]) False),
         (''/h/foo.desktop'', File ''d'' False), (''/h/foo'', File ''l'' True), (''/h/Foo.AppImage'', File ''b'' True)],
       home = ''/h'', path_env = [], stdin = [], stdout = []\<rparr> = (Inr (), w1)
    \<and> main (CmdList False) w1 = (Inr (), w2)
    \<and> stdout w2 = stdout w1 @ [''bar: Bar'', ''List of all installed AppImages'']
    \<and> lookup_fs w2 ''/h/Foo.AppImage'' = None"
proof -
  define info where "info = [(''app_name'', ''Foo''), (''desktop_file'', ''/h/foo.desktop''), (''launcher_path'', ''/h/foo''),
     (''appimage_path'', ''/h/Foo.AppImage'')]"
  define cfg where "cfg = [(''foo'', info), (''bar'', [(''app_name'', ''Bar'')])]"
  define w where "w = \<lparr>fs = [(''/h'', Dir), (''/h/.appimage_installer_config.json'', File (json_dumps cfg) False),
         (''/h/foo.desktop'', File ''d'' False), (''/h/foo'', File ''l'' True), (''/h/Foo.AppImage'', File ''b'' True)],
       home = ''/h'', path_env = [], stdin = [], stdout = []\<rparr>"
  have wf: "wf_jdoc cfg" by (simp add: cfg_def info_def wf_jdoc_def)
  have cf: "config_file w = ''/h/.appimage_installer_config.json''" by (simp add: w_def config_file_def path_join_def)
  have lk: "lookup_fs w (config_file w) = Some (File (json_dumps cfg) False)" by (simp only: cf, simp add: w_def lookup_fs_def)
  have load: "load_config w = (Inr cfg, w)" by (simp add: load_config_def path_exists_def lk json_roundtrip [OF wf])
  have hd: "norm_dir (home w)" "is_dir w (home w)" by (simp_all add: w_def norm_dir_def is_dir_def lookup_fs_def)
  have rec: "map_of cfg ''foo'' = Some info" by (simp add: cfg_def)
  have fm: "map_of info ''desktop_file'' = Some ''/h/foo.desktop''" "map_of info ''launcher_path'' = Some ''/h/foo''"
    "map_of info ''appimage_path'' = Some ''/h/Foo.AppImage''" by (simp_all add: info_def)
  have fs: "lookup_fs w ''/h/foo.desktop'' = Some (File ''d'' False)" "lookup_fs w ''/h/foo'' = Some (File ''l'' True)"
    "lookup_fs w ''/h/Foo.AppImage'' = Some (File ''b'' True)" by (simp_all add: w_def lookup_fs_def)
  have ds: "distinct [''/h/foo.desktop'', ''/h/foo'', ''/h/Foo.AppImage'', config_file w]" by (simp add: cf)
  have nm: "\<forall>(k, r) \<in> set cfg. map_of r ''app_name'' \<noteq> None" by (simp add: cfg_def info_def)
  have ot: "AList.delete ''foo'' cfg \<noteq> []" by (simp add: cfg_def)
  have "\<exists>w1 w2. main (CmdRm ''foo'' True) w = (Inr (), w1) \<and> main (CmdList False) w1 = (Inr (), w2)
           \<and> stdout w2 = stdout w1 @ map (\<lambda>(k, r). k @ '': '' @ the (map_of r ''app_name'')) (AList.delete ''foo'' cfg)
                          @ [''List of all installed AppImages'']
           \<and> ''foo'' \<notin> set (map fst (AList.delete ''foo'' cfg))
           \<and> lookup_fs w2 ''/h/Foo.AppImage'' = None"
    by (rule rm_then_list [OF load hd rec fm fs ds nm ot])
  then have "\<exists>w1 w2. main (CmdRm ''foo'' True) w = (Inr (), w1) \<and> main (CmdList False) w1 = (Inr (), w2)
           \<and> stdout w2 = stdout w1 @ [''bar: Bar'', ''List of all installed AppImages'']
           \<and> lookup_fs w2 ''/h/Foo.AppImage'' = None"
    by (simp add: cfg_def)
  then show ?thesis by (simp only: w_def cfg_def info_def)
qed

end
